(* ===== verification/Prelude.thy ===== *)
theory Prelude
  imports Complex_Main "HOL-Library.Word"
begin

text \<open>
  Shared vocabulary of the development. JavaScript numbers are modelled as
  \<open>real\<close> (exact arithmetic: IEEE rounding is not modelled, see the header of
  \<open>Spec2Isabelle\<close>), the bytes of a \<open>Uint8Array\<close> as \<open>8 word\<close>, the values of
  \<open>Date.now()\<close> as \<open>int\<close> milliseconds. The collection \<open>model_defs\<close> gathers the
  definitions of the operations, so that a concrete run of the model evaluates with
  \<open>simp add: model_defs\<close>; \<open>approach_simps\<close> gathers the arithmetic facts about
  the exponential approach the render loop uses on every axis.
\<close>

named_theorems model_defs "definitions of the modelled operations, unfolded to evaluate runs"
named_theorems approach_simps "facts about the step p + (t - p) / s towards a target"

type_synonym byte = "8 word"
type_synonym timestamp = int
type_synonym js_number = real


subsection \<open>Joining and splitting strings\<close>

text \<open>\<open>join sep xs\<close> is JavaScript's \<open>xs.join(sep)\<close> on strings; \<open>split_on c s\<close> its
  \<open>s.split(c)\<close> for a one-character separator.\<close>

fun join :: "string \<Rightarrow> string list \<Rightarrow> string" where
  "join sep [] = []"
| "join sep [x] = x"
| "join sep (x # y # zs) = x @ sep @ join sep (y # zs)"

fun split_on :: "char \<Rightarrow> string \<Rightarrow> string list" where
  "split_on c [] = [[]]"
| "split_on c (x # xs) =
     (if x = c then [] # split_on c xs
      else (case split_on c xs of [] \<Rightarrow> [[x]] | f # fs \<Rightarrow> (x # f) # fs))"

subsection \<open>Exponential approach towards a target\<close>

text \<open>
  The render loop moves a value \<open>p\<close> towards a target \<open>t\<close> by
  \<open>p += (t - p) / s\<close>. The gap left after one step is the old gap scaled by
  \<open>1 - 1/s\<close>.
\<close>

definition approach :: "real \<Rightarrow> real \<Rightarrow> real \<Rightarrow> real" where
  "approach s t p = p + (t - p) / s"

lemma approach_gap [approach_simps]:
  "t - approach s t p = (t - p) * (1 - 1 / s)"
  by (simp add: approach_def algebra_simps diff_divide_distrib)

lemma approach_factor_bounds [approach_simps]:
  assumes "1 \<le> (s :: real)"
  shows "0 \<le> 1 - 1 / s" and "1 - 1 / s < 1"
proof -
  from assms show "0 \<le> 1 - 1 / s" by (simp add: divide_le_eq_1)
  from assms show "1 - 1 / s < 1" by simp
qed

lemma approach_contracts [approach_simps]:
  assumes "1 \<le> s"
  shows "\<bar>t - approach s t p\<bar> \<le> \<bar>t - p\<bar>"
proof -
  have "\<bar>t - approach s t p\<bar> = \<bar>t - p\<bar> * (1 - 1 / s)"
    using approach_factor_bounds(1) [OF assms] by (simp add: approach_gap abs_mult)
  also have "\<dots> \<le> \<bar>t - p\<bar>"
    using approach_factor_bounds [OF assms] by (simp add: mult_left_le)
  finally show ?thesis .
qed

lemma approach_fixed [simp]: "approach s t t = t"
  by (simp add: approach_def)

lemma approach_factor [approach_simps]:
  assumes "4 \<le> (s :: real)"
  shows "3 / 4 \<le> 1 - 1 / s" and "1 - 1 / s < 1"
  using assms by (simp_all add: field_simps)

subsection \<open>Sines of the angles the gravity mapping reaches\<close>

lemma pi_mult_range:
  assumes "a \<le> c" "c \<le> b"
  shows "pi * a \<le> pi * c" "pi * c \<le> pi * b"
  using assms by (simp_all add: mult_left_mono)

text \<open>On \<open>[-5\<pi>/4, \<pi>/4]\<close> the sine stays below its value at both ends.\<close>

lemma sin_le_sqrt2_half:
  assumes "- (5 * pi / 4) \<le> x" "x \<le> pi / 4"
  shows "sin x \<le> sqrt 2 / 2"
proof (cases "- (pi / 2) \<le> x")
  case True
  have "sin x \<le> sin (pi / 4)" using True assms by (intro sin_monotone_2pi_le) auto
  then show ?thesis by (simp add: sin_45)
next
  case False
  show ?thesis
  proof (cases "- pi \<le> x")
    case True
    have "0 \<le> sin (- x)" using True False by (intro sin_ge_zero) auto
    then have "sin x \<le> 0" by simp
    moreover have "0 \<le> sqrt 2 / 2" by simp
    ultimately show ?thesis by linarith
  next
    case c2: False
    have eq: "sin x = sin (- pi - x)" by (simp add: sin_diff)
    have "sin (- pi - x) \<le> sin (pi / 4)" using c2 assms by (intro sin_monotone_2pi_le) auto
    then show ?thesis using eq by (simp add: sin_45)
  qed
qed

lemma sin_5pi_4: "sin (5 * pi / 4) = - (sqrt 2 / 2)"
proof -
  have "5 * pi / 4 = pi / 4 + pi" by simp
  then have "sin (5 * pi / 4) = - sin (pi / 4)" by (simp only: sin_periodic_pi)
  then show ?thesis by (simp add: sin_45)
qed

lemma sin_3pi_4: "sin (3 * pi / 4) = sqrt 2 / 2"
proof -
  have "3 * pi / 4 = pi - pi / 4" by simp
  then have "sin (3 * pi / 4) = sin (pi / 4)" by (simp only: sin_pi_minus)
  then show ?thesis by (simp add: sin_45)
qed

subsection \<open>Bytes\<close>

lemma byte_unat_le [simp]: "unat (b :: byte) \<le> 255"
  using unsigned_less [of b, where ?'a = nat] by simp

lemma byte_real_bounds: "0 \<le> real (unat (b :: byte))" "real (unat (b :: byte)) \<le> 255"
proof -
  show "0 \<le> real (unat b)" by (rule of_nat_0_le_iff)
  have "unat b \<le> 255" by (rule byte_unat_le)
  then show "real (unat b) \<le> 255" by (metis of_nat_le_iff of_nat_numeral)
qed


subsection \<open>Lists of pairs\<close>

text \<open>A loop that appends two items per iteration: the items of iteration \<open>i\<close> are
  at positions \<open>2 i\<close> and \<open>2 i + 1\<close>.\<close>

lemma length_concat_pairs: "\<forall>j. length (f j) = 2 \<Longrightarrow> length (concat (map f [0..<n])) = 2 * n"
  by (induction n) simp_all

lemma take_drop_concat_pairs:
  assumes "\<forall>j. length (f j) = 2" "i < n"
  shows "take 2 (drop (2 * i) (concat (map f [0..<n]))) = f i"
  using assms(2)
proof (induction n)
  case 0
  then show ?case by simp
next
  case (Suc n)
  show ?case
  proof (cases "i < n")
    case True
    have "2 * i + 2 \<le> length (concat (map f [0..<n]))"
      using True length_concat_pairs [OF assms(1), of n] by simp
    then show ?thesis using Suc.IH [OF True] by simp
  next
    case False
    then have "i = n" using Suc.prems by simp
    then show ?thesis using length_concat_pairs [OF assms(1), of n] assms(1) by simp
  qed
qed


subsection \<open>Facts on join and split\<close>

lemma split_on_no_sep: "c \<notin> set s \<Longrightarrow> split_on c s = [s]"
  by (induction s) auto

lemma split_on_append_sep:
  "c \<notin> set s \<Longrightarrow> split_on c (s @ c # t) = s # split_on c t"
proof (induction s)
  case Nil
  then show ?case by simp
next
  case (Cons x s)
  then show ?case by auto
qed

lemma split_on_join:
  "fs \<noteq> [] \<Longrightarrow> \<forall>f \<in> set fs. c \<notin> set f \<Longrightarrow> split_on c (join [c] fs) = fs"
  by (induction "[c]" fs rule: join.induct) (simp_all add: split_on_no_sep split_on_append_sep)


lemma split_on_not_Nil [simp]: "split_on c s \<noteq> []"
  by (induction s) (auto split: list.split)

lemma split_on_append:
  "split_on c (a @ c # b) = split_on c a @ split_on c b"
proof (induction a)
  case Nil
  then show ?case by simp
next
  case (Cons x a)
  then show ?case
    by (cases "split_on c a") (auto split: list.split)
qed

lemma join_split_on: "join [c] (split_on c s) = s"
proof (induction s)
  case Nil
  then show ?case by simp
next
  case (Cons x s)
  then show ?case
    by (cases "split_on c s" rule: remdups_adj.cases) (auto split: list.split)
qed

lemma join_Cons: "join sep (x # xs) = (if xs = [] then x else x @ sep @ join sep xs)"
  by (cases xs) simp_all

lemma split_on_join_concat: "fs \<noteq> [] \<Longrightarrow> split_on c (join [c] fs) = concat (map (split_on c) fs)"
  by (induction fs) (auto simp: join_Cons split_on_append)

lemma set_split_on: "f \<in> set (split_on c s) \<Longrightarrow> set f \<subseteq> set s - {c}"
proof (induction s arbitrary: f)
  case Nil
  then show ?case by simp
next
  case (Cons y s)
  have ih: "\<And>g. g \<in> set (split_on c s) \<Longrightarrow> set g \<subseteq> set s - {c}" by (rule Cons.IH)
  note f = Cons.prems
  show ?case
  proof (cases "split_on c s")
    case Nil
    then show ?thesis by simp
  next
    case (Cons a l)
    then have "set a \<subseteq> set s - {c}" "\<forall>g \<in> set l. set g \<subseteq> set s - {c}" using ih by simp_all
    then show ?thesis using f Cons by (auto split: if_splits)
  qed
qed
end
