(* ===== verification/StateMachine.thy ===== *)
theory StateMachine
  imports Prelude
begin

text \<open>
  The state protocol of \<open>src/src/js/Application.js\<close>: the application holds one
  current state (\<open>_state\<close>, \<open>undefined\<close> at start) and \<open>changeState\<close> moves
  to another. A state is an object with \<open>enter\<close>, \<open>execute\<close> and \<open>exit\<close>; the
  three are a record of functions over the rest of the program's state (the world),
  so that the protocol is stated once, for every instance. None of the callbacks can
  reach \<open>_state\<close> itself: the states of this program only change the state from
  asynchronous callbacks, never synchronously from \<open>enter\<close>, \<open>execute\<close> or
  \<open>exit\<close>.
\<close>

record ('st, 'w) machine =
  current :: "'st option"
  world :: 'w

record ('st, 'w) state_ops =
  enter :: "'st \<Rightarrow> 'w \<Rightarrow> 'w"
  execute :: "'st \<Rightarrow> 'w \<Rightarrow> 'w"
  exit :: "'st \<Rightarrow> 'w \<Rightarrow> 'w"

text \<open>
  \<open>changeState(newState)\<close>: nothing when \<open>newState\<close> is the current state
  (\<open>!==\<close> on the state objects, which are singletons, so equality of the state
  names); otherwise the old state's \<open>exit\<close> if there is one, then the assignment,
  then \<open>enter\<close> and \<open>execute\<close> of the new state if it is not \<open>undefined\<close>.
\<close>

definition change_state ::
  "('st, 'w) state_ops \<Rightarrow> 'st option \<Rightarrow> ('st, 'w) machine \<Rightarrow> ('st, 'w) machine" where
  "change_state ops new m =
     (if current m \<noteq> new then
        (let w = (case current m of None \<Rightarrow> world m | Some old \<Rightarrow> exit ops old (world m))
         in (case new of
               None \<Rightarrow> \<lparr>current = None, world = w\<rparr>
             | Some n \<Rightarrow> \<lparr>current = Some n, world = execute ops n (enter ops n w)\<rparr>))
      else m)"

text \<open>A world that only records the calls, to state the order of the callbacks.\<close>

datatype 'st call = Enter 'st | Execute 'st | Exit 'st

definition log_ops :: "('st, 'st call list) state_ops" where
  "log_ops = \<lparr>enter = (\<lambda>n w. w @ [Enter n]), execute = (\<lambda>n w. w @ [Execute n]),
              exit = (\<lambda>n w. w @ [Exit n])\<rparr>"

declare change_state_def [model_defs]

subsection \<open>Behaviour of changeState\<close>

lemma current_change_state [simp]: "current (change_state ops new m) = new"
  by (auto simp: change_state_def Let_def split: option.splits)

lemma change_state_noop [simp]: "change_state ops (current m) m = m"
  by (simp add: change_state_def)

lemma change_state_Some:
  "current m \<noteq> Some n \<Longrightarrow>
   change_state ops (Some n) m =
     \<lparr>current = Some n,
      world = execute ops n (enter ops n
        (case current m of None \<Rightarrow> world m | Some old \<Rightarrow> exit ops old (world m)))\<rparr>"
  by (simp add: change_state_def)

text \<open>C1: calling \<open>changeState\<close> twice in a row with the same state runs no callback the
  second time: the second call returns its argument unchanged.\<close>

theorem change_state_idempotent:
  "change_state ops new (change_state ops new m) = change_state ops new m"
proof -
  have "current (change_state ops new m) = new" by simp
  then show ?thesis using change_state_noop [of ops "change_state ops new m"] by simp
qed

text \<open>C2: \<open>changeState\<close> calls \<open>exit\<close> of the old state (if any) strictly before
  \<open>enter\<close> of the new state, and \<open>enter\<close> strictly before \<open>execute\<close>; when the
  state does not change, it calls nothing.\<close>

theorem change_state_call_order:
  "world (change_state log_ops new m) =
     world m @
     (if current m = new then []
      else (case current m of None \<Rightarrow> [] | Some old \<Rightarrow> [Exit old]) @
           (case new of None \<Rightarrow> [] | Some n \<Rightarrow> [Enter n, Execute n]))"
  by (auto simp: change_state_def log_ops_def Let_def split: option.splits)

end
