(* ===== verification/Utils.thy ===== *)
theory Utils
  imports Prelude
begin

text \<open>
  The page the program writes to and the helpers of \<open>src/src/js/Utils.js\<close>. The
  page is the part of the DOM the code touches: the elements it looks up by id, their
  class lists, text contents and attributes. \<open>removeCSSClass\<close> and
  \<open>addCSSClass\<close> are modelled here on their \<open>classList\<close> branch (a
  \<open>DOMTokenList\<close>: \<open>add\<close> appends a token that is not there, \<open>remove\<close>
  removes every occurrence); their fallback for browsers without \<open>classList\<close>, which
  rewrites \<open>className\<close>, is the theory \<open>ClassName\<close>.
  \<open>ajaxGet\<close> is its callback guard, \<open>getRandomArbitrary\<close> and
  \<open>getRandomInteger\<close> are functions of the value \<open>Math.random()\<close> returned.
\<close>

datatype element =
    Loader | PlayButton | LaunchExperience | TrackInfo | TrackArtist | TrackTitle
  | TrackAlbum | TrackArtistLink | TrackCoverLink | TrackArtwork | InfoNotice
  | GithubLink | AboutLink | AboutModal | AboutModalClose

record dom =
  class_list :: "element \<Rightarrow> string list"
  text_content :: "element \<Rightarrow> string"
  attribute :: "element \<Rightarrow> string \<Rightarrow> string option"

subsection \<open>CSS classes\<close>

definition remove_css_class :: "element \<Rightarrow> string \<Rightarrow> dom \<Rightarrow> dom" where
  "remove_css_class e c d =
     d\<lparr>class_list := (class_list d)(e := filter (\<lambda>x. x \<noteq> c) (class_list d e))\<rparr>"

definition add_css_class :: "element \<Rightarrow> string \<Rightarrow> dom \<Rightarrow> dom" where
  "add_css_class e c d =
     (if c \<in> set (class_list d e) then d
      else d\<lparr>class_list := (class_list d)(e := class_list d e @ [c])\<rparr>)"

definition set_attribute :: "element \<Rightarrow> string \<Rightarrow> string \<Rightarrow> dom \<Rightarrow> dom" where
  "set_attribute e a v d = d\<lparr>attribute := (attribute d)(e := (attribute d e)(a := Some v))\<rparr>"

definition set_text :: "element \<Rightarrow> string \<Rightarrow> dom \<Rightarrow> dom" where
  "set_text e t d = d\<lparr>text_content := (text_content d)(e := t)\<rparr>"

subsection \<open>ajaxGet\<close>

text \<open>
  \<open>ajaxGet\<close> (lines 28--39) calls its callback with the response text on the
  \<open>readystatechange\<close> where the request is done (\<open>readyState\<close> 4) with status
  200; every other change of state, and a failed request, calls nothing.
\<close>

definition ajax_callback_fires :: "nat \<Rightarrow> nat \<Rightarrow> bool \<Rightarrow> bool" where
  "ajax_callback_fires ready_state status callback_is_function \<longleftrightarrow>
     ready_state = 4 \<and> status = 200 \<and> callback_is_function"

subsection \<open>Random numbers\<close>

text \<open>\<open>Math.random()\<close> returns \<open>r\<close> with \<open>0 \<le> r < 1\<close>.\<close>

definition get_random_arbitrary :: "real \<Rightarrow> real \<Rightarrow> real \<Rightarrow> real" where
  "get_random_arbitrary r min_v max_v = r * (max_v - min_v) + min_v"

definition get_random_integer :: "real \<Rightarrow> int \<Rightarrow> int \<Rightarrow> int" where
  "get_random_integer r min_v max_v = \<lfloor>r * real_of_int (max_v - min_v + 1)\<rfloor> + min_v"

lemmas utils_defs [model_defs] =
  remove_css_class_def add_css_class_def set_attribute_def set_text_def
  ajax_callback_fires_def get_random_arbitrary_def get_random_integer_def

subsection \<open>Properties of the helpers\<close>

lemma remove_css_class_list [simp]:
  "class_list (remove_css_class e c d) e' =
     (if e' = e then filter (\<lambda>x. x \<noteq> c) (class_list d e) else class_list d e')"
  by (simp add: remove_css_class_def)

lemma add_css_class_list [simp]:
  "class_list (add_css_class e c d) e' =
     (if e' = e \<and> c \<notin> set (class_list d e) then class_list d e @ [c] else class_list d e')"
  by (simp add: add_css_class_def)

lemma css_class_other_fields [simp]:
  "text_content (remove_css_class e c d) = text_content d"
  "attribute (remove_css_class e c d) = attribute d"
  "text_content (add_css_class e c d) = text_content d"
  "attribute (add_css_class e c d) = attribute d"
  by (simp_all add: remove_css_class_def add_css_class_def)

lemma get_random_arbitrary_range:
  assumes "0 \<le> r" "r < 1" "lo < hi"
  shows "lo \<le> get_random_arbitrary r lo hi" "get_random_arbitrary r lo hi < hi"
proof -
  have "r * (hi - lo) < 1 * (hi - lo)"
    using assms by (intro mult_strict_right_mono) simp_all
  moreover have "0 \<le> r * (hi - lo)" using assms by simp
  ultimately show "lo \<le> get_random_arbitrary r lo hi" "get_random_arbitrary r lo hi < hi"
    by (simp_all add: get_random_arbitrary_def)
qed

text \<open>\<open>Math.floor\<close> of a random number between two integers \<open>lo < hi\<close> is an
  integer of \<open>[lo, hi - 1]\<close>: the upper bound \<open>hi\<close> itself is never reached.\<close>

lemma floor_random_arbitrary_range:
  assumes "0 \<le> r" "r < 1" "lo < hi"
  shows "lo \<le> \<lfloor>get_random_arbitrary r (of_int lo) (of_int hi)\<rfloor>"
    and "\<lfloor>get_random_arbitrary r (of_int lo) (of_int hi)\<rfloor> \<le> hi - 1"
proof -
  have "real_of_int lo < real_of_int hi" using assms by simp
  note rng = get_random_arbitrary_range [OF assms(1,2) this]
  from rng(1) show "lo \<le> \<lfloor>get_random_arbitrary r (of_int lo) (of_int hi)\<rfloor>"
    by (simp add: le_floor_iff)
  from rng(2) have "\<lfloor>get_random_arbitrary r (of_int lo) (of_int hi)\<rfloor> < hi"
    by (simp add: floor_less_iff)
  then show "\<lfloor>get_random_arbitrary r (of_int lo) (of_int hi)\<rfloor> \<le> hi - 1" by simp
qed

text \<open>Hiding an element with \<open>addCSSClass\<close> adds the class once (a second call
  changes nothing), and \<open>removeCSSClass\<close> afterwards leaves exactly the element's
  other classes: showing undoes hiding.\<close>

theorem css_class_hide_show:
  "c \<in> set (class_list (add_css_class e c d) e) \<and>
   add_css_class e c (add_css_class e c d) = add_css_class e c d \<and>
   class_list (remove_css_class e c (add_css_class e c d)) e = filter (\<lambda>x. x \<noteq> c) (class_list d e)"
  by (auto simp: add_css_class_def remove_css_class_def)

text \<open>With \<open>Math.random()\<close> in \<open>[0, 1)\<close>, \<open>getRandomArbitrary(min, max)\<close>
  lies in \<open>[min, max)\<close> and \<open>getRandomInteger(min, max)\<close> in \<open>[min, max]\<close>.\<close>

theorem random_helpers_bounds:
  assumes "0 \<le> r" "r < 1" "min_v < max_v" "imin \<le> imax"
  shows "min_v \<le> get_random_arbitrary r min_v max_v \<and> get_random_arbitrary r min_v max_v < max_v \<and>
         imin \<le> get_random_integer r imin imax \<and> get_random_integer r imin imax \<le> imax"
proof -
  have "min_v \<le> get_random_arbitrary r min_v max_v" "get_random_arbitrary r min_v max_v < max_v"
    using get_random_arbitrary_range [OF assms(1-3)] by simp_all
  moreover have "0 \<le> \<lfloor>r * real_of_int (imax - imin + 1)\<rfloor>" using assms by simp
  moreover have "r * real_of_int (imax - imin + 1) < real_of_int (imax - imin + 1)"
    using assms by (intro mult_strict_right_mono [where a = r and b = 1, simplified]) simp_all
  then have "\<lfloor>r * real_of_int (imax - imin + 1)\<rfloor> < imax - imin + 1"
    by (simp only: floor_less_iff)
  ultimately show ?thesis
    by (simp add: get_random_integer_def)
qed

theorem random_helpers_bounds_witness:
  "(5 :: real) \<le> get_random_arbitrary (1 / 2) 5 7 \<and> get_random_arbitrary (1 / 2) 5 7 < 7 \<and>
   (0 :: int) \<le> get_random_integer (1 / 2) 0 255 \<and> get_random_integer (1 / 2) 0 255 \<le> 255"
  using random_helpers_bounds [of "1 / 2" 5 7 0 255] by simp

end
