(* ===== verification/Scene.thy ===== *)
theory Scene
  imports Prelude
begin

text \<open>
  The module \<open>src/src/js/LoadSceneState.js\<close>: the state that builds the scene and
  runs the per-frame animation. Its module variables (\<open>_mouse\<close>, \<open>_gravity\<close>,
  \<open>_mouseObj\<close>, \<open>_nbLoadedResources\<close>, \<open>_shaderTime\<close>, \<open>_oldTime\<close>,
  \<open>_meshes\<close>, \<open>_camera\<close>, \<open>_has_gl\<close>, ...) are the record \<open>scene\<close>. Each
  function returns the new record and the list of what it asks of the rest of the
  program, in the order it asks: a call of \<open>_Application.playAudio()\<close>, a
  \<open>requestAnimationFrame\<close>, a listener registration, a texture load, a draw call, a
  console line. The interpreter of these effects is \<open>System\<close>. Three.js itself
  (meshes, shaders, matrices) is not modelled: a shell mesh is the two uniforms the
  code writes, a camera the position it moves.
\<close>

type_synonym vec2 = "real \<times> real"
type_synonym vec3 = "real \<times> real \<times> real"
type_synonym fft_sample = "byte \<times> byte \<times> byte"

datatype scene_effect =
    PlayAudio
  | RequestAnimationFrame
  | LoadColorTexture
  | ListenResize
  | ListenMouseMove
  | ListenTouchMove
  | ShowWebGLNotice
  | Draw
  | SceneLog string

record mouse_obj =
  obj_x :: real
  obj_y :: real
  obj_vx :: real
  obj_vy :: real

text \<open>The uniforms of one fur shell that the code writes: \<open>offset\<close> and
  \<open>globalTime\<close>.\<close>

record shell =
  offset :: real
  global_time :: real

record scene =
  mouse :: vec2
  gravity :: vec3
  mouse_obj :: mouse_obj
  is_touch_device :: bool
  scale_ratio :: real
  nb_loaded_resources :: nat
  meshes :: "shell list"
  shader_time :: real
  old_time :: "timestamp option"
  camera :: vec3
  camera_aspect :: real
  renderer_size :: "vec2 option"
  has_gl :: bool

subsection \<open>initialize, enter, exit\<close>

text \<open>
  \<open>initialize\<close> (lines 64--85) and the initial values of the module variables
  (lines 36--53). \<open>_camera\<close> is \<open>undefined\<close> until \<open>_initScene\<close>: its
  position is written there before any read, so the value before is irrelevant.
\<close>

definition scene_initialize :: "bool \<Rightarrow> scene \<times> scene_effect list" where
  "scene_initialize touch =
     (\<lparr>mouse = (0, 0), gravity = (0, 0, 0),
       mouse_obj = \<lparr>obj_x = 0, obj_y = 0, obj_vx = 0, obj_vy = 0\<rparr>,
       is_touch_device = touch, scale_ratio = (if touch then 2 else 1),
       nb_loaded_resources = 0, meshes = [], shader_time = 0, old_time = None,
       camera = (0, 0, 0), camera_aspect = 1, renderer_size = None, has_gl = False\<rparr>,
      [SceneLog ''LoadSceneState::initialize''])"

text \<open>The module variables as declared (lines 36--53), before \<open>initialize\<close>: not a
  touch device, scale ratio 1, no resource loaded, no mesh, shader time 0, no renderer.
  The vectors the declarations leave \<open>undefined\<close> are read only after
  \<open>initialize\<close> or \<open>_initScene\<close> has written them; they are zero here.\<close>

definition scene_declared :: scene where
  "scene_declared =
     \<lparr>mouse = (0, 0), gravity = (0, 0, 0),
      mouse_obj = \<lparr>obj_x = 0, obj_y = 0, obj_vx = 0, obj_vy = 0\<rparr>,
      is_touch_device = False, scale_ratio = 1,
      nb_loaded_resources = 0, meshes = [], shader_time = 0, old_time = None,
      camera = (0, 0, 0), camera_aspect = 1, renderer_size = None, has_gl = False\<rparr>"

definition scene_enter :: "scene \<Rightarrow> scene \<times> scene_effect list" where
  "scene_enter sc = (sc, [SceneLog ''LoadSceneState::enter''])"

definition scene_exit :: "scene \<Rightarrow> scene \<times> scene_effect list" where
  "scene_exit sc = (sc, [SceneLog ''LoadSceneState::exit''])"

subsection \<open>The per-frame step: _render\<close>

text \<open>
  \<open>_render\<close>, lines 405--463. \<open>_delta = _time - _oldTime\<close> is \<open>NaN\<close> on the
  first frame, when \<open>_oldTime\<close> is \<open>undefined\<close>: \<open>None\<close> here. The guard of
  line 410 replaces a \<open>NaN\<close>, a delta above 1000 and a delta of exactly 0 by the
  default frame of 1000/60 ms; a negative delta passes.
\<close>

definition frame_delta :: "real option \<Rightarrow> real" where
  "frame_delta d =
     (case d of None \<Rightarrow> 1000 / 60
      | Some v \<Rightarrow> if 1000 < v \<or> v = 0 then 1000 / 60 else v)"

definition frame_smoothing :: "real \<Rightarrow> real" where
  "frame_smoothing delta = (let optimal_divider = delta / 16 in max 4 (20 / optimal_divider))"

text \<open>The damped spring of \<open>_mouseObj\<close> (lines 419--426).\<close>

definition spring_step :: "real \<Rightarrow> vec2 \<Rightarrow> mouse_obj \<Rightarrow> mouse_obj" where
  "spring_step smoothing m mo =
     (let xf = (fst m - obj_x mo) / (smoothing * 5);
          yf = (snd m - obj_y mo) / (smoothing * 5);
          vx = (obj_vx mo + xf) * 0.96;
          vy = (obj_vy mo + yf) * 0.94
      in \<lparr>obj_x = obj_x mo + vx, obj_y = obj_y mo + vy, obj_vx = vx, obj_vy = vy\<rparr>)"

text \<open>
  The gravity uniform from the spectrum sample (lines 428--443). Line 428 writes
  \<open>gravity.x\<close> from the spring and line 434 zeroes \<open>gravity.y\<close>; both are
  overwritten by lines 442--443 before any read. \<open>255*2/3\<close> is 170.
\<close>

definition fft_gravity :: "vec2 \<Rightarrow> mouse_obj \<Rightarrow> fft_sample \<Rightarrow> vec3 \<Rightarrow> vec3" where
  "fft_gravity m mo fft g =
     (let g1 = (- (fst m - obj_x mo) * 2, fst (snd g), snd (snd g));
          g2 = (fst g1, 0 :: real, snd (snd g1));
          f0 = real (unat (fst fft)); f1 = real (unat (fst (snd fft)));
          x = pi * (f1 - 255 * 2 / 3) / (255 * 2 / 3) - pi / 2 + pi / 4;
          y = pi * f0 / 255 - pi / 2 - pi / 4
      in (sin x + pi / 4, sin y, snd (snd g2)))"

text \<open>The camera (lines 448--450): each axis approaches its orbit target.\<close>

definition camera_step :: "real \<Rightarrow> vec2 \<Rightarrow> vec3 \<Rightarrow> vec3" where
  "camera_step smoothing m c =
     (let (cx, cy, cz) = c
      in (approach smoothing (sin (fst m) * 150) cx,
          approach smoothing (sin (snd m) * 150) cy,
          approach smoothing (cos (fst m) * 150) cz))"

definition render :: "timestamp \<Rightarrow> fft_sample \<Rightarrow> scene \<Rightarrow> scene \<times> scene_effect list" where
  "render now fft sc =
     (let raw_delta = map_option (\<lambda>t0. real_of_int (now - t0)) (old_time sc);
          delta = frame_delta raw_delta;
          smoothing = frame_smoothing delta;
          mo = spring_step smoothing (mouse sc) (mouse_obj sc);
          g = fft_gravity (mouse sc) mo fft (gravity sc);
          cam = camera_step smoothing (mouse sc) (camera sc);
          st = shader_time sc + delta * 0.005;
          sc' = sc\<lparr>old_time := Some now, mouse_obj := mo, gravity := g, camera := cam,
                   shader_time := st,
                   meshes := map (\<lambda>m. m\<lparr>global_time := st\<rparr>) (meshes sc)\<rparr>
      in (sc', if has_gl sc then [Draw] else []))"

text \<open>\<open>_animate\<close> (lines 392--397): schedule the next frame, then render.\<close>

definition animate :: "timestamp \<Rightarrow> fft_sample \<Rightarrow> scene \<Rightarrow> scene \<times> scene_effect list" where
  "animate now fft sc = (let (sc', es) = render now fft sc in (sc', RequestAnimationFrame # es))"

subsection \<open>The resource barrier and scene construction\<close>

text \<open>
  \<open>_resourceLoadedCallback\<close> (lines 231--239): the counter is incremented and,
  when it becomes exactly 2, the audio is played and the animation started.
\<close>

definition resource_loaded_callback ::
  "timestamp \<Rightarrow> fft_sample \<Rightarrow> scene \<Rightarrow> scene \<times> scene_effect list" where
  "resource_loaded_callback now fft sc =
     (let n = Suc (nb_loaded_resources sc); sc' = sc\<lparr>nb_loaded_resources := n\<rparr>
      in if n = 2 then (let (sc'', es) = animate now fft sc' in (sc'', PlayAudio # es))
         else (sc', []))"

text \<open>
  \<open>_meshLoaded\<close> (lines 300--351): \<open>nbShells\<close> shells (150, or 45 on a touch
  device), shell \<open>i\<close> with offset \<open>i/nbShells\<close> and the current shader time, then
  the resource callback.
\<close>

definition nb_shells :: "scene \<Rightarrow> nat" where
  "nb_shells sc = (if is_touch_device sc then 45 else 150)"

definition mesh_loaded :: "timestamp \<Rightarrow> fft_sample \<Rightarrow> scene \<Rightarrow> scene \<times> scene_effect list" where
  "mesh_loaded now fft sc =
     (let n = nb_shells sc;
          new = map (\<lambda>i. \<lparr>offset = real i / real n, global_time = shader_time sc\<rparr>) [0..<n]
      in resource_loaded_callback now fft (sc\<lparr>meshes := meshes sc @ new\<rparr>))"

text \<open>
  \<open>_initScene\<close> (lines 128--223) for a window of \<open>w \<times> h\<close>: the camera at
  \<open>(0, 0, 150)\<close>, the colour texture requested (its load calls the resource
  callback later), the mesh built synchronously, then the renderer. When WebGL is
  missing the constructor throws and the \<open>catch\<close> shows the notice: no renderer
  size, no listener and \<open>_has_gl\<close> stays false.
\<close>

definition init_scene ::
  "bool \<Rightarrow> real \<Rightarrow> real \<Rightarrow> timestamp \<Rightarrow> fft_sample \<Rightarrow> scene \<Rightarrow> scene \<times> scene_effect list" where
  "init_scene webgl w h now fft sc =
     (let sc1 = sc\<lparr>camera := (0, 0, 150), camera_aspect := w / h\<rparr>;
          (sc2, es) = mesh_loaded now fft sc1
      in if webgl
         then (sc2\<lparr>renderer_size := Some (w / scale_ratio sc2, h / scale_ratio sc2),
                    has_gl := True\<rparr>,
               LoadColorTexture # es @ [ListenResize, ListenMouseMove, ListenTouchMove])
         else (sc2, LoadColorTexture # es @ [ShowWebGLNotice]))"

definition scene_execute ::
  "bool \<Rightarrow> real \<Rightarrow> real \<Rightarrow> timestamp \<Rightarrow> fft_sample \<Rightarrow> scene \<Rightarrow> scene \<times> scene_effect list" where
  "scene_execute webgl w h now fft sc =
     (let (sc', es) = init_scene webgl w h now fft sc
      in (sc', SceneLog ''LoadSceneState::execute'' # es))"

subsection \<open>Listeners\<close>

text \<open>\<open>_onWindowResize\<close> (lines 248--261).\<close>

definition on_window_resize :: "real \<Rightarrow> real \<Rightarrow> scene \<Rightarrow> scene" where
  "on_window_resize w h sc =
     sc\<lparr>renderer_size := Some (w / scale_ratio sc, h / scale_ratio sc), camera_aspect := w / h\<rparr>"

text \<open>\<open>_onMouseMove\<close> (lines 270--276): the pointer in normalised device coordinates.\<close>

definition on_mouse_move :: "real \<Rightarrow> real \<Rightarrow> real \<Rightarrow> real \<Rightarrow> scene \<Rightarrow> scene" where
  "on_mouse_move client_x client_y w h sc =
     sc\<lparr>mouse := (client_x / w * 2 - 1, - (client_y / h) * 2 + 1)\<rparr>"

text \<open>
  \<open>_onTouchMove\<close> (lines 285--291) reads \<open>event.touches[0]\<close>: with no touch point
  that is \<open>undefined\<close> and the read of \<open>clientX\<close> throws before any write
  (\<open>None\<close>).
\<close>

definition on_touch_move :: "vec2 list \<Rightarrow> real \<Rightarrow> real \<Rightarrow> scene \<Rightarrow> scene option" where
  "on_touch_move touches w h sc =
     (case touches of
        [] \<Rightarrow> None
      | t # _ \<Rightarrow> Some (sc\<lparr>mouse := (fst t / w * 2 - 1, - (snd t / h) * 2 + 1)\<rparr>))"

text \<open>
  A sequence of completions of the two loads, each calling
  \<open>_resourceLoadedCallback\<close> at some clock value and spectrum sample: the shape
  in which the barrier's promise is stated.
\<close>

fun resource_callbacks :: "(timestamp \<times> fft_sample) list \<Rightarrow> scene \<Rightarrow> scene \<times> scene_effect list" where
  "resource_callbacks [] sc = (sc, [])"
| "resource_callbacks ((t, f) # cs) sc =
     (let (sc1, es1) = resource_loaded_callback t f sc; (sc2, es2) = resource_callbacks cs sc1
      in (sc2, es1 @ es2))"

lemmas scene_defs [model_defs] =
  scene_initialize_def scene_enter_def scene_exit_def frame_delta_def frame_smoothing_def
  spring_step_def fft_gravity_def camera_step_def render_def animate_def
  resource_loaded_callback_def nb_shells_def mesh_loaded_def init_scene_def
  scene_execute_def on_window_resize_def on_mouse_move_def on_touch_move_def


subsection \<open>Helper facts\<close>

lemma gravity_x_angle_range:
  assumes "0 \<le> f" "f \<le> 255"
  shows "- (5 * pi / 4) \<le> pi * (f - 255 * 2 / 3) / (255 * 2 / 3) - pi / 2 + pi / 4"
    and "pi * (f - 255 * 2 / 3) / (255 * 2 / 3) - pi / 2 + pi / 4 \<le> pi / 4"
proof -
  have eq: "pi * (f - 255 * 2 / 3) / (255 * 2 / 3) - pi / 2 + pi / 4 = pi * ((f - 170) / 170 - 1 / 4)"
    by (simp add: field_simps)
  have "- (5 / 4) \<le> (f - 170) / 170 - 1 / 4" "(f - 170) / 170 - 1 / 4 \<le> 1 / 4"
    using assms by (simp_all add: field_simps)
  from pi_mult_range [OF this] show
    "- (5 * pi / 4) \<le> pi * (f - 255 * 2 / 3) / (255 * 2 / 3) - pi / 2 + pi / 4"
    "pi * (f - 255 * 2 / 3) / (255 * 2 / 3) - pi / 2 + pi / 4 \<le> pi / 4"
    unfolding eq by simp_all
qed

lemma gravity_y_angle_range:
  assumes "0 \<le> f" "f \<le> 255"
  shows "- (5 * pi / 4) \<le> pi * f / 255 - pi / 2 - pi / 4"
    and "pi * f / 255 - pi / 2 - pi / 4 \<le> pi / 4"
proof -
  have eq: "pi * f / 255 - pi / 2 - pi / 4 = pi * (f / 255 - 3 / 4)"
    by (simp add: field_simps)
  have "- (5 / 4) \<le> f / 255 - 3 / 4" "f / 255 - 3 / 4 \<le> 1 / 4"
    using assms by simp_all
  from pi_mult_range [OF this] show
    "- (5 * pi / 4) \<le> pi * f / 255 - pi / 2 - pi / 4" "pi * f / 255 - pi / 2 - pi / 4 \<le> pi / 4"
    unfolding eq by simp_all
qed

lemma fft_gravity_bounds:
  "pi / 4 - 1 \<le> fst (fft_gravity m mo fft g) \<and> fst (fft_gravity m mo fft g) \<le> pi / 4 + sqrt 2 / 2 \<and>
   - 1 \<le> fst (snd (fft_gravity m mo fft g)) \<and> fst (snd (fft_gravity m mo fft g)) \<le> sqrt 2 / 2 \<and>
   snd (snd (fft_gravity m mo fft g)) = snd (snd g)"
proof -
  obtain f0 f1 f2 where fft: "fft = (f0, f1, f2)" by (cases fft) auto
  let ?a = "real (unat f1)" and ?b = "real (unat f0)"
  have a: "0 \<le> ?a" "?a \<le> 255" and b: "0 \<le> ?b" "?b \<le> 255" by (rule byte_real_bounds)+
  have sx: "sin (pi * (?a - 255 * 2 / 3) / (255 * 2 / 3) - pi / 2 + pi / 4) \<le> sqrt 2 / 2"
    using gravity_x_angle_range [OF a] by (intro sin_le_sqrt2_half)
  have sy: "sin (pi * ?b / 255 - pi / 2 - pi / 4) \<le> sqrt 2 / 2"
    using gravity_y_angle_range [OF b] by (intro sin_le_sqrt2_half)
  show ?thesis using sx sy sin_ge_minus_one
    by (simp add: fft_gravity_def fft Let_def)
qed



lemma render_scene:
  "fst (render now fft sc) =
     sc\<lparr>old_time := Some now,
        mouse_obj := spring_step (frame_smoothing (frame_delta (map_option (\<lambda>t0. real_of_int (now - t0)) (old_time sc)))) (mouse sc) (mouse_obj sc),
        gravity := fft_gravity (mouse sc) (spring_step (frame_smoothing (frame_delta (map_option (\<lambda>t0. real_of_int (now - t0)) (old_time sc)))) (mouse sc) (mouse_obj sc)) fft (gravity sc),
        camera := camera_step (frame_smoothing (frame_delta (map_option (\<lambda>t0. real_of_int (now - t0)) (old_time sc)))) (mouse sc) (camera sc),
        shader_time := shader_time sc + frame_delta (map_option (\<lambda>t0. real_of_int (now - t0)) (old_time sc)) * 0.005,
        meshes := map (\<lambda>m. m\<lparr>global_time := shader_time sc + frame_delta (map_option (\<lambda>t0. real_of_int (now - t0)) (old_time sc)) * 0.005\<rparr>) (meshes sc)\<rparr>"
  and render_effects: "snd (render now fft sc) = (if has_gl sc then [Draw] else [])"
  by (simp_all add: render_def Let_def)

lemma frame_smoothing_ge_4: "4 \<le> frame_smoothing d"
  by (simp add: frame_smoothing_def)

lemma render_nb_loaded [simp]: "nb_loaded_resources (fst (render now fft sc)) = nb_loaded_resources sc"
  by (simp add: render_scene)

lemma resource_loaded_nb [simp]:
  "nb_loaded_resources (fst (resource_loaded_callback t f sc)) = Suc (nb_loaded_resources sc)"
  by (simp add: resource_loaded_callback_def animate_def Let_def split_beta)

lemma resource_loaded_effects:
  "snd (resource_loaded_callback t f sc) =
     (if nb_loaded_resources sc = 1
      then PlayAudio # RequestAnimationFrame # snd (render t f (sc\<lparr>nb_loaded_resources := 2\<rparr>))
      else [])"
  by (simp add: resource_loaded_callback_def animate_def Let_def split_beta numeral_2_eq_2)

lemma resource_callbacks_counts:
  "count_list (snd (resource_callbacks cs sc)) PlayAudio =
     (if nb_loaded_resources sc < 2 \<and> 2 \<le> nb_loaded_resources sc + length cs then 1 else 0) \<and>
   count_list (snd (resource_callbacks cs sc)) RequestAnimationFrame =
     (if nb_loaded_resources sc < 2 \<and> 2 \<le> nb_loaded_resources sc + length cs then 1 else 0)"
proof (induction cs arbitrary: sc)
  case Nil
  then show ?case by simp
next
  case (Cons c cs)
  obtain t f where c: "c = (t, f)" by (cases c)
  have ih: "count_list (snd (resource_callbacks cs (fst (resource_loaded_callback t f sc)))) PlayAudio =
      (if Suc (nb_loaded_resources sc) < 2 \<and> 2 \<le> Suc (nb_loaded_resources sc) + length cs then 1 else 0) \<and>
    count_list (snd (resource_callbacks cs (fst (resource_loaded_callback t f sc)))) RequestAnimationFrame =
      (if Suc (nb_loaded_resources sc) < 2 \<and> 2 \<le> Suc (nb_loaded_resources sc) + length cs then 1 else 0)"
    using Cons.IH [of "fst (resource_loaded_callback t f sc)"] by simp
  show ?case
    using ih by (auto simp: c split_beta resource_loaded_effects render_effects)
qed

lemma resource_loaded_offsets [simp]:
  "map offset (meshes (fst (resource_loaded_callback t f sc))) = map offset (meshes sc)"
  by (simp add: resource_loaded_callback_def animate_def Let_def split_beta render_scene comp_def)

lemma render_keeps [simp]:
  "mouse (fst (render t f sc)) = mouse sc"
  "has_gl (fst (render t f sc)) = has_gl sc"
  by (simp_all add: render_def Let_def)

lemma resource_loaded_callback_cases:
  "resource_loaded_callback t f sc =
     (if nb_loaded_resources sc = 1
      then (fst (render t f (sc\<lparr>nb_loaded_resources := 2\<rparr>)),
            PlayAudio # RequestAnimationFrame # (if has_gl sc then [Draw] else []))
      else (sc\<lparr>nb_loaded_resources := Suc (nb_loaded_resources sc)\<rparr>, []))"
  by (simp add: resource_loaded_callback_def animate_def Let_def split_beta render_effects numeral_2_eq_2)

lemma init_scene_first:
  assumes "nb_loaded_resources sc = 0"
  shows "init_scene webgl ww wh t f sc =
     (let sc1 = sc\<lparr>camera := (0, 0, 150), camera_aspect := ww / wh,
                  meshes := meshes sc @ map (\<lambda>i. \<lparr>offset = real i / real (nb_shells sc), global_time = shader_time sc\<rparr>) [0..<nb_shells sc],
                  nb_loaded_resources := 1\<rparr>
      in if webgl then (sc1\<lparr>renderer_size := Some (ww / scale_ratio sc, wh / scale_ratio sc), has_gl := True\<rparr>,
                        [LoadColorTexture, ListenResize, ListenMouseMove, ListenTouchMove])
         else (sc1, [LoadColorTexture, ShowWebGLNotice]))"
  using assms by (simp add: init_scene_def mesh_loaded_def resource_loaded_callback_cases Let_def nb_shells_def)


subsection \<open>Properties of the scene\<close>

text \<open>C3: the resource barrier of \<open>_resourceLoadedCallback\<close> starts the audio and the
  animation loop exactly once, during the second completion and never during the first
  or a later one, whichever resource completes first (both loads call the same
  callback).\<close>

theorem resource_barrier_fires_once:
  assumes "nb_loaded_resources sc = 0"
  shows "count_list (snd (resource_callbacks cs sc)) PlayAudio = (if 2 \<le> length cs then 1 else 0) \<and>
         count_list (snd (resource_callbacks cs sc)) RequestAnimationFrame = (if 2 \<le> length cs then 1 else 0)"
  using resource_callbacks_counts [of cs sc] assms by simp

theorem resource_barrier_fires_once_witness:
  "nb_loaded_resources (fst (scene_initialize False)) = 0 \<and>
   count_list (snd (resource_callbacks [(0, (0, 0, 0)), (16, (0, 0, 0))] (fst (scene_initialize False)))) PlayAudio = 1"
  using resource_barrier_fires_once [of "fst (scene_initialize False)" "[(0, (0, 0, 0)), (16, (0, 0, 0))]"]
  by (simp add: scene_initialize_def)

text \<open>C4: on the first frame (no previous time: \<open>NaN\<close> delta), on a frame at the
  same millisecond as the previous one and after a pause of more than a second, the
  frame step uses the default delta of 1000/60 ms: the shader time advances by
  \<open>1000/60 * 0.005\<close>.\<close>

theorem render_default_delta:
  assumes "old_time sc = None \<or> (\<exists>t0. old_time sc = Some t0 \<and> (now = t0 \<or> 1000 < now - t0))"
  shows "shader_time (fst (render now fft sc)) = shader_time sc + 1000 / 60 * 0.005"
  using assms by (auto simp: render_scene frame_delta_def)

theorem render_default_delta_witness:
  "old_time (fst (scene_initialize False)) = None \<and>
   shader_time (fst (render 5 (0, 0, 0) (fst (scene_initialize False)))) = 1000 / 60 * 0.005"
  using render_default_delta [of "fst (scene_initialize False)" 5 "(0, 0, 0)"]
  by (simp add: scene_initialize_def)

text \<open>C5: for a clock step between 1 and 1000 ms the frame step uses the measured delta:
  the shader time advances by \<open>delta * 0.005\<close>.\<close>

theorem render_regular_delta:
  assumes "old_time sc = Some t0" and "0 < now - t0" and "now - t0 \<le> 1000"
  shows "shader_time (fst (render now fft sc)) = shader_time sc + real_of_int (now - t0) * 0.005"
  using assms by (simp add: render_scene frame_delta_def)

theorem render_regular_delta_witness:
  "shader_time (fst (render 16 (0, 0, 0) ((fst (scene_initialize False))\<lparr>old_time := Some 0\<rparr>))) =
   16 * 0.005"
  using render_regular_delta [of "(fst (scene_initialize False))\<lparr>old_time := Some 0\<rparr>" 0 16 "(0, 0, 0)"]
  by (simp add: scene_initialize_def)

text \<open>C6: whatever the spectrum sample, the gravity uniform the frame step writes lies in
  \<open>[\<pi>/4 - 1, \<pi>/4 + \<surd>2/2] \<times> [-1, \<surd>2/2]\<close>, and its third component is
  left as it was.\<close>

theorem render_gravity_bounds:
  "let (gx, gy, gz) = gravity (fst (render now fft sc))
   in pi / 4 - 1 \<le> gx \<and> gx \<le> pi / 4 + sqrt 2 / 2 \<and> - 1 \<le> gy \<and> gy \<le> sqrt 2 / 2 \<and>
      gz = snd (snd (gravity sc))"
  using fft_gravity_bounds by (simp add: render_scene split_beta)



text \<open>On a silent sample (all three bins 0, also the initial \<open>_FFT\<close>) the
  documented mapping gives the gravity \<open>(\<pi>/4 + \<surd>2/2, -\<surd>2/2)\<close>.\<close>

theorem render_gravity_silence:
  "gravity (fst (render now (0, 0, 0) sc)) = (pi / 4 + sqrt 2 / 2, - (sqrt 2 / 2), snd (snd (gravity sc)))"
proof -
  show ?thesis
    by (simp add: render_scene fft_gravity_def Let_def sin_5pi_4 sin_3pi_4)
qed

text \<open>C8: the camera approaches its pointer-driven orbit target on every axis by the same
  factor \<open>k = 1 - 1/smoothing\<close>, with \<open>3/4 \<le> k < 1\<close>: it never overshoots and
  closes at most a quarter of the gap per frame.\<close>

theorem render_camera_approach:
  "\<exists>k. 3 / 4 \<le> k \<and> k < 1 \<and>
     (let (cx, cy, cz) = camera sc; (cx', cy', cz') = camera (fst (render now fft sc)); (mx, my) = mouse sc
      in sin mx * 150 - cx' = k * (sin mx * 150 - cx) \<and>
         sin my * 150 - cy' = k * (sin my * 150 - cy) \<and>
         cos mx * 150 - cz' = k * (cos mx * 150 - cz))"
proof -
  let ?s = "frame_smoothing (frame_delta (map_option (\<lambda>t0. real_of_int (now - t0)) (old_time sc)))"
  have "3 / 4 \<le> 1 - 1 / ?s" "1 - 1 / ?s < 1"
    using approach_factor [OF frame_smoothing_ge_4] by simp_all
  then show ?thesis
    by (intro exI [of _ "1 - 1 / ?s"])
       (simp add: render_scene camera_step_def approach_gap split_beta mult.commute)
qed

text \<open>After a frame step every shell's \<open>globalTime\<close> uniform equals the new
  shader time, and no shell is added or lost.\<close>

theorem render_shells_synchronised:
  "map global_time (meshes (fst (render now fft sc))) =
   replicate (length (meshes sc)) (shader_time (fst (render now fft sc)))"
  by (simp add: render_scene map_replicate_const comp_def)

text \<open>A pointer inside the window is mapped into \<open>[-1, 1] \<times> [-1, 1]\<close>.\<close>

theorem on_mouse_move_bounds:
  assumes "0 < w" "0 < h" "0 \<le> cx" "cx \<le> w" "0 \<le> cy" "cy \<le> h"
  shows "let (mx, my) = mouse (on_mouse_move cx cy w h sc) in - 1 \<le> mx \<and> mx \<le> 1 \<and> - 1 \<le> my \<and> my \<le> 1"
proof -
  have "0 \<le> cx * 2 / w" "cx * 2 / w \<le> 2" "0 \<le> cy * 2 / h" "cy * 2 / h \<le> 2"
    using assms by (simp_all add: field_simps)
  then show ?thesis by (simp add: on_mouse_move_def)
qed

theorem on_mouse_move_bounds_witness:
  "let (mx, my) = mouse (on_mouse_move 400 300 800 600 (fst (scene_initialize False)))
   in - 1 \<le> mx \<and> mx \<le> 1 \<and> - 1 \<le> my \<and> my \<le> 1"
  using on_mouse_move_bounds [of 800 600 400 300 "fst (scene_initialize False)"] by simp

text \<open>Building the mesh creates 150 shells (45 on a touch device) whose offsets lie
  in \<open>[0, 1)\<close>.\<close>

theorem mesh_loaded_shells:
  assumes "meshes sc = []"
  shows "length (meshes (fst (mesh_loaded now fft sc))) = (if is_touch_device sc then 45 else 150) \<and>
         (\<forall>m \<in> set (meshes (fst (mesh_loaded now fft sc))). 0 \<le> offset m \<and> offset m < 1)"
proof -
  let ?n = "nb_shells sc"
  have offs: "map offset (meshes (fst (mesh_loaded now fft sc))) = map (\<lambda>i. real i / real ?n) [0..<?n]"
    using assms by (simp add: mesh_loaded_def Let_def comp_def)
  have len: "length (meshes (fst (mesh_loaded now fft sc))) = ?n"
    using arg_cong [OF offs, of length] by simp
  have pos: "0 < ?n" by (simp add: nb_shells_def)
  have "0 \<le> offset m \<and> offset m < 1" if "m \<in> set (meshes (fst (mesh_loaded now fft sc)))" for m
  proof -
    have "offset m \<in> set (map (\<lambda>i. real i / real ?n) [0..<?n])"
      using that offs [symmetric] by (metis image_eqI list.set_map)
    then obtain i where "i < ?n" "offset m = real i / real ?n" by auto
    then show ?thesis using pos by simp
  qed
  then show ?thesis using len by (simp add: nb_shells_def)
qed

theorem mesh_loaded_shells_witness:
  "length (meshes (fst (mesh_loaded 0 (0, 0, 0) (fst (scene_initialize False))))) = 150"
  using mesh_loaded_shells [of "fst (scene_initialize False)" 0 "(0, 0, 0)"]
  by (simp add: scene_initialize_def)

text \<open>C12: the guard on the delta does not catch a negative delta: when the wall clock
  goes back (\<open>Date.now()\<close> is not monotonic), the shader time decreases.\<close>

theorem render_clock_rewind:
  assumes "old_time sc = Some t0" and "now < t0"
  shows "shader_time (fst (render now fft sc)) < shader_time sc"
  using assms by (simp add: render_scene frame_delta_def)

theorem render_clock_rewind_witness:
  "shader_time (fst (render 900 (0, 0, 0) ((fst (scene_initialize False))\<lparr>old_time := Some 1000\<rparr>))) < 0"
  using render_clock_rewind [of "(fst (scene_initialize False))\<lparr>old_time := Some 1000\<rparr>" 1000 900 "(0, 0, 0)"]
  by (simp add: scene_initialize_def)

end
