(* ===== verification/Application.thy ===== *)
theory Application
  imports Utils Scene
begin

text \<open>
  The module state of \<open>src/src/js/Application.js\<close> other than the current state
  (which is \<open>StateMachine\<close>'s): the audio graph built by
  \<open>_initializeAudioContext\<close>, the buffer source node, the last spectrum sample
  \<open>_FFT\<close>, and the operations the states call: \<open>setSourceNodeBuffer\<close>,
  \<open>playAudio\<close>, \<open>stopAudio\<close>, \<open>getFFT\<close>, \<open>setTrackInfo\<close>. Web Audio
  nodes are records of what the code sets on them; a decoded buffer is an opaque
  value. The debug drawing of the spectrum (\<open>#debug\<close> only) is not modelled.
\<close>

datatype audio_buffer = AudioBuffer nat

datatype audio_node = BufferSource | AnalyserNode | ScriptProcessor | Destination

record source_node =
  buffer :: "audio_buffer option"
  start_calls :: nat
  stop_calls :: nat

record analyser_node =
  smoothing_time_constant :: real
  fft_size :: nat

record application =
  source :: "source_node option"
  analyser :: "analyser_node option"
  script_buffer_size :: nat
  connections :: "(audio_node \<times> audio_node) list"
  fft :: fft_sample

text \<open>The module's initial values (lines 35--99): nothing built yet, \<open>_FFT\<close> zero.\<close>

definition application_init :: application where
  "application_init =
     \<lparr>source = None, analyser = None, script_buffer_size = 0, connections = [], fft = (0, 0, 0)\<rparr>"

subsection \<open>The audio graph and the spectrum sample\<close>

text \<open>
  \<open>_initializeAudioContext\<close> (lines 153--226): a script processor of 2048 frames
  connected to the speakers, an analyser (smoothing 0.8, FFT size 1024), a buffer
  source, and the connections source \<open>\<rightarrow>\<close> analyser \<open>\<rightarrow>\<close> script
  processor and source \<open>\<rightarrow>\<close> speakers, in the code's order.
\<close>

definition initialize_audio_context :: "application \<Rightarrow> application" where
  "initialize_audio_context app =
     (let a1 = app\<lparr>script_buffer_size := 2048,
                   connections := connections app @ [(ScriptProcessor, Destination)]\<rparr>;
          a2 = a1\<lparr>analyser := Some \<lparr>smoothing_time_constant = 0.8, fft_size = 1024\<rparr>\<rparr>;
          a3 = a2\<lparr>source := Some \<lparr>buffer = None, start_calls = 0, stop_calls = 0\<rparr>\<rparr>
      in a3\<lparr>connections := connections a3 @
               [(BufferSource, AnalyserNode), (AnalyserNode, ScriptProcessor),
                (BufferSource, Destination)]\<rparr>)"

definition frequency_bin_count :: "analyser_node \<Rightarrow> nat" where
  "frequency_bin_count a = fft_size a div 2"

text \<open>
  \<open>getByteFrequencyData(array)\<close> on an array of \<open>n\<close> zeros copies the analyser's
  bins into it: the first \<open>n\<close> of them, the rest staying 0.
\<close>

definition byte_frequency_data :: "nat \<Rightarrow> byte list \<Rightarrow> byte list" where
  "byte_frequency_data n bins = take n (bins @ replicate n 0)"

text \<open>
  The \<open>onaudioprocess\<close> handler (lines 193--225): a fresh \<open>Uint8Array\<close> of
  \<open>frequencyBinCount\<close> bytes, filled from the analyser; \<open>_FFT\<close> becomes its bins
  4, 194 and 202.
\<close>

definition on_audio_process :: "byte list \<Rightarrow> application \<Rightarrow> application" where
  "on_audio_process bins app =
     (case analyser app of
        None \<Rightarrow> app
      | Some a \<Rightarrow>
          (let arr = byte_frequency_data (frequency_bin_count a) bins
           in app\<lparr>fft := (arr ! 4, arr ! 194, arr ! 202)\<rparr>))"

definition get_fft :: "application \<Rightarrow> fft_sample" where
  "get_fft app = fft app"

subsection \<open>The source node\<close>

text \<open>\<open>setSourceNodeBuffer\<close> (lines 446--455): stop a buffered source first.\<close>

definition set_source_node_buffer :: "audio_buffer \<Rightarrow> application \<Rightarrow> application" where
  "set_source_node_buffer b app =
     (case source app of
        None \<Rightarrow> app
      | Some n \<Rightarrow>
          (let n1 = (if buffer n \<noteq> None then n\<lparr>stop_calls := Suc (stop_calls n)\<rparr> else n)
           in app\<lparr>source := Some (n1\<lparr>buffer := Some b\<rparr>)\<rparr>))"

text \<open>\<open>playAudio\<close> (lines 463--470): show the track information, start the source.\<close>

definition play_audio :: "application \<Rightarrow> dom \<Rightarrow> application \<times> dom" where
  "play_audio app d =
     (case source app of
        None \<Rightarrow> (app, d)
      | Some n \<Rightarrow>
          (app\<lparr>source := Some (n\<lparr>start_calls := Suc (start_calls n)\<rparr>)\<rparr>,
           remove_css_class TrackInfo ''hidden'' d))"

text \<open>\<open>stopAudio\<close> (lines 478--482).\<close>

definition stop_audio :: "application \<Rightarrow> application" where
  "stop_audio app =
     (case source app of
        None \<Rightarrow> app
      | Some n \<Rightarrow> app\<lparr>source := Some (n\<lparr>stop_calls := Suc (stop_calls n)\<rparr>)\<rparr>)"

subsection \<open>Track information\<close>

text \<open>
  The fields of the resolved track the code reads. A field the JSON lacks is
  \<open>None\<close>: a missing \<open>stream_url\<close> is concatenated as \<open>undefined\<close>, a missing
  \<open>permalink_url\<close> or \<open>user\<close> makes \<open>setTrackInfo\<close> throw.
\<close>

record track_info =
  title :: string
  artwork_url :: string
  permalink_url :: "string option"
  stream_url :: "string option"
  user_permalink_url :: "string option"

text \<open>\<open>String.prototype.replace\<close> with a string pattern: the first occurrence only.\<close>

fun replace_first :: "string \<Rightarrow> string \<Rightarrow> string \<Rightarrow> string" where
  "replace_first pat rep [] = (if pat = [] then rep else [])"
| "replace_first pat rep (c # cs) =
     (if take (length pat) (c # cs) = pat then rep @ drop (length pat) (c # cs)
      else c # replace_first pat rep cs)"

text \<open>The two hand-written titles (lines 512--518).\<close>

definition display_title :: "string \<Rightarrow> string \<Rightarrow> string" where
  "display_title permalink t =
     (let https_permalink = replace_first ''http://'' ''https://'' permalink
      in if https_permalink = ''https://soundcloud.com/boundarysound/boundary-abidjan'' then ''Abidjan''
         else if https_permalink = ''https://soundcloud.com/boundarysound/boundary-double-edged-sword''
         then ''Double-Edged Sword'' else t)"

text \<open>
  \<open>setTrackInfo\<close> (lines 501--542). It reads \<open>trackInfo.user.permalink_url\<close>
  (line 508) and calls \<open>replace\<close> on the permalink (line 513) before any write to
  the page, so a missing field leaves the page as it was (\<open>None\<close>: the exception).
\<close>

definition set_track_info :: "track_info \<Rightarrow> dom \<Rightarrow> dom option" where
  "set_track_info info d =
     (case user_permalink_url info of
        None \<Rightarrow> None
      | Some artist_url \<Rightarrow>
          (case permalink_url info of
             None \<Rightarrow> None
           | Some permalink \<Rightarrow>
               (let artist = ''Boundary''; album = ''Self-titled (2013)'';
                    t = display_title permalink (title info);
                    d1 = set_text TrackArtist artist d;
                    d2 = set_text TrackTitle t d1;
                    d3 = set_text TrackAlbum album d2;
                    d4 = set_attribute TrackArtistLink ''href'' artist_url d3;
                    d5 = set_attribute TrackArtistLink ''title'' (''Follow '' @ artist @ '' on Soundcloud'') d4;
                    d6 = set_attribute TrackCoverLink ''href'' artist_url d5;
                    d7 = set_attribute TrackCoverLink ''title'' (''Follow '' @ artist @ '' on Soundcloud'') d6
                in Some (set_attribute TrackArtwork ''src'' (artwork_url info) d7))))"

lemmas application_defs [model_defs] =
  application_init_def initialize_audio_context_def frequency_bin_count_def
  byte_frequency_data_def on_audio_process_def get_fft_def set_source_node_buffer_def
  play_audio_def stop_audio_def display_title_def set_track_info_def


subsection \<open>Properties of the application module\<close>

lemma on_audio_process_fft_only:
  "analyser app = Some a \<Longrightarrow> on_audio_process bins (app\<lparr>fft := x\<rparr>) = on_audio_process bins app"
  by (simp add: on_audio_process_def)

text \<open>\<open>_initializeAudioContext\<close> builds an analyser with smoothing 0.8 and
  512 frequency bins, so the three bins the handler samples (4, 194, 202) exist; the
  source feeds the analyser, which feeds the script processor, and also plays to the
  speakers.\<close>

theorem audio_graph_wiring:
  "analyser (initialize_audio_context app) = Some \<lparr>smoothing_time_constant = 0.8, fft_size = 1024\<rparr> \<and>
   frequency_bin_count \<lparr>smoothing_time_constant = 0.8, fft_size = 1024\<rparr> = 512 \<and>
   (202 :: nat) < 512 \<and>
   {(BufferSource, AnalyserNode), (AnalyserNode, ScriptProcessor), (ScriptProcessor, Destination),
    (BufferSource, Destination)} \<subseteq> set (connections (initialize_audio_context app)) \<and>
   source (initialize_audio_context app) = Some \<lparr>buffer = None, start_calls = 0, stop_calls = 0\<rparr>"
  by (simp add: initialize_audio_context_def frequency_bin_count_def)

text \<open>C16: on every audio-processing tick of the configured analyser, \<open>_FFT\<close> becomes
  bins 4, 194 and 202 of the analyser's output, and keeps nothing of the previous
  tick.\<close>

theorem on_audio_process_bins:
  assumes "analyser app = Some a" "fft_size a = 1024" "length bins = 512"
  shows "fft (on_audio_process bins app) = (bins ! 4, bins ! 194, bins ! 202) \<and>
         on_audio_process bins (on_audio_process bins' app) = on_audio_process bins app"
proof -
  have "on_audio_process bins' app = app\<lparr>fft := fft (on_audio_process bins' app)\<rparr>"
    using assms(1) by (simp add: on_audio_process_def Let_def)
  then have "on_audio_process bins (on_audio_process bins' app) = on_audio_process bins app"
    using on_audio_process_fft_only [OF assms(1)] by metis
  moreover have "fft (on_audio_process bins app) = (bins ! 4, bins ! 194, bins ! 202)"
    using assms by (simp add: on_audio_process_def frequency_bin_count_def byte_frequency_data_def nth_append)
  ultimately show ?thesis by simp
qed

theorem on_audio_process_bins_witness:
  "fft (on_audio_process (map of_nat [0..<512]) (initialize_audio_context application_init)) = (4, 194, 202)"
proof -
  have "length (map of_nat [0..<512] :: byte list) = 512" by simp
  then show ?thesis
    using on_audio_process_bins [of "initialize_audio_context application_init"
        "\<lparr>smoothing_time_constant = 0.8, fft_size = 1024\<rparr>" "map of_nat [0..<512]" "map of_nat [0..<512]"]
    by (simp add: initialize_audio_context_def application_init_def)
qed

text \<open>\<open>setTrackInfo\<close> on the Abidjan permalink, written with \<open>https://\<close> or
  with \<open>http://\<close>, displays the title \<open>Abidjan\<close> whatever the JSON title.\<close>

theorem set_track_info_abidjan_title:
  assumes "permalink_url info = Some p"
    and "p = ''https://soundcloud.com/boundarysound/boundary-abidjan'' \<or>
         p = ''http://soundcloud.com/boundarysound/boundary-abidjan''"
    and "user_permalink_url info = Some u"
  shows "\<exists>d'. set_track_info info d = Some d' \<and> text_content d' TrackTitle = ''Abidjan''"
  using assms by (auto simp: set_track_info_def display_title_def set_text_def set_attribute_def)

theorem set_track_info_abidjan_title_witness:
  "\<exists>d'. set_track_info \<lparr>title = ''Boundary - Abidjan'', artwork_url = '''',
          permalink_url = Some ''http://soundcloud.com/boundarysound/boundary-abidjan'',
          stream_url = None, user_permalink_url = Some ''https://soundcloud.com/boundarysound''\<rparr>
          \<lparr>class_list = \<lambda>_. [], text_content = \<lambda>_. [], attribute = \<lambda>_ _. None\<rparr> = Some d' \<and>
        text_content d' TrackTitle = ''Abidjan''"
  using set_track_info_abidjan_title
    [of "\<lparr>title = ''Boundary - Abidjan'', artwork_url = '''',
          permalink_url = Some ''http://soundcloud.com/boundarysound/boundary-abidjan'',
          stream_url = None, user_permalink_url = Some ''https://soundcloud.com/boundarysound''\<rparr>"
        "''http://soundcloud.com/boundarysound/boundary-abidjan''" "''https://soundcloud.com/boundarysound''"
        "\<lparr>class_list = \<lambda>_. [], text_content = \<lambda>_. [], attribute = \<lambda>_ _. None\<rparr>"]
  by simp

text \<open>C18: \<open>setTrackInfo\<close> throws, leaving the page unchanged, exactly when the track
  has no \<open>user\<close> or no \<open>permalink_url\<close>.\<close>

theorem set_track_info_throws:
  "set_track_info info d = None \<longleftrightarrow> user_permalink_url info = None \<or> permalink_url info = None"
  by (simp add: set_track_info_def Let_def split: option.splits)

end
