(* ===== verification/World.thy ===== *)
theory World
  imports StateMachine Application
begin

text \<open>
  The state the whole program runs on, apart from the current application state:
  the module state of \<open>Application.js\<close> (\<open>app\<close>) and of
  \<open>LoadSceneState.js\<close> (\<open>scene\<close>), the page, the browser's side (the callbacks
  it holds for the program, the window size, the clock that \<open>Date.now()\<close> reads,
  whether WebGL and touch are available), the console, and the number of draw calls
  the renderer received, and the Google Analytics events sent (\<open>ga('send', 'event',
  category, action, label)\<close>). \<open>LoadingState.js\<close> and \<open>PlayState.js\<close> keep no state
  of their own besides their references to the application and to \<open>Utils\<close>.
  A callback the browser holds is a field of \<open>pending\<close>: an outstanding request,
  a decoding, a texture load, the registered animation-frame callbacks and listeners
  (among them the click listeners of \<open>_setupGoogleAnalyticsTracking\<close> and the
  number of listeners on the About dialog's close button).
\<close>

record pending =
  metadata_request :: "string option"
  audio_request :: "string option"
  decoding :: bool
  texture_loading :: bool
  frame_callbacks :: nat
  launch_listeners :: nat
  pointer_listeners :: bool
  resize_listener :: bool
  tracking_listeners :: bool
  about_close_listeners :: nat

record world =
  app :: application
  page :: dom
  scene :: scene
  pending :: pending
  console :: "string list"
  draw_calls :: nat
  clock :: timestamp
  window_size :: vec2
  webgl_available :: bool
  touch_device :: bool
  analytics :: "(string \<times> string \<times> string) list"

definition no_pending :: pending where
  "no_pending =
     \<lparr>metadata_request = None, audio_request = None, decoding = False, texture_loading = False,
      frame_callbacks = 0, launch_listeners = 0, pointer_listeners = False, resize_listener = False,
      tracking_listeners = False, about_close_listeners = 0\<rparr>"

definition console_log :: "string \<Rightarrow> world \<Rightarrow> world" where
  "console_log msg w = w\<lparr>console := console w @ [msg]\<rparr>"

subsection \<open>What the scene asks of the program\<close>

text \<open>
  The effects of \<open>LoadSceneState.js\<close>'s functions, carried out in order:
  \<open>_Application.playAudio()\<close>, \<open>requestAnimationFrame(_animate)\<close>, the texture
  load with \<open>_resourceLoadedCallback\<close> as its callback, the three listener
  registrations of lines 206--208, the WebGL notice of lines 217--221, a draw call
  of line 461, a console line.
\<close>

fun perform_effect :: "scene_effect \<Rightarrow> world \<Rightarrow> world" where
  "perform_effect PlayAudio w = (let (a, p) = play_audio (app w) (page w) in w\<lparr>app := a, page := p\<rparr>)"
| "perform_effect RequestAnimationFrame w =
     w\<lparr>pending := (pending w)\<lparr>frame_callbacks := Suc (frame_callbacks (pending w))\<rparr>\<rparr>"
| "perform_effect LoadColorTexture w = w\<lparr>pending := (pending w)\<lparr>texture_loading := True\<rparr>\<rparr>"
| "perform_effect ListenResize w = w\<lparr>pending := (pending w)\<lparr>resize_listener := True\<rparr>\<rparr>"
| "perform_effect ListenMouseMove w = w\<lparr>pending := (pending w)\<lparr>pointer_listeners := True\<rparr>\<rparr>"
| "perform_effect ListenTouchMove w = w\<lparr>pending := (pending w)\<lparr>pointer_listeners := True\<rparr>\<rparr>"
| "perform_effect ShowWebGLNotice w =
     w\<lparr>page := set_attribute InfoNotice ''style.display'' ''block'' (page w)\<rparr>"
| "perform_effect Draw w = w\<lparr>draw_calls := Suc (draw_calls w)\<rparr>"
| "perform_effect (SceneLog msg) w = console_log msg w"

definition perform_effects :: "scene_effect list \<Rightarrow> world \<Rightarrow> world" where
  "perform_effects es w = fold perform_effect es w"

text \<open>Running a function of the scene module on the world.\<close>

definition run_scene :: "(scene \<Rightarrow> scene \<times> scene_effect list) \<Rightarrow> world \<Rightarrow> world" where
  "run_scene f w = (let (sc, es) = f (scene w) in perform_effects es (w\<lparr>scene := sc\<rparr>))"

lemmas world_defs [model_defs] = no_pending_def console_log_def perform_effects_def run_scene_def

subsection \<open>Facts about effects\<close>

lemma perform_effects_simps [simp]:
  "perform_effects [] w = w"
  "perform_effects (e # es) w = perform_effects es (perform_effect e w)"
  "perform_effects (es @ es') w = perform_effects es' (perform_effects es w)"
  by (simp_all add: perform_effects_def)

lemma perform_effect_keeps_scene [simp]: "scene (perform_effect e w) = scene w"
  by (cases e) (simp_all add: console_log_def split_beta)

lemma perform_effects_keeps_scene [simp]: "scene (perform_effects es w) = scene w"
  by (induction es arbitrary: w) simp_all

end
