(* ===== verification/LoadingState.thy ===== *)
theory LoadingState
  imports World
begin

text \<open>
  \<open>src/src/js/LoadingState.js\<close>: the state that resolves the track's metadata,
  downloads the audio and has it decoded. Its asynchronous steps are callbacks the
  browser holds (\<open>World.pending\<close>): the metadata request of \<open>execute\<close>, the
  audio request of \<open>_loadAudio\<close>, the decoding started by the audio request's
  \<open>onload\<close>. The last callback, \<open>_soundLoaded\<close>, changes the application state
  and is therefore defined with the other state changes in \<open>System\<close>.
  \<open>JSON.parse\<close> is not modelled: the metadata callback receives the parsed track,
  or \<open>None\<close> for a body that is not JSON (the parse throws).
\<close>

definition client_parameter :: string where
  "client_parameter = ''client_id=3b2585ef4a5eff04935abe84aad5f3f3''"

definition soundcloud_track_url :: string where
  "soundcloud_track_url = ''https://soundcloud.com/boundarysound/boundary-abidjan''"

definition resolve_url :: string where
  "resolve_url = ''http://api.soundcloud.com/resolve.json?url='' @ soundcloud_track_url @ ''&'' @ client_parameter"

definition loading_initialize :: "world \<Rightarrow> world" where
  "loading_initialize w = console_log ''LoadingState::initialize'' w"

definition loading_enter :: "world \<Rightarrow> world" where
  "loading_enter w = console_log ''LoadingState::enter'' w"

text \<open>\<open>execute\<close> (lines 85--100): one \<open>ajaxGet\<close> of the resolve URL.\<close>

definition loading_execute :: "world \<Rightarrow> world" where
  "loading_execute w =
     (let w1 = console_log ''LoadingState::execute'' w
      in w1\<lparr>pending := (pending w1)\<lparr>metadata_request := Some resolve_url\<rparr>\<rparr>)"

definition loading_exit :: "world \<Rightarrow> world" where
  "loading_exit w = console_log ''LoadingState::exit'' w"

text \<open>\<open>_loadAudio\<close> (lines 119--133): an \<open>arraybuffer\<close> request of the stream.\<close>

definition load_audio :: "string \<Rightarrow> world \<Rightarrow> world" where
  "load_audio url w =
     (let w1 = console_log ''LoadingState::_loadAudio'' w
      in w1\<lparr>pending := (pending w1)\<lparr>audio_request := Some url\<rparr>\<rparr>)"

text \<open>JavaScript's string conversion of a field that may be \<open>undefined\<close>.\<close>

definition js_string :: "string option \<Rightarrow> string" where
  "js_string s = (case s of None \<Rightarrow> ''undefined'' | Some v \<Rightarrow> v)"

text \<open>
  The callback of the metadata request (lines 92--99): the audio request is issued
  before \<open>setTrackInfo\<close>, so an exception of \<open>setTrackInfo\<close> leaves the audio
  loading and the page unchanged.
\<close>

definition metadata_loaded :: "track_info option \<Rightarrow> world \<Rightarrow> world" where
  "metadata_loaded parsed w =
     (case parsed of
        None \<Rightarrow> w
      | Some info \<Rightarrow>
          (let stream = js_string (stream_url info) @ ''?'' @ client_parameter;
               w1 = load_audio stream w
           in (case set_track_info info (page w1) of
                 None \<Rightarrow> w1
               | Some p \<Rightarrow> w1\<lparr>page := p\<rparr>)))"

text \<open>
  The \<open>onreadystatechange\<close> handler of \<open>ajaxGet\<close> (\<open>Utils.js\<close> lines 31--35) on
  the metadata request: the callback runs on the change to \<open>readyState\<close> 4 with
  status 200; any other change does nothing.
\<close>

definition metadata_ready_state :: "nat \<Rightarrow> nat \<Rightarrow> track_info option \<Rightarrow> world \<Rightarrow> world" where
  "metadata_ready_state ready status parsed w =
     (if ajax_callback_fires ready status True then metadata_loaded parsed w else w)"

text \<open>
  The audio request's \<open>onload\<close> (lines 128--131) hands the response to
  \<open>decodeAudioData\<close> whatever the HTTP status.
\<close>

definition audio_onload :: "world \<Rightarrow> world" where
  "audio_onload w = w\<lparr>pending := (pending w)\<lparr>decoding := True\<rparr>\<rparr>"

text \<open>\<open>_soundLoadError\<close> (lines 158--160): the error is logged, nothing else.\<close>

definition sound_load_error :: "string \<Rightarrow> world \<Rightarrow> world" where
  "sound_load_error err w = console_log err w"

lemmas loading_defs [model_defs] =
  client_parameter_def soundcloud_track_url_def resolve_url_def loading_initialize_def
  loading_enter_def loading_execute_def loading_exit_def load_audio_def js_string_def
  metadata_loaded_def metadata_ready_state_def audio_onload_def sound_load_error_def

end
