(* ===== verification/PlayState.thy ===== *)
theory PlayState
  imports World
begin

text \<open>
  \<open>src/src/js/PlayState.js\<close>: the state that waits for the user. \<open>execute\<close>
  shows the launch button and registers its click listener; the listener's state
  change is defined in \<open>System\<close>, its page updates and its analytics event here.
\<close>

definition play_initialize :: "world \<Rightarrow> world" where
  "play_initialize w = console_log ''PlayState::initialize'' w"

definition play_enter :: "world \<Rightarrow> world" where
  "play_enter w = console_log ''PlayState::enter'' w"

text \<open>\<open>_launchExperience\<close> (lines 91--118) up to the listener registration.\<close>

definition launch_experience :: "world \<Rightarrow> world" where
  "launch_experience w =
     (let p1 = remove_css_class Loader ''loading'' (page w);
          p2 = remove_css_class PlayButton ''hidden'' p1
      in w\<lparr>page := p2,
           pending := (pending w)\<lparr>launch_listeners := Suc (launch_listeners (pending w))\<rparr>\<rparr>)"

definition play_execute :: "world \<Rightarrow> world" where
  "play_execute w = launch_experience (console_log ''PlayState::execute'' w)"

definition play_exit :: "world \<Rightarrow> world" where
  "play_exit w = console_log ''PlayState::exit'' w"

text \<open>
  The click listener (lines 102--117) before its \<open>changeState\<close>: the button gets a
  \<open>disabled\<close> attribute, its container is hidden and the launch is sent to Google
  Analytics. The button is an \<open><a>\<close> element, on which \<open>disabled\<close> does not
  stop further clicks.
\<close>

definition launch_click_page :: "world \<Rightarrow> world" where
  "launch_click_page w =
     w\<lparr>page := add_css_class PlayButton ''hidden''
                (set_attribute LaunchExperience ''disabled'' ''disabled'' (page w)),
       analytics := analytics w @ [(''Button'', ''Click'', ''Launch Experience'')]\<rparr>"

lemmas play_defs [model_defs] =
  play_initialize_def play_enter_def launch_experience_def play_execute_def play_exit_def
  launch_click_page_def

end
