(* ===== verification/Analytics.thy ===== *)
theory Analytics
  imports Utils
begin

text \<open>
  The click listeners of \<open>_setupGoogleAnalyticsTracking\<close> (\<open>Application.js\<close> lines
  259--312), registered by \<open>Application.initialize\<close>, and
  \<open>Utils.preventDefaultEvent\<close> (\<open>Utils.js\<close> lines 114--120) which they call. The
  listeners touch neither the application state nor the audio: their state is the page
  (the About modal's classes), the analytics calls \<open>ga('send', 'event', category,
  action, label)\<close> made so far, and the number of listeners registered on the modal's
  close button, since every click on the About link registers one more (line 304).
  A click on a link runs the listeners registered on it, in order, on one event
  object; the browser follows the link unless a listener cancelled the default action.
\<close>

record click_event =
  has_prevent_default :: bool
  default_prevented :: bool
  return_value :: bool

text \<open>\<open>preventDefaultEvent\<close>: \<open>event.preventDefault()\<close> where the browser has it, the
  old \<open>event.returnValue = false\<close> otherwise.\<close>

definition prevent_default_event :: "click_event \<Rightarrow> click_event" where
  "prevent_default_event ev =
     (if has_prevent_default ev then ev\<lparr>default_prevented := True\<rparr> else ev\<lparr>return_value := False\<rparr>)"

definition default_cancelled :: "click_event \<Rightarrow> bool" where
  "default_cancelled ev \<longleftrightarrow> default_prevented ev \<or> \<not> return_value ev"

type_synonym ga_event = "string \<times> string \<times> string"

record tracking =
  links_page :: dom
  ga_log :: "ga_event list"
  close_listeners :: nat

definition ga_send :: "string \<Rightarrow> tracking \<Rightarrow> tracking" where
  "ga_send label st = st\<lparr>ga_log := ga_log st @ [(''Button'', ''Click'', label)]\<rparr>"

text \<open>Lines 261--268, 272--279, 283--287: the album art and artist links cancel the
  navigation and log; the GitHub link only logs.\<close>

definition cover_listener :: "click_event \<Rightarrow> tracking \<Rightarrow> click_event \<times> tracking" where
  "cover_listener ev st = (prevent_default_event ev, ga_send ''Album Art'' st)"

definition artist_listener :: "click_event \<Rightarrow> tracking \<Rightarrow> click_event \<times> tracking" where
  "artist_listener ev st = (prevent_default_event ev, ga_send ''Artist'' st)"

definition github_listener :: "click_event \<Rightarrow> tracking \<Rightarrow> click_event \<times> tracking" where
  "github_listener ev st = (ev, ga_send ''GitHub'' st)"

text \<open>Lines 304--310: the listener on the close button hides the modal.\<close>

definition about_close_listener :: "click_event \<Rightarrow> tracking \<Rightarrow> click_event \<times> tracking" where
  "about_close_listener ev st =
     (prevent_default_event ev, st\<lparr>links_page := add_css_class AboutModal ''hidden'' (links_page st)\<rparr>)"

text \<open>Lines 292--311: the About link shows the modal, logs, and registers one more
  listener on the close button.\<close>

definition about_listener :: "click_event \<Rightarrow> tracking \<Rightarrow> click_event \<times> tracking" where
  "about_listener ev st =
     (let ev1 = prevent_default_event ev;
          st1 = st\<lparr>links_page := remove_css_class AboutModal ''hidden'' (links_page st)\<rparr>;
          st2 = ga_send ''About Modal'' st1
      in (ev1, st2\<lparr>close_listeners := Suc (close_listeners st2)\<rparr>))"

definition setup_google_analytics_tracking :: "dom \<Rightarrow> tracking" where
  "setup_google_analytics_tracking p = \<lparr>links_page = p, ga_log = [], close_listeners = 0\<rparr>"

datatype link_click = CoverClick | ArtistClick | GithubClick | AboutClick | CloseClick

definition click :: "link_click \<Rightarrow> click_event \<Rightarrow> tracking \<Rightarrow> click_event \<times> tracking" where
  "click l ev st =
     (case l of
        CoverClick \<Rightarrow> cover_listener ev st
      | ArtistClick \<Rightarrow> artist_listener ev st
      | GithubClick \<Rightarrow> github_listener ev st
      | AboutClick \<Rightarrow> about_listener ev st
      | CloseClick \<Rightarrow> ((\<lambda>(e, s). about_close_listener e s) ^^ close_listeners st) (ev, st))"

definition run_clicks :: "(link_click \<times> click_event) list \<Rightarrow> tracking \<Rightarrow> tracking" where
  "run_clicks cs st = fold (\<lambda>(l, ev) s. snd (click l ev s)) cs st"

text \<open>The label each kind of click logs, and whether the modal is hidden after a
  sequence of clicks: the last of the About and close clicks decides, and close clicks
  before the first About click find no listener.\<close>

fun click_label :: "link_click \<Rightarrow> string list" where
  "click_label CoverClick = [''Album Art'']"
| "click_label ArtistClick = [''Artist'']"
| "click_label GithubClick = [''GitHub'']"
| "click_label AboutClick = [''About Modal'']"
| "click_label CloseClick = []"

definition modal_hidden_after :: "bool \<Rightarrow> link_click list \<Rightarrow> bool" where
  "modal_hidden_after hidden0 ls =
     (let ts = filter (\<lambda>l. l = AboutClick \<or> l = CloseClick) ls
      in if AboutClick \<in> set ts then last ts = CloseClick else hidden0)"

subsection \<open>One click\<close>

lemma prevent_default_event_idem [simp]:
  "prevent_default_event (prevent_default_event ev) = prevent_default_event ev"
  by (simp add: prevent_default_event_def)

lemma default_cancelled_prevent [simp]: "default_cancelled (prevent_default_event ev)"
  by (simp add: prevent_default_event_def default_cancelled_def)

lemma close_listeners_funpow:
  "((\<lambda>(e, s). about_close_listener e s) ^^ n) (ev, st) =
     (if n = 0 then (ev, st)
      else (prevent_default_event ev, st\<lparr>links_page := add_css_class AboutModal ''hidden'' (links_page st)\<rparr>))"
proof (induction n)
  case 0
  then show ?case by simp
next
  case (Suc n)
  have "add_css_class AboutModal ''hidden'' (add_css_class AboutModal ''hidden'' p) =
        add_css_class AboutModal ''hidden'' p" for p
    by (simp add: add_css_class_def)
  then show ?case using Suc by (simp add: about_close_listener_def)
qed

lemmas listener_defs =
  cover_listener_def artist_listener_def github_listener_def about_listener_def ga_send_def

lemma click_tracking:
  "close_listeners (snd (click l ev st)) = close_listeners st + (if l = AboutClick then 1 else 0) \<and>
   ga_log (snd (click l ev st)) = ga_log st @ map (\<lambda>x. (''Button'', ''Click'', x)) (click_label l) \<and>
   class_list (links_page (snd (click l ev st))) AboutModal =
     (if l = AboutClick then filter (\<lambda>x. x \<noteq> ''hidden'') (class_list (links_page st) AboutModal)
      else if l = CloseClick \<and> 0 < close_listeners st
      then class_list (add_css_class AboutModal ''hidden'' (links_page st)) AboutModal
      else class_list (links_page st) AboutModal)"
  by (cases l) (simp_all add: click_def listener_defs close_listeners_funpow Let_def)

lemma run_clicks_snoc [simp]:
  "run_clicks (cs @ [(l, ev)]) st = snd (click l ev (run_clicks cs st))"
  by (simp add: run_clicks_def)

lemma modal_hidden_after_snoc:
  "modal_hidden_after h (ls @ [l]) =
     (if l = AboutClick then False
      else if l = CloseClick \<and> AboutClick \<in> set ls then True
      else modal_hidden_after h ls)"
  by (cases l) (auto simp: modal_hidden_after_def Let_def)

subsection \<open>Properties of the listeners\<close>

text \<open>C37: after any sequence of link clicks from the set-up of the listeners, the
  close button holds one listener per About click so far (a listener leak: one close
  click then runs them all, harmlessly since \<open>classList.add\<close> is idempotent), the
  analytics log holds one event per click on a tracked link in click order, and the
  modal is hidden exactly when the last About-or-close click was a close click, or
  as the page started when no About click happened yet.\<close>

theorem tracking_trace:
  "close_listeners (run_clicks cs (setup_google_analytics_tracking p)) = count_list (map fst cs) AboutClick \<and>
   ga_log (run_clicks cs (setup_google_analytics_tracking p)) =
     map (\<lambda>x. (''Button'', ''Click'', x)) (concat (map (click_label \<circ> fst) cs)) \<and>
   (''hidden'' \<in> set (class_list (links_page (run_clicks cs (setup_google_analytics_tracking p))) AboutModal)
      \<longleftrightarrow> modal_hidden_after (''hidden'' \<in> set (class_list p AboutModal)) (map fst cs))"
proof (induction cs rule: rev_induct)
  case Nil
  then show ?case
    by (simp add: run_clicks_def setup_google_analytics_tracking_def modal_hidden_after_def)
next
  case (snoc c cs)
  obtain l ev where c: "c = (l, ev)" by (cases c)
  have about: "0 < count_list (map fst cs) AboutClick \<longleftrightarrow> AboutClick \<in> set (map fst cs)"
    by (metis count_list_0_iff not_gr0)
  show ?case
    using snoc click_tracking [of l ev "run_clicks cs (setup_google_analytics_tracking p)"] about
    by (auto simp: c modal_hidden_after_snoc)
qed

text \<open>A click cancels the browser's navigation (through \<open>preventDefault\<close> or, in
  old browsers, \<open>returnValue\<close>) on the album art, artist and About links, on the close
  button once an About click has registered a listener there, and never on the GitHub
  link.\<close>

theorem click_cancels_navigation:
  "default_cancelled (fst (click l ev st)) \<longleftrightarrow>
     default_cancelled ev \<or> l \<in> {CoverClick, ArtistClick, AboutClick} \<or>
     (l = CloseClick \<and> 0 < close_listeners st)"
  by (cases l) (auto simp: click_def listener_defs close_listeners_funpow Let_def)

end
