(* ===== verification/System.thy ===== *)
theory System
  imports LoadingState PlayState Analytics
begin

text \<open>
  The whole program as an event system. The application's current state is the
  \<open>current\<close> field of a \<open>StateMachine.machine\<close> over the \<open>World.world\<close>; the
  three state objects are one \<open>state_ops\<close> record; \<open>initialize\<close> is
  \<open>Application.initialize\<close>. The program then only runs in callbacks: an event is
  one callback the browser makes (a request's progress, the end of a decoding, a
  click, a texture load, an audio-processing tick, a pointer or resize event, an
  animation frame), or the wall clock moving. \<open>enabled\<close> says when the browser
  holds the callback; \<open>step\<close> runs it to completion, as the single-threaded event
  loop does.
\<close>

datatype app_state = Loading | Play | LoadScene

text \<open>The states in the order the application goes through them.\<close>

fun app_state_rank :: "app_state \<Rightarrow> nat" where
  "app_state_rank Loading = 0"
| "app_state_rank Play = 1"
| "app_state_rank LoadScene = 2"

instantiation app_state :: linorder
begin

definition less_eq_app_state :: "app_state \<Rightarrow> app_state \<Rightarrow> bool" where
  "less_eq_app_state s t \<longleftrightarrow> app_state_rank s \<le> app_state_rank t"

definition less_app_state :: "app_state \<Rightarrow> app_state \<Rightarrow> bool" where
  "less_app_state s t \<longleftrightarrow> app_state_rank s < app_state_rank t"

instance
proof
  fix s t :: app_state
  show "s \<le> t \<Longrightarrow> t \<le> s \<Longrightarrow> s = t"
    by (cases s; cases t) (simp_all add: less_eq_app_state_def)
qed (auto simp: less_eq_app_state_def less_app_state_def)

end

type_synonym system = "(app_state, world) machine"

subsection \<open>The state objects on the world\<close>

text \<open>
  Each state module returns the object \<open>{initialize, enter, execute, exit}\<close>; on
  the world each function is a world transformer (\<open>initialize\<close> with the
  references it receives already bound).
\<close>

record state_object =
  obj_initialize :: "world \<Rightarrow> world"
  obj_enter :: "world \<Rightarrow> world"
  obj_execute :: "world \<Rightarrow> world"
  obj_exit :: "world \<Rightarrow> world"

definition scene_state_initialize :: "world \<Rightarrow> world" where
  "scene_state_initialize w = run_scene (\<lambda>_. scene_initialize (touch_device w)) w"

definition scene_state_enter :: "world \<Rightarrow> world" where
  "scene_state_enter w = run_scene scene_enter w"

definition scene_state_execute :: "world \<Rightarrow> world" where
  "scene_state_execute w =
     run_scene (scene_execute (webgl_available w) (fst (window_size w)) (snd (window_size w))
                  (clock w) (get_fft (app w))) w"

definition scene_state_exit :: "world \<Rightarrow> world" where
  "scene_state_exit w = run_scene scene_exit w"

definition loading_state_object :: state_object where
  "loading_state_object =
     \<lparr>obj_initialize = loading_initialize, obj_enter = loading_enter,
      obj_execute = loading_execute, obj_exit = loading_exit\<rparr>"

definition play_state_object :: state_object where
  "play_state_object =
     \<lparr>obj_initialize = play_initialize, obj_enter = play_enter,
      obj_execute = play_execute, obj_exit = play_exit\<rparr>"

definition scene_state_object :: state_object where
  "scene_state_object =
     \<lparr>obj_initialize = scene_state_initialize, obj_enter = scene_state_enter,
      obj_execute = scene_state_execute, obj_exit = scene_state_exit\<rparr>"

subsection \<open>The state objects and changeState\<close>

text \<open>\<open>States\<close> (\<open>Application.js\<close> lines 102--106): the object of each state.\<close>

fun states :: "app_state \<Rightarrow> state_object" where
  "states Loading = loading_state_object"
| "states Play = play_state_object"
| "states LoadScene = scene_state_object"

definition app_ops :: "(app_state, world) state_ops" where
  "app_ops =
     \<lparr>enter = (\<lambda>s. obj_enter (states s)), execute = (\<lambda>s. obj_execute (states s)),
      exit = (\<lambda>s. obj_exit (states s))\<rparr>"

text \<open>\<open>_initializeStates\<close> (\<open>Application.js\<close> lines 247--251).\<close>

definition initialize_states :: "world \<Rightarrow> world" where
  "initialize_states w =
     obj_initialize (states LoadScene)
       (obj_initialize (states Play) (obj_initialize (states Loading) w))"

definition change_app_state :: "app_state \<Rightarrow> system \<Rightarrow> system" where
  "change_app_state s m = change_state app_ops (Some s) m"

definition on_world :: "(world \<Rightarrow> world) \<Rightarrow> system \<Rightarrow> system" where
  "on_world f m = m\<lparr>world := f (world m)\<rparr>"

subsection \<open>The analytics listeners on the world\<close>

text \<open>
  The listeners of \<open>Analytics\<close> act on the page, the analytics log and the listeners
  of the close button: the part of the world that \<open>Analytics.tracking\<close> describes.
  \<open>_setupGoogleAnalyticsTracking\<close> (\<open>Application.js\<close> lines 259--312) registers
  them. A click from the browser carries a fresh event object.
\<close>

definition tracking_of :: "world \<Rightarrow> tracking" where
  "tracking_of w =
     \<lparr>links_page = page w, ga_log = analytics w, close_listeners = about_close_listeners (pending w)\<rparr>"

definition with_tracking :: "tracking \<Rightarrow> world \<Rightarrow> world" where
  "with_tracking tr w =
     w\<lparr>page := links_page tr, analytics := ga_log tr,
       pending := (pending w)\<lparr>about_close_listeners := close_listeners tr\<rparr>\<rparr>"

definition setup_tracking :: "world \<Rightarrow> world" where
  "setup_tracking w =
     w\<lparr>pending := (pending w)\<lparr>tracking_listeners := True, about_close_listeners := 0\<rparr>\<rparr>"

definition browser_click :: click_event where
  "browser_click = \<lparr>has_prevent_default = True, default_prevented = False, return_value = True\<rparr>"

definition link_click_world :: "link_click \<Rightarrow> world \<Rightarrow> world" where
  "link_click_world l w = with_tracking (snd (click l browser_click (tracking_of w))) w"

text \<open>
  \<open>Application.initialize\<close> (\<open>Application.js\<close> lines 116--145) for a browser with
  or without WebGL and touch, a window size, a clock and the page as loaded:
  the audio graph, the states' \<open>initialize\<close> (the scene's sets its module
  variables), the analytics listeners, then \<open>changeState(LoadingState)\<close>. The
  debug mode, which \<open>initialize\<close> starts first, and the audio-context polyfill are
  added in \<open>DebugSystem\<close>, the polyfill of \<open>_initializeGraphicContext\<close> in
  \<open>GraphicContext\<close>.
\<close>

text \<open>The world as the page loads, before \<open>initialize\<close>: the module variables at
  their declared values, no callback held.\<close>

definition initial_world :: "bool \<Rightarrow> bool \<Rightarrow> vec2 \<Rightarrow> timestamp \<Rightarrow> dom \<Rightarrow> world" where
  "initial_world webgl touch win t0 page0 =
     \<lparr>app = application_init, page = page0, scene = scene_declared,
      pending = no_pending, console = [], draw_calls = 0, clock = t0,
      window_size = win, webgl_available = webgl, touch_device = touch, analytics = []\<rparr>"

definition initialize :: "bool \<Rightarrow> bool \<Rightarrow> vec2 \<Rightarrow> timestamp \<Rightarrow> dom \<Rightarrow> system" where
  "initialize webgl touch win t0 page0 =
     (let w0 = initial_world webgl touch win t0 page0;
          w1 = w0\<lparr>app := initialize_audio_context (app w0)\<rparr>;
          w2 = initialize_states w1;
          w3 = setup_tracking w2
      in change_app_state Loading \<lparr>current = None, world = w3\<rparr>)"

text \<open>\<open>main.js\<close> (lines 11--14): the page's entry point loads the module and calls
  \<open>Application.initialize()\<close>.\<close>

definition main_js :: "bool \<Rightarrow> bool \<Rightarrow> vec2 \<Rightarrow> timestamp \<Rightarrow> dom \<Rightarrow> system" where
  "main_js webgl touch win t0 page0 = initialize webgl touch win t0 page0"

subsection \<open>Callbacks that change the state\<close>

text \<open>
  \<open>_soundLoaded\<close> (\<open>LoadingState.js\<close> lines 142--149): install the buffer, then
  \<open>changeState(PlayState)\<close>. The object dump of line 147 is one console line.
\<close>

definition sound_loaded :: "audio_buffer \<Rightarrow> system \<Rightarrow> system" where
  "sound_loaded b m =
     (let w1 = console_log ''LoadingState::_playSound'' (world m);
          w2 = w1\<lparr>app := set_source_node_buffer b (app w1)\<rparr>;
          w3 = console_log ''Application, States, PlayState'' w2
      in change_app_state Play (m\<lparr>world := w3\<rparr>))"

text \<open>
  A click on the launch button runs every click listener registered on it, in
  order (\<open>PlayState.js\<close> lines 102--117).
\<close>

definition launch_listener :: "system \<Rightarrow> system" where
  "launch_listener m = change_app_state LoadScene (on_world launch_click_page m)"

definition launch_click :: "system \<Rightarrow> system" where
  "launch_click m = (launch_listener ^^ launch_listeners (pending (world m))) m"

text \<open>
  An animation frame runs the callbacks registered before it; each is \<open>_animate\<close>,
  which registers the next one.
\<close>

definition animate_callback :: "world \<Rightarrow> world" where
  "animate_callback w =
     run_scene (animate (clock w) (get_fft (app w)))
       (w\<lparr>pending := (pending w)\<lparr>frame_callbacks := frame_callbacks (pending w) - 1\<rparr>\<rparr>)"

definition animation_frame :: "world \<Rightarrow> world" where
  "animation_frame w = (animate_callback ^^ frame_callbacks (pending w)) w"

subsection \<open>Events\<close>

datatype event =
    MetadataReadyState nat nat "track_info option"
  | AudioLoad
  | DecodeSuccess audio_buffer
  | DecodeError string
  | LaunchClick
  | TextureLoad
  | AudioProcess "byte list"
  | MouseMove real real
  | TouchMove "vec2 list"
  | WindowResize real real
  | AnimationFrame
  | ClockTick timestamp
  | LinkClick link_click

fun enabled :: "event \<Rightarrow> system \<Rightarrow> bool" where
  "enabled (MetadataReadyState _ _ _) m = (metadata_request (pending (world m)) \<noteq> None)"
| "enabled AudioLoad m = (audio_request (pending (world m)) \<noteq> None)"
| "enabled (DecodeSuccess _) m = decoding (pending (world m))"
| "enabled (DecodeError _) m = decoding (pending (world m))"
| "enabled TextureLoad m = texture_loading (pending (world m))"
| "enabled AnimationFrame m = (0 < frame_callbacks (pending (world m)))"
| "enabled (LinkClick _) m = tracking_listeners (pending (world m))"
| "enabled _ m = True"

definition set_pending :: "(pending \<Rightarrow> pending) \<Rightarrow> world \<Rightarrow> world" where
  "set_pending f w = w\<lparr>pending := f (pending w)\<rparr>"

fun step :: "event \<Rightarrow> system \<Rightarrow> system" where
  "step (MetadataReadyState ready status parsed) m =
     on_world (metadata_ready_state ready status parsed \<circ>
               (if ready = 4 then set_pending (\<lambda>p. p\<lparr>metadata_request := None\<rparr>) else id)) m"
| "step AudioLoad m = on_world (audio_onload \<circ> set_pending (\<lambda>p. p\<lparr>audio_request := None\<rparr>)) m"
| "step (DecodeSuccess b) m = sound_loaded b (on_world (set_pending (\<lambda>p. p\<lparr>decoding := False\<rparr>)) m)"
| "step (DecodeError err) m =
     on_world (sound_load_error err \<circ> set_pending (\<lambda>p. p\<lparr>decoding := False\<rparr>)) m"
| "step LaunchClick m = launch_click m"
| "step TextureLoad m =
     on_world ((\<lambda>w. run_scene (resource_loaded_callback (clock w) (get_fft (app w))) w) \<circ>
               set_pending (\<lambda>p. p\<lparr>texture_loading := False\<rparr>)) m"
| "step (AudioProcess bins) m = on_world (\<lambda>w. w\<lparr>app := on_audio_process bins (app w)\<rparr>) m"
| "step (MouseMove cx cy) m =
     on_world (\<lambda>w. if pointer_listeners (pending w)
                   then w\<lparr>scene := on_mouse_move cx cy (fst (window_size w)) (snd (window_size w)) (scene w)\<rparr>
                   else w) m"
| "step (TouchMove ts) m =
     on_world (\<lambda>w. if pointer_listeners (pending w)
                   then (case on_touch_move ts (fst (window_size w)) (snd (window_size w)) (scene w) of
                           None \<Rightarrow> w | Some sc \<Rightarrow> w\<lparr>scene := sc\<rparr>)
                   else w) m"
| "step (WindowResize ww wh) m =
     on_world (\<lambda>w. let w1 = w\<lparr>window_size := (ww, wh)\<rparr>
                   in if resize_listener (pending w1) then w1\<lparr>scene := on_window_resize ww wh (scene w1)\<rparr>
                      else w1) m"
| "step AnimationFrame m = on_world animation_frame m"
| "step (ClockTick t) m = on_world (\<lambda>w. w\<lparr>clock := t\<rparr>) m"
| "step (LinkClick l) m = on_world (link_click_world l) m"

subsection \<open>Reachable states and runs\<close>

inductive reachable :: "system \<Rightarrow> bool" where
  init: "reachable (initialize webgl touch win t0 page0)"
| step: "reachable m \<Longrightarrow> enabled e m \<Longrightarrow> reachable (step e m)"

fun run :: "event list \<Rightarrow> system \<Rightarrow> system option" where
  "run [] m = Some m"
| "run (e # es) m = (if enabled e m then run es (step e m) else None)"

lemmas system_defs [model_defs] =
  scene_state_initialize_def scene_state_enter_def scene_state_execute_def scene_state_exit_def
  loading_state_object_def play_state_object_def scene_state_object_def app_ops_def initialize_states_def
  change_app_state_def on_world_def initial_world_def initialize_def sound_loaded_def launch_listener_def
  launch_click_def animate_callback_def animation_frame_def set_pending_def
  tracking_of_def with_tracking_def setup_tracking_def browser_click_def link_click_world_def

subsection \<open>Facts about state changes\<close>

lemma link_click_world_keeps [simp]:
  "scene (link_click_world l w) = scene w" "app (link_click_world l w) = app w"
  "console (link_click_world l w) = console w" "draw_calls (link_click_world l w) = draw_calls w"
  "clock (link_click_world l w) = clock w" "window_size (link_click_world l w) = window_size w"
  "webgl_available (link_click_world l w) = webgl_available w"
  "touch_device (link_click_world l w) = touch_device w"
  "pending (link_click_world l w) =
     (pending w)\<lparr>about_close_listeners := close_listeners (snd (click l browser_click (tracking_of w)))\<rparr>"
  by (simp_all add: link_click_world_def with_tracking_def)

lemma change_app_state_same: "current m = Some s \<Longrightarrow> change_app_state s m = m"
  by (simp add: change_app_state_def change_state_def)

lemma change_app_state_to_play:
  "current m = Some Loading \<Longrightarrow>
   change_app_state Play m = \<lparr>current = Some Play, world = play_execute (play_enter (loading_exit (world m)))\<rparr>"
  by (simp add: change_app_state_def change_state_def app_ops_def
    loading_state_object_def play_state_object_def scene_state_object_def)

lemma change_app_state_to_scene:
  "current m = Some Play \<Longrightarrow>
   change_app_state LoadScene m =
     \<lparr>current = Some LoadScene, world = scene_state_execute (scene_state_enter (play_exit (world m)))\<rparr>"
  by (simp add: change_app_state_def change_state_def app_ops_def
    loading_state_object_def play_state_object_def scene_state_object_def)

lemma sound_loaded_world:
  assumes "current m = Some Loading"
  shows "sound_loaded b m =
     \<lparr>current = Some Play,
      world = play_execute (play_enter (loading_exit
        (console_log ''Application, States, PlayState''
          ((console_log ''LoadingState::_playSound'' (world m))\<lparr>app := set_source_node_buffer b (app (world m))\<rparr>))))\<rparr>"
  using assms by (simp add: sound_loaded_def change_app_state_to_play Let_def console_log_def)


end
