(* ===== verification/SystemInvariants.thy ===== *)
theory SystemInvariants
  imports System
begin

text \<open>
  What holds in every state the program reaches, and what follows from it. The
  invariant \<open>phase_inv\<close> says, for each application state, which callbacks the
  browser holds, how far the resource barrier is, how often the source node was
  started and stopped, that the analytics listeners are registered, and that without
  WebGL the pointer and the renderer are never touched. It holds after \<open>initialize\<close> and every enabled event keeps it (one lemma
  per event); the claims about the whole program are its consequences. The
  fixtures at the end of the definitions (a page, a resolved track, a run of events)
  are the concrete inputs of the witnesses.
\<close>

definition requests_in_order :: "pending \<Rightarrow> bool" where
  "requests_in_order p \<longleftrightarrow>
     (metadata_request p \<noteq> None \<longrightarrow> audio_request p = None \<and> \<not> decoding p) \<and>
     (audio_request p \<noteq> None \<longrightarrow> \<not> decoding p)"

definition no_loading_requests :: "pending \<Rightarrow> bool" where
  "no_loading_requests p \<longleftrightarrow> metadata_request p = None \<and> audio_request p = None \<and> \<not> decoding p"

definition phase_inv :: "system \<Rightarrow> bool" where
  "phase_inv m \<longleftrightarrow>
     (let w = world m; p = pending w; sc = scene w; a = app w; nb = nb_loaded_resources sc in
      analyser a = Some \<lparr>smoothing_time_constant = 0.8, fft_size = 1024\<rparr> \<and>
      (\<exists>n. source a = Some n \<and> stop_calls n = 0 \<and> start_calls n = (if nb = 2 then 1 else 0) \<and>
           (buffer n = None \<longleftrightarrow> current m = Some Loading)) \<and>
      frame_callbacks p = (if nb = 2 then 1 else 0) \<and> tracking_listeners p \<and>
      has_gl sc = (webgl_available w \<and> current m = Some LoadScene) \<and>
      (\<not> webgl_available w \<longrightarrow> mouse sc = (0, 0) \<and> draw_calls w = 0) \<and>
      (case current m of
         Some Loading \<Rightarrow> launch_listeners p = 0 \<and> nb = 0 \<and> \<not> texture_loading p \<and>
            \<not> pointer_listeners p \<and> \<not> resize_listener p \<and> requests_in_order p
       | Some Play \<Rightarrow> launch_listeners p = 1 \<and> nb = 0 \<and> \<not> texture_loading p \<and>
            \<not> pointer_listeners p \<and> \<not> resize_listener p \<and> no_loading_requests p
       | Some LoadScene \<Rightarrow> launch_listeners p = 1 \<and> (nb = 1 \<or> nb = 2) \<and>
            (texture_loading p \<longleftrightarrow> nb = 1) \<and> pointer_listeners p = webgl_available w \<and>
            resize_listener p = webgl_available w \<and> no_loading_requests p
       | None \<Rightarrow> False))"




text \<open>Fixtures: an empty page, the resolved Abidjan track, and the events of a run.\<close>

definition demo_page :: dom where
  "demo_page = \<lparr>class_list = (\<lambda>_. []), text_content = (\<lambda>_. []), attribute = (\<lambda>_ _. None)\<rparr>"

definition demo_track :: track_info where
  "demo_track =
     \<lparr>title = ''Boundary - Abidjan'', artwork_url = ''https://i1.sndcdn.com/artworks-large.jpg'',
      permalink_url = Some ''http://soundcloud.com/boundarysound/boundary-abidjan'',
      stream_url = Some ''https://api.soundcloud.com/tracks/1/stream'',
      user_permalink_url = Some ''http://soundcloud.com/boundarysound''\<rparr>"

definition demo_init :: system where
  "demo_init = initialize True False (800, 600) 0 demo_page"


definition demo_events :: "event list" where
  "demo_events = [MetadataReadyState 4 200 (Some demo_track), AudioLoad, DecodeSuccess (AudioBuffer 1),
                  LaunchClick, TextureLoad, ClockTick 16, AnimationFrame]"

definition stuck_loading :: "system \<Rightarrow> bool" where
  "stuck_loading m \<longleftrightarrow> current m = Some Loading \<and> no_loading_requests (pending (world m))"

subsection \<open>The invariant is kept by every event\<close>

lemma inv_init: "phase_inv (initialize webgl touch win t0 page0)"
  by (simp add: phase_inv_def model_defs requests_in_order_def Let_def split_beta)

lemma inv_audio_process: "phase_inv m \<Longrightarrow> phase_inv (step (AudioProcess bins) m)"
  by (auto simp: phase_inv_def on_world_def on_audio_process_def Let_def split: option.splits app_state.splits)

lemma inv_clock: "phase_inv m \<Longrightarrow> phase_inv (step (ClockTick t) m)"
  by (auto simp: phase_inv_def on_world_def Let_def split: option.splits app_state.splits)


lemmas inv_simps = phase_inv_def on_world_def set_pending_def Let_def requests_in_order_def no_loading_requests_def

lemma inv_audio_load:
  "phase_inv m \<Longrightarrow> enabled AudioLoad m \<Longrightarrow> phase_inv (step AudioLoad m)"
  by (auto simp: inv_simps audio_onload_def split: option.splits app_state.splits)

lemma inv_decode_error:
  "phase_inv m \<Longrightarrow> enabled (DecodeError e) m \<Longrightarrow> phase_inv (step (DecodeError e) m)"
  by (auto simp: inv_simps sound_load_error_def console_log_def split: option.splits app_state.splits)

lemma phase_inv_current:
  "phase_inv m \<Longrightarrow> \<exists>s. current m = Some s"
  by (cases "current m") (auto simp: phase_inv_def Let_def)

lemma inv_launch_click:
  assumes inv: "phase_inv m"
  shows "phase_inv (step LaunchClick m)"
proof -
  obtain s where cur: "current m = Some s" using phase_inv_current [OF inv] by blast
  show ?thesis
  proof (cases s)
    case Loading
    then have "launch_listeners (pending (world m)) = 0" using inv cur by (simp add: phase_inv_def Let_def)
    then show ?thesis using inv by (simp add: launch_click_def)
  next
    case Play
    then have l: "launch_listeners (pending (world m)) = 1" and nb: "nb_loaded_resources (scene (world m)) = 0"
      using inv cur by (simp_all add: phase_inv_def Let_def)
    have "step LaunchClick m = change_app_state LoadScene (on_world launch_click_page m)"
      using l by (simp add: launch_click_def launch_listener_def)
    also have "\<dots> = \<lparr>current = Some LoadScene,
        world = scene_state_execute (scene_state_enter (play_exit (launch_click_page (world m))))\<rparr>"
      using cur Play by (simp add: change_app_state_to_scene on_world_def)
    finally show ?thesis
      using inv cur Play nb
      by (auto simp: inv_simps scene_state_execute_def scene_state_enter_def play_exit_def
          launch_click_page_def run_scene_def scene_execute_def scene_enter_def init_scene_first
          console_log_def split_beta)
  next
    case LoadScene
    then have l: "launch_listeners (pending (world m)) = 1" using inv cur by (simp add: phase_inv_def Let_def)
    have "step LaunchClick m = on_world launch_click_page m"
      using l cur LoadScene by (simp add: launch_click_def launch_listener_def change_app_state_same on_world_def)
    then show ?thesis using inv cur LoadScene by (auto simp: inv_simps launch_click_page_def)
  qed
qed

lemma inv_texture:
  "phase_inv m \<Longrightarrow> enabled TextureLoad m \<Longrightarrow> phase_inv (step TextureLoad m)"
  by (auto simp: inv_simps run_scene_def resource_loaded_callback_cases play_audio_def
      split: option.splits app_state.splits if_splits)

lemma inv_frame:
  "phase_inv m \<Longrightarrow> enabled AnimationFrame m \<Longrightarrow> phase_inv (step AnimationFrame m)"
  by (auto simp: inv_simps animation_frame_def animate_callback_def run_scene_def animate_def split_beta render_effects
      split: option.splits app_state.splits if_splits)

lemma inv_mouse:
  "phase_inv m \<Longrightarrow> phase_inv (step (MouseMove cx cy) m)"
  by (auto simp: inv_simps on_mouse_move_def split: option.splits app_state.splits)

lemma inv_touch:
  "phase_inv m \<Longrightarrow> phase_inv (step (TouchMove ts) m)"
  by (auto simp: inv_simps on_touch_move_def split: option.splits app_state.splits list.splits)

lemma inv_resize:
  "phase_inv m \<Longrightarrow> phase_inv (step (WindowResize ww wh) m)"
  by (auto simp: inv_simps on_window_resize_def split: option.splits app_state.splits)


lemma requests_current_loading:
  "phase_inv m \<Longrightarrow> \<not> no_loading_requests (pending (world m)) \<Longrightarrow> current m = Some Loading"
  by (cases "current m") (auto simp: phase_inv_def Let_def split: app_state.splits)

lemma metadata_ready_state_frame:
  "app (metadata_ready_state r st parsed w) = app w \<and> scene (metadata_ready_state r st parsed w) = scene w \<and>
   draw_calls (metadata_ready_state r st parsed w) = draw_calls w \<and>
   webgl_available (metadata_ready_state r st parsed w) = webgl_available w \<and>
   pending (metadata_ready_state r st parsed w) =
     (if ajax_callback_fires r st True \<and> parsed \<noteq> None
      then (pending w)\<lparr>audio_request := Some (js_string (stream_url (the parsed)) @ ''?'' @ client_parameter)\<rparr>
      else pending w)"
  by (auto simp: metadata_ready_state_def metadata_loaded_def load_audio_def console_log_def Let_def
      split: option.splits)

lemma inv_metadata:
  assumes inv: "phase_inv m" and en: "enabled (MetadataReadyState r st parsed) m"
  shows "phase_inv (step (MetadataReadyState r st parsed) m)"
proof -
  have cur: "current m = Some Loading"
    using en by (intro requests_current_loading [OF inv]) (simp add: no_loading_requests_def)
  show ?thesis
    using inv en cur metadata_ready_state_frame
    by (auto simp: inv_simps ajax_callback_fires_def split: if_splits)
qed

lemma inv_decode_success:
  assumes inv: "phase_inv m" and en: "enabled (DecodeSuccess b) m"
  shows "phase_inv (step (DecodeSuccess b) m)"
proof -
  have cur: "current m = Some Loading"
    using en by (intro requests_current_loading [OF inv]) (simp add: no_loading_requests_def)
  then show ?thesis
    using inv en
    by (auto simp: inv_simps sound_loaded_world console_log_def set_source_node_buffer_def
        play_execute_def play_enter_def loading_exit_def launch_experience_def)
qed

lemma inv_link_click: "phase_inv m \<Longrightarrow> phase_inv (step (LinkClick l) m)"
  by (auto simp: inv_simps split: option.splits app_state.splits)

lemma inv_step:
  assumes "phase_inv m" "enabled e m"
  shows "phase_inv (step e m)"
  using assms
  by (cases e) (blast intro: inv_metadata inv_audio_load inv_decode_success inv_decode_error
      inv_launch_click inv_texture inv_audio_process inv_mouse inv_touch inv_resize inv_frame inv_clock
      inv_link_click)+

lemma reachable_phase_inv: "reachable m \<Longrightarrow> phase_inv m"
proof (induction rule: reachable.induct)
  case init
  show ?case by (rule inv_init)
next
  case (step m e)
  then show ?case by (blast intro: inv_step)
qed

lemma run_reachable: "run es m = Some m' \<Longrightarrow> reachable m \<Longrightarrow> reachable m'"
proof (induction es arbitrary: m)
  case Nil
  then show ?case by simp
next
  case (Cons e es)
  then show ?case by (auto intro: reachable.step split: if_splits)
qed

lemma current_on_world [simp]: "current (on_world f m) = current m"
  by (simp add: on_world_def)

lemma current_launch_click:
  assumes "phase_inv m"
  shows "current (launch_click m) = (if current m = Some Loading then current m else Some LoadScene)"
proof -
  obtain s where cur: "current m = Some s" using phase_inv_current [OF assms] by blast
  then show ?thesis using assms
    by (cases s) (auto simp: launch_click_def launch_listener_def phase_inv_def Let_def change_app_state_def)
qed

lemma current_step:
  assumes "phase_inv m"
  shows "current (step e m) =
    (case e of DecodeSuccess _ \<Rightarrow> Some Play
     | LaunchClick \<Rightarrow> (if current m = Some Loading then current m else Some LoadScene)
     | _ \<Rightarrow> current m)"
  using assms by (cases e) (simp_all add: current_launch_click sound_loaded_def change_app_state_def Let_def)

lemma run_demo_reachable: "run es demo_init = Some m \<Longrightarrow> reachable m"
  using run_reachable reachable.init [of True False "(800, 600)" 0 demo_page]
  by (auto simp: demo_init_def)

lemma run_the_reachable: "run es demo_init \<noteq> None \<Longrightarrow> reachable (the (run es demo_init))"
  using run_demo_reachable by auto

lemmas demo_simps = model_defs demo_init_def demo_page_def demo_track_def demo_events_def split_beta Let_def

lemma stuck_loading_step:
  assumes "phase_inv m" "stuck_loading m" "enabled e m"
  shows "stuck_loading (step e m)"
proof -
  have l: "launch_listeners (pending (world m)) = 0"
    using assms(1,2) by (simp add: phase_inv_def stuck_loading_def Let_def)
  show ?thesis using assms l
    by (cases e) (auto simp: stuck_loading_def no_loading_requests_def on_world_def launch_click_def
        animation_frame_def run_scene_def phase_inv_def Let_def on_mouse_move_def on_touch_move_def
        on_window_resize_def split: option.splits list.splits)
qed

lemma run_stuck_loading:
  "reachable m \<Longrightarrow> stuck_loading m \<Longrightarrow> run es m = Some m' \<Longrightarrow> stuck_loading m'"
proof (induction es arbitrary: m)
  case Nil
  then show ?case by simp
next
  case (Cons e es)
  then have en: "enabled e m" and r: "run es (step e m) = Some m'" by (simp_all split: if_splits)
  have "reachable (step e m)" using Cons.prems(1) en by (rule reachable.step)
  moreover have "stuck_loading (step e m)"
    using reachable_phase_inv [OF Cons.prems(1)] Cons.prems(2) en by (rule stuck_loading_step)
  ultimately show ?case using r by (rule Cons.IH)
qed


lemma link_click_step:
  "current (step (LinkClick l) m) = current m \<and>
   world (step (LinkClick l) m) = link_click_world l (world m) \<and>
   analytics (link_click_world l (world m)) =
     analytics (world m) @ map (\<lambda>x. (''Button'', ''Click'', x)) (click_label l) \<and>
   about_close_listeners (pending (link_click_world l (world m))) =
     about_close_listeners (pending (world m)) + (if l = AboutClick then 1 else 0)"
  using click_tracking [of l browser_click "tracking_of (world m)"]
  by (simp add: on_world_def link_click_world_def with_tracking_def tracking_of_def)

lemma run_link_clicks:
  assumes "tracking_listeners (pending (world m))"
  shows "\<exists>m'. run (map LinkClick ls) m = Some m' \<and> current m' = current m \<and>
           scene (world m') = scene (world m) \<and> app (world m') = app (world m) \<and>
           analytics (world m') =
             analytics (world m) @ map (\<lambda>x. (''Button'', ''Click'', x)) (concat (map click_label ls)) \<and>
           about_close_listeners (pending (world m')) =
             about_close_listeners (pending (world m)) + count_list ls AboutClick"
  using assms
proof (induction ls arbitrary: m)
  case Nil
  then show ?case by simp
next
  case (Cons l ls)
  let ?m1 = "step (LinkClick l) m"
  have "tracking_listeners (pending (world ?m1))" using Cons.prems link_click_step [of l m] by simp
  then obtain m' where "run (map LinkClick ls) ?m1 = Some m'" "current m' = current ?m1"
    "scene (world m') = scene (world ?m1)" "app (world m') = app (world ?m1)"
    "analytics (world m') =
       analytics (world ?m1) @ map (\<lambda>x. (''Button'', ''Click'', x)) (concat (map click_label ls))"
    "about_close_listeners (pending (world m')) =
       about_close_listeners (pending (world ?m1)) + count_list ls AboutClick"
    using Cons.IH by blast
  then show ?case using Cons.prems link_click_step [of l m] by auto
qed

lemma step_state_cases:
  assumes "reachable m"
  shows "enabled e m \<Longrightarrow> current (step e m) = current m \<or>
         (current m = Some Loading \<and> current (step e m) = Some Play) \<or>
         (current m = Some Play \<and> current (step e m) = Some LoadScene)"
proof -
  assume en: "enabled e m"
  have inv: "phase_inv m" using assms(1) by (rule reachable_phase_inv)
  obtain s where cur: "current m = Some s" using phase_inv_current [OF inv] by blast
  have dec: "current m = Some Loading" if "e = DecodeSuccess b" for b
    using en that by (intro requests_current_loading [OF inv]) (simp add: no_loading_requests_def)
  show ?thesis using current_step [OF inv, of e] cur dec
    by (cases e; cases s) auto
qed

lemma step_state_mono:
  assumes "reachable m" "enabled e m"
  shows "the (current m) \<le> the (current (step e m))"
  using step_state_cases [OF assms] by (auto simp: less_eq_app_state_def)

lemma run_state_mono:
  "reachable m \<Longrightarrow> run es m = Some m' \<Longrightarrow> the (current m) \<le> the (current m')"
proof (induction es arbitrary: m)
  case Nil
  then show ?case by simp
next
  case (Cons e es)
  then have en: "enabled e m" and r: "run es (step e m) = Some m'" by (simp_all split: if_splits)
  have "reachable (step e m)" using Cons.prems(1) en by (rule reachable.step)
  then have "the (current (step e m)) \<le> the (current m')" using Cons.IH r by blast
  then show ?case using step_state_mono [OF Cons.prems(1) en] by (rule order_trans [rotated])
qed

subsection \<open>Properties of the program\<close>

text \<open>C19: every event either leaves the application state as it is or moves it one
  step along Loading \<open>\<rightarrow>\<close> Play \<open>\<rightarrow>\<close> LoadScene, and along every run the
  state only grows in that order: the state machine never goes back and never skips
  a state.\<close>

theorem state_order:
  assumes "reachable m"
  shows "(enabled e m \<longrightarrow>
            current (step e m) = current m \<or>
            (current m = Some Loading \<and> current (step e m) = Some Play) \<or>
            (current m = Some Play \<and> current (step e m) = Some LoadScene)) \<and>
         (run es m = Some m' \<longrightarrow> the (current m) \<le> the (current m'))"
  using step_state_cases [OF assms] run_state_mono [OF assms] by blast

theorem state_order_witness:
  "current (step (DecodeSuccess (AudioBuffer 1)) (the (run (take 2 demo_events) demo_init))) = Some Play \<and>
   Loading \<le> the (current (the (run demo_events demo_init)))"
proof -
  have r: "run (take 2 demo_events) demo_init \<noteq> None"
    and e: "enabled (DecodeSuccess (AudioBuffer 1)) (the (run (take 2 demo_events) demo_init))"
    and c: "current (the (run (take 2 demo_events) demo_init)) = Some Loading"
    by (simp_all add: demo_simps)
  have "current (step (DecodeSuccess (AudioBuffer 1)) (the (run (take 2 demo_events) demo_init))) = Some Play"
    using state_order [OF run_the_reachable [OF r]] e c
    by (auto simp: sound_loaded_def change_app_state_def Let_def)
  moreover have "reachable demo_init" unfolding demo_init_def by (rule reachable.init)
  moreover have "run demo_events demo_init = Some (the (run demo_events demo_init))"
    and "current demo_init = Some Loading" by (simp_all add: demo_simps)
  ultimately show ?thesis using state_order [of demo_init] by fastforce
qed

text \<open>C20: in the Play and LoadScene states the decoded buffer is installed in the
  source node: the application leaves Loading only through a successful decode.\<close>

theorem buffer_before_play:
  assumes "reachable m" and "current m = Some Play \<or> current m = Some LoadScene"
  shows "\<exists>n b. source (app (world m)) = Some n \<and> buffer n = Some b"
  using reachable_phase_inv [OF assms(1)] assms(2) by (auto simp: phase_inv_def Let_def)

theorem buffer_before_play_witness:
  "\<exists>n b. source (app (world (the (run (take 3 demo_events) demo_init)))) = Some n \<and> buffer n = Some b"
proof -
  have r: "run (take 3 demo_events) demo_init \<noteq> None" and
    c: "current (the (run (take 3 demo_events) demo_init)) = Some Play"
    by (simp_all add: demo_simps)
  show ?thesis using buffer_before_play [OF run_the_reachable [OF r]] c by simp
qed

text \<open>C21: the source node is started at most once and never stopped: playback never
  overlaps and \<open>start(0)\<close> is never called twice on the same node.\<close>

theorem single_playback:
  assumes "reachable m"
  shows "\<exists>n. source (app (world m)) = Some n \<and> start_calls n \<le> 1 \<and> stop_calls n = 0"
  using reachable_phase_inv [OF assms] by (auto simp: phase_inv_def Let_def)

theorem single_playback_witness:
  "\<exists>n. source (app (world (the (run demo_events demo_init)))) = Some n \<and> start_calls n \<le> 1 \<and> stop_calls n = 0"
proof -
  have r: "run demo_events demo_init \<noteq> None" by (simp add: demo_simps)
  show ?thesis using single_playback [OF run_the_reachable [OF r]] .
qed

text \<open>C22: the browser holds at most one animation-frame callback, exactly when the
  resource barrier has completed, and playback has started exactly then: one animation
  loop, started together with the audio.\<close>

theorem single_animation_loop:
  assumes "reachable m"
  shows "\<exists>n. source (app (world m)) = Some n \<and>
             start_calls n = frame_callbacks (pending (world m)) \<and>
             frame_callbacks (pending (world m)) \<le> 1 \<and>
             (frame_callbacks (pending (world m)) = 1 \<longleftrightarrow> nb_loaded_resources (scene (world m)) = 2)"
  using reachable_phase_inv [OF assms] by (auto simp: phase_inv_def Let_def)

theorem single_animation_loop_witness:
  "\<exists>n. source (app (world (the (run demo_events demo_init)))) = Some n \<and>
       start_calls n = frame_callbacks (pending (world (the (run demo_events demo_init)))) \<and>
       frame_callbacks (pending (world (the (run demo_events demo_init)))) \<le> 1 \<and>
       (frame_callbacks (pending (world (the (run demo_events demo_init)))) = 1 \<longleftrightarrow>
        nb_loaded_resources (scene (world (the (run demo_events demo_init)))) = 2)"
proof -
  have r: "run demo_events demo_init \<noteq> None" by (simp add: demo_simps)
  show ?thesis using single_animation_loop [OF run_the_reachable [OF r]] .
qed

text \<open>C23: a further click on the launch button once the scene is loading (the
  \<open>disabled\<close> attribute does not stop it) changes neither the state, nor the scene,
  nor the audio, nor the browser's callbacks: \<open>changeState\<close>'s identity check is
  what makes the click idempotent. It does send one more Google Analytics launch
  event, so the events count clicks, not launches.\<close>

theorem second_launch_click_noop:
  assumes "reachable m" and "current m = Some LoadScene"
  shows "current (step LaunchClick m) = Some LoadScene \<and> scene (world (step LaunchClick m)) = scene (world m) \<and>
         app (world (step LaunchClick m)) = app (world m) \<and> pending (world (step LaunchClick m)) = pending (world m) \<and>
         analytics (world (step LaunchClick m)) = analytics (world m) @ [(''Button'', ''Click'', ''Launch Experience'')]"
proof -
  have "launch_listeners (pending (world m)) = 1"
    using reachable_phase_inv [OF assms(1)] assms(2) by (simp add: phase_inv_def Let_def)
  then have "step LaunchClick m = on_world launch_click_page m"
    using assms(2) by (simp add: launch_click_def launch_listener_def change_app_state_same on_world_def)
  then show ?thesis using assms(2) by (simp add: on_world_def launch_click_page_def)
qed

theorem second_launch_click_noop_witness:
  "current (step LaunchClick (the (run (take 4 demo_events) demo_init))) = Some LoadScene \<and>
   scene (world (step LaunchClick (the (run (take 4 demo_events) demo_init)))) =
     scene (world (the (run (take 4 demo_events) demo_init)))"
proof -
  have r: "run (take 4 demo_events) demo_init \<noteq> None" and
    c: "current (the (run (take 4 demo_events) demo_init)) = Some LoadScene"
    by (simp_all add: demo_simps)
  show ?thesis using second_launch_click_noop [OF run_the_reachable [OF r] c] by simp
qed

text \<open>C24: once the Loading state has no request or decoding outstanding (a failed
  request, a body that is not JSON, a decoding error), no sequence of events ever
  leaves Loading: there is no retry.\<close>

theorem decode_failure_stuck:
  assumes "reachable m" and "current m = Some Loading"
    and "metadata_request (pending (world m)) = None" and "audio_request (pending (world m)) = None"
    and "\<not> decoding (pending (world m))" and "run es m = Some m'"
  shows "current m' = Some Loading"
proof -
  have "stuck_loading m" using assms(2-5) by (simp add: stuck_loading_def no_loading_requests_def)
  with assms(1,6) have "stuck_loading m'" by (blast intro: run_stuck_loading)
  then show ?thesis by (simp add: stuck_loading_def)
qed

theorem decode_failure_stuck_witness:
  "current (the (run [LaunchClick, ClockTick 20, MouseMove 1 1]
      (the (run (take 2 demo_events @ [DecodeError ''EncodingError'']) demo_init)))) = Some Loading"
proof -
  let ?m = "the (run (take 2 demo_events @ [DecodeError ''EncodingError'']) demo_init)"
  have r: "run (take 2 demo_events @ [DecodeError ''EncodingError'']) demo_init \<noteq> None"
    and c: "current ?m = Some Loading"
    and p: "metadata_request (pending (world ?m)) = None" "audio_request (pending (world ?m)) = None"
       "\<not> decoding (pending (world ?m))"
    and r2: "run [LaunchClick, ClockTick 20, MouseMove 1 1] ?m \<noteq> None"
    by (simp_all add: demo_simps)
  show ?thesis
    using decode_failure_stuck [OF run_the_reachable [OF r] c p, of "[LaunchClick, ClockTick 20, MouseMove 1 1]"] r2
    by auto
qed

text \<open>C25: without WebGL the renderer is never drawn to, and the pointer is never tracked:
  the listeners are registered inside the \<open>try\<close> block after the renderer's
  construction, so they are skipped with it.\<close>

theorem no_webgl_headless:
  assumes "reachable m" and "\<not> webgl_available (world m)"
  shows "mouse (scene (world m)) = (0, 0) \<and> draw_calls (world m) = 0 \<and> \<not> has_gl (scene (world m)) \<and>
         \<not> pointer_listeners (pending (world m))"
  using reachable_phase_inv [OF assms(1)] assms(2)
  by (cases "current m") (auto simp: phase_inv_def Let_def split: app_state.splits)

theorem no_webgl_headless_witness:
  "mouse (scene (world (the (run [MetadataReadyState 4 200 (Some demo_track), AudioLoad,
      DecodeSuccess (AudioBuffer 1), LaunchClick, TextureLoad, MouseMove 100 100, AnimationFrame]
      (initialize False False (800, 600) 0 demo_page))))) = (0, 0)"
proof -
  let ?es = "[MetadataReadyState 4 200 (Some demo_track), AudioLoad, DecodeSuccess (AudioBuffer 1),
              LaunchClick, TextureLoad, MouseMove 100 100, AnimationFrame]"
  let ?i = "initialize False False (800, 600) 0 demo_page"
  have r: "run ?es ?i \<noteq> None" and w: "\<not> webgl_available (world (the (run ?es ?i)))"
    by (simp_all add: demo_simps)
  from r obtain m' where m': "run ?es ?i = Some m'" by blast
  have "reachable m'" by (rule run_reachable [OF m' reachable.init])
  then have "reachable (the (run ?es ?i))" using m' by simp
  then show ?thesis using no_webgl_headless w by blast
qed

text \<open>C26: the metadata request, the audio request and the decoding are outstanding one
  at a time, in that order: the audio is requested only after the metadata arrived and
  decoded only after the audio arrived.\<close>

theorem requests_sequential:
  assumes "reachable m"
  shows "(metadata_request (pending (world m)) \<noteq> None \<longrightarrow>
            audio_request (pending (world m)) = None \<and> \<not> decoding (pending (world m))) \<and>
         (audio_request (pending (world m)) \<noteq> None \<longrightarrow> \<not> decoding (pending (world m)))"
proof -
  have inv: "phase_inv m" using assms by (rule reachable_phase_inv)
  show ?thesis
  proof (cases "no_loading_requests (pending (world m))")
    case True
    then show ?thesis by (simp add: no_loading_requests_def)
  next
    case False
    then have "current m = Some Loading" by (rule requests_current_loading [OF inv])
    then show ?thesis using inv by (simp add: phase_inv_def Let_def requests_in_order_def)
  qed
qed

theorem requests_sequential_witness:
  "audio_request (pending (world (the (run (take 1 demo_events) demo_init)))) \<noteq> None \<and>
   \<not> decoding (pending (world (the (run (take 1 demo_events) demo_init))))"
proof -
  have r: "run (take 1 demo_events) demo_init \<noteq> None"
    and a: "audio_request (pending (world (the (run (take 1 demo_events) demo_init)))) \<noteq> None"
    by (simp_all add: demo_simps)
  show ?thesis using requests_sequential [OF run_the_reachable [OF r]] a by blast
qed

text \<open>C27: a successful decode installs the decoded buffer in the source node, which
  was neither started nor stopped, then changes to Play, whose callbacks run in the
  protocol's order: the console shows Loading's exit, then Play's enter, then Play's
  execute, which registers the launch listener.\<close>

theorem decode_success_call_order:
  assumes "reachable m" and "enabled (DecodeSuccess b) m"
  shows "current (step (DecodeSuccess b) m) = Some Play \<and>
         (\<exists>n. source (app (world m)) = Some n \<and> buffer n = None \<and>
              source (app (world (step (DecodeSuccess b) m))) = Some (n\<lparr>buffer := Some b\<rparr>)) \<and>
         launch_listeners (pending (world (step (DecodeSuccess b) m))) =
           Suc (launch_listeners (pending (world m))) \<and>
         console (world (step (DecodeSuccess b) m)) =
           console (world m) @ [''LoadingState::_playSound'', ''Application, States, PlayState'',
             ''LoadingState::exit'', ''PlayState::enter'', ''PlayState::execute'']"
proof -
  have inv: "phase_inv m" using assms(1) by (rule reachable_phase_inv)
  have cur: "current m = Some Loading"
    using assms(2) by (intro requests_current_loading [OF inv]) (simp add: no_loading_requests_def)
  obtain n where n: "source (app (world m)) = Some n" "buffer n = None"
    using inv cur by (auto simp: phase_inv_def Let_def)
  have "current (on_world (set_pending (\<lambda>p. p\<lparr>decoding := False\<rparr>)) m) = Some Loading"
    using cur by simp
  then show ?thesis
    using n by (simp add: sound_loaded_world console_log_def play_execute_def play_enter_def loading_exit_def
        launch_experience_def on_world_def set_pending_def set_source_node_buffer_def)
qed

theorem decode_success_call_order_witness:
  "console (world (step (DecodeSuccess (AudioBuffer 1)) (the (run (take 2 demo_events) demo_init)))) =
   console (world (the (run (take 2 demo_events) demo_init))) @
     [''LoadingState::_playSound'', ''Application, States, PlayState'',
      ''LoadingState::exit'', ''PlayState::enter'', ''PlayState::execute'']"
proof -
  have r: "run (take 2 demo_events) demo_init \<noteq> None"
    and e: "enabled (DecodeSuccess (AudioBuffer 1)) (the (run (take 2 demo_events) demo_init))"
    by (simp_all add: demo_simps)
  show ?thesis using decode_success_call_order [OF run_the_reachable [OF r] e] by blast
qed

text \<open>When the metadata request completes with the Abidjan permalink, the page
  shows the title Abidjan whatever the title field of the JSON.\<close>

theorem metadata_shows_abidjan:
  assumes "metadata_request (pending (world m)) \<noteq> None"
    and "permalink_url info = Some ''https://soundcloud.com/boundarysound/boundary-abidjan''"
    and "user_permalink_url info = Some u"
  shows "text_content (page (world (step (MetadataReadyState 4 200 (Some info)) m))) TrackTitle = ''Abidjan''"
  using assms
  by (simp add: on_world_def set_pending_def metadata_ready_state_def ajax_callback_fires_def
      metadata_loaded_def load_audio_def console_log_def set_track_info_def display_title_def
      set_text_def set_attribute_def Let_def)

theorem metadata_shows_abidjan_witness:
  "text_content (page (world (step (MetadataReadyState 4 200
     (Some (demo_track\<lparr>permalink_url := Some ''https://soundcloud.com/boundarysound/boundary-abidjan'',
                       title := ''Some other title''\<rparr>))) demo_init))) TrackTitle = ''Abidjan''"
proof -
  have "metadata_request (pending (world demo_init)) \<noteq> None" by (simp add: demo_simps)
  then show ?thesis
    by (rule metadata_shows_abidjan) (simp_all add: demo_track_def)
qed

text \<open>C17: the analytics listeners compose with the rest of the program: from any
  reachable state, a sequence of clicks on the tracked links (album art, artist,
  GitHub, About, the About dialog's close button) always runs, leaves the application
  state, the scene and the audio as they were, appends to the Google Analytics log one
  event per click on a tracked link, in click order, and leaves one more listener on
  the close button per About click.\<close>

theorem link_clicks_tracked:
  assumes "reachable m"
  shows "\<exists>m'. run (map LinkClick ls) m = Some m' \<and> current m' = current m \<and>
           scene (world m') = scene (world m) \<and> app (world m') = app (world m) \<and>
           analytics (world m') =
             analytics (world m) @ map (\<lambda>x. (''Button'', ''Click'', x)) (concat (map click_label ls)) \<and>
           about_close_listeners (pending (world m')) =
             about_close_listeners (pending (world m)) + count_list ls AboutClick"
proof -
  have "tracking_listeners (pending (world m))"
    using reachable_phase_inv [OF assms] by (simp add: phase_inv_def Let_def)
  then show ?thesis by (rule run_link_clicks)
qed

theorem link_clicks_tracked_witness:
  "\<exists>m'. run (map LinkClick [AboutClick, CloseClick, AboutClick]) demo_init = Some m' \<and>
     current m' = current demo_init \<and>
     analytics (world m') = analytics (world demo_init) @
       [(''Button'', ''Click'', ''About Modal''), (''Button'', ''Click'', ''About Modal'')] \<and>
     about_close_listeners (pending (world m')) = about_close_listeners (pending (world demo_init)) + 2"
proof -
  have "reachable demo_init" unfolding demo_init_def by (rule reachable.init)
  then show ?thesis
    using link_clicks_tracked [of demo_init "[AboutClick, CloseClick, AboutClick]"]
    by (simp del: run.simps) (metis add_2_eq_Suc')
qed

end
