(* ===== verification/Refinement.thy ===== *)
theory Refinement
  imports SystemInvariants
begin

text \<open>
  The contract of the state machine as the specification states it (its section 4
  table and section 4.4): the application is in Loading, Play or the scene state; a
  decoded buffer is installed when Loading hands over to Play; a user gesture moves
  Play to the scene state, whose two resources complete one at a time; when both have
  completed, playback starts and the animation loop runs. \<open>spec_trans\<close> is that
  machine as a relation; \<open>abs_system\<close> reads its state off a state of the program.
\<close>

record spec_state =
  spec_phase :: app_state
  buffer_set :: bool
  playing :: bool
  loop_running :: bool
  resources :: nat

definition spec_init :: spec_state where
  "spec_init = \<lparr>spec_phase = Loading, buffer_set = False, playing = False, loop_running = False,
                resources = 0\<rparr>"

inductive spec_trans :: "spec_state \<Rightarrow> spec_state \<Rightarrow> bool" where
  decoded: "spec_phase s = Loading \<Longrightarrow> spec_trans s (s\<lparr>spec_phase := Play, buffer_set := True\<rparr>)"
| gesture: "spec_phase s = Play \<Longrightarrow> spec_trans s (s\<lparr>spec_phase := LoadScene\<rparr>)"
| resource_done:
    "spec_phase s = LoadScene \<Longrightarrow> resources s < 2 \<Longrightarrow>
     spec_trans s (s\<lparr>resources := Suc (resources s),
                     playing := (Suc (resources s) = 2), loop_running := (Suc (resources s) = 2)\<rparr>)"

definition abs_system :: "system \<Rightarrow> spec_state" where
  "abs_system m =
     (let w = world m; n = the (source (app w))
      in \<lparr>spec_phase = the (current m), buffer_set = (buffer n \<noteq> None), playing = (0 < start_calls n),
          loop_running = (0 < frame_callbacks (pending w)), resources = nb_loaded_resources (scene w)\<rparr>)"

definition spec_of :: "app_state \<Rightarrow> nat \<Rightarrow> spec_state" where
  "spec_of s n = \<lparr>spec_phase = s, buffer_set = (s \<noteq> Loading), playing = (n = 2),
                  loop_running = (n = 2), resources = n\<rparr>"

lemma abs_system_inv:
  assumes "phase_inv m"
  shows "abs_system m = spec_of (the (current m)) (nb_loaded_resources (scene (world m)))"
proof -
  obtain s where cur: "current m = Some s" using phase_inv_current [OF assms] by blast
  then show ?thesis using assms
    by (cases s) (auto simp: abs_system_def spec_of_def phase_inv_def Let_def)
qed

lemma phase_inv_nb:
  assumes "phase_inv m"
  shows "(current m = Some LoadScene \<longrightarrow> nb_loaded_resources (scene (world m)) \<in> {1, 2}) \<and>
         (current m \<noteq> Some LoadScene \<longrightarrow> nb_loaded_resources (scene (world m)) = 0)"
  using assms phase_inv_current [OF assms]
  by (auto simp: phase_inv_def Let_def split: app_state.splits)

lemma nb_step_scene:
  assumes inv: "phase_inv m" and cur: "current m = Some LoadScene" and en: "enabled e m"
  shows "nb_loaded_resources (scene (world (step e m))) =
           (if e = TextureLoad then Suc (nb_loaded_resources (scene (world m)))
            else nb_loaded_resources (scene (world m)))"
proof (cases e)
  case LaunchClick
  have "launch_listeners (pending (world m)) = 1" using inv cur by (simp add: phase_inv_def Let_def)
  then show ?thesis using LaunchClick cur
    by (simp add: launch_click_def launch_listener_def change_app_state_same on_world_def launch_click_page_def)
next
  case TextureLoad
  then show ?thesis by (simp add: on_world_def set_pending_def run_scene_def split_beta)
next
  case (DecodeSuccess b)
  then have "current m = Some Loading"
    using en by (intro requests_current_loading [OF inv]) (simp add: no_loading_requests_def)
  then show ?thesis using cur by simp
next
  case AnimationFrame
  have "frame_callbacks (pending (world m)) \<le> 1" using inv by (simp add: phase_inv_def Let_def)
  then have "frame_callbacks (pending (world m)) = 0 \<or> frame_callbacks (pending (world m)) = 1" by linarith
  then show ?thesis using AnimationFrame
    by (auto simp: on_world_def animation_frame_def animate_callback_def run_scene_def animate_def split_beta)
qed (auto simp: on_world_def set_pending_def metadata_ready_state_frame audio_onload_def sound_load_error_def
       console_log_def on_mouse_move_def on_window_resize_def on_touch_move_def Let_def
       sound_loaded_def change_app_state_def change_state_def
       split: option.splits list.splits)

lemma spec_of_decoded: "spec_trans (spec_of Loading 0) (spec_of Play 0)"
proof -
  have "spec_trans (spec_of Loading 0) ((spec_of Loading 0)\<lparr>spec_phase := Play, buffer_set := True\<rparr>)"
    by (rule spec_trans.decoded) (simp add: spec_of_def)
  then show ?thesis by (simp add: spec_of_def)
qed

lemma spec_of_resource: "n < 2 \<Longrightarrow> spec_trans (spec_of LoadScene n) (spec_of LoadScene (Suc n))"
proof -
  assume "n < 2"
  then have "spec_trans (spec_of LoadScene n)
      ((spec_of LoadScene n)\<lparr>resources := Suc n, playing := (Suc n = 2), loop_running := (Suc n = 2)\<rparr>)"
    using spec_trans.resource_done [of "spec_of LoadScene n"] by (simp add: spec_of_def)
  then show ?thesis by (simp add: spec_of_def)
qed

lemma spec_of_gesture: "spec_trans (spec_of Play 0) (spec_of LoadScene 0)"
proof -
  have "spec_trans (spec_of Play 0) ((spec_of Play 0)\<lparr>spec_phase := LoadScene\<rparr>)"
    by (rule spec_trans.gesture) (simp add: spec_of_def)
  then show ?thesis by (simp add: spec_of_def)
qed

lemma spec_simulates_step:
  assumes inv: "phase_inv m" and en: "enabled e m"
  shows "spec_trans\<^sup>*\<^sup>* (abs_system m) (abs_system (step e m))"
proof -
  have inv': "phase_inv (step e m)" using inv en by (rule inv_step)
  obtain s where cur: "current m = Some s" using phase_inv_current [OF inv] by blast
  have nb: "nb_loaded_resources (scene (world m)) = (if s = LoadScene then nb_loaded_resources (scene (world m)) else 0)"
    using phase_inv_nb [OF inv] cur by auto
  note abs = abs_system_inv [OF inv] abs_system_inv [OF inv']
  note nb' = phase_inv_nb [OF inv']
  have cur': "current (step e m) =
    (case e of DecodeSuccess _ \<Rightarrow> Some Play
     | LaunchClick \<Rightarrow> (if s = Loading then Some s else Some LoadScene) | _ \<Rightarrow> Some s)"
    using current_step [OF inv, of e] cur by (cases e) simp_all
  have dec: "s = Loading" if "e = DecodeSuccess b" for b
    using en that cur requests_current_loading [OF inv] by (simp add: no_loading_requests_def)
  show ?thesis
  proof (cases s)
    case Loading
    have "abs_system (step e m) = spec_of Loading 0 \<or> abs_system (step e m) = spec_of Play 0"
      using cur' nb' abs(2) Loading by (cases e) auto
    then show ?thesis using abs(1) cur nb Loading spec_of_decoded by auto
  next
    case Play
    have steps: "spec_trans\<^sup>*\<^sup>* (spec_of Play 0) (spec_of LoadScene n)" if "n \<in> {1, 2}" for n
    proof -
      have "spec_trans\<^sup>*\<^sup>* (spec_of Play 0) (spec_of LoadScene 1)"
        using spec_of_gesture spec_of_resource [of 0] by (simp add: converse_rtranclp_into_rtranclp)
      moreover have "spec_trans\<^sup>*\<^sup>* (spec_of LoadScene 1) (spec_of LoadScene 2)"
        using spec_of_resource [of 1] by (simp add: numeral_2_eq_2)
      ultimately show ?thesis using that by (auto simp: numeral_2_eq_2)
    qed
    have "abs_system (step e m) = spec_of Play 0 \<or>
          (\<exists>n \<in> {1, 2}. abs_system (step e m) = spec_of LoadScene n)"
      using cur' nb' abs(2) Play by (cases e) auto
    then show ?thesis using abs(1) cur nb Play steps by auto
  next
    case LoadScene
    have n: "nb_loaded_resources (scene (world m)) \<in> {1, 2}" using phase_inv_nb [OF inv] cur LoadScene by simp
    have tl: "e = TextureLoad \<Longrightarrow> nb_loaded_resources (scene (world m)) = 1"
      using inv cur LoadScene en by (auto simp: phase_inv_def Let_def)
    have "current (step e m) = Some LoadScene" using cur' LoadScene dec by (cases e) auto
    then have "abs_system (step e m) =
        spec_of LoadScene (if e = TextureLoad then Suc (nb_loaded_resources (scene (world m)))
                           else nb_loaded_resources (scene (world m)))"
      using abs(2) nb_step_scene [OF inv cur [unfolded LoadScene] en] by simp
    then show ?thesis
      using abs(1) cur LoadScene tl spec_of_resource [of 1] by (auto simp: numeral_2_eq_2)
  qed
qed

lemma run_simulated:
  "reachable m0 \<Longrightarrow> run es m0 = Some m \<Longrightarrow> spec_trans\<^sup>*\<^sup>* (abs_system m0) (abs_system m)"
proof (induction es arbitrary: m0)
  case Nil
  then show ?case by simp
next
  case (Cons e es)
  then have en: "enabled e m0" and r: "run es (step e m0) = Some m" by (simp_all split: if_splits)
  have "spec_trans\<^sup>*\<^sup>* (abs_system m0) (abs_system (step e m0))"
    using reachable_phase_inv [OF Cons.prems(1)] en by (rule spec_simulates_step)
  moreover have "spec_trans\<^sup>*\<^sup>* (abs_system (step e m0)) (abs_system m)"
    using Cons.IH [OF reachable.step [OF Cons.prems(1) en] r] .
  ultimately show ?case by (rule rtranclp_trans)
qed

lemma abs_system_initialize: "abs_system (initialize webgl touch win t0 page0) = spec_init"
proof -
  have inv: "phase_inv (initialize webgl touch win t0 page0)" by (rule inv_init)
  have cur: "current (initialize webgl touch win t0 page0) = Some Loading"
    by (simp add: initialize_def initial_world_def change_app_state_def Let_def)
  then have "nb_loaded_resources (scene (world (initialize webgl touch win t0 page0))) = 0"
    using phase_inv_nb [OF inv] by simp
  then show ?thesis using abs_system_inv [OF inv] cur by (simp add: spec_of_def spec_init_def)
qed

subsection \<open>The program refines its specification\<close>

text \<open>C39: every run of the program from \<open>Application.initialize\<close> is a behaviour of the
  specified state machine: read through \<open>abs_system\<close>, each event of the run is a
  finite sequence of the specification's steps (decode Loading \<open>\<rightarrow>\<close> Play with the
  buffer installed, gesture Play \<open>\<rightarrow>\<close> scene, one resource completion at a time,
  playback and the animation loop starting with the second), or no step at all.\<close>

theorem system_refines_spec:
  assumes "run es (initialize webgl touch win t0 page0) = Some m"
  shows "spec_trans\<^sup>*\<^sup>* spec_init (abs_system m)"
  using run_simulated [OF reachable.init assms] abs_system_initialize by simp

theorem system_refines_spec_witness:
  "spec_trans\<^sup>*\<^sup>* spec_init (abs_system (the (run demo_events (initialize True False (800, 600) 0 demo_page))))"
proof -
  have "run demo_events (initialize True False (800, 600) 0 demo_page) \<noteq> None"
    by (simp add: demo_simps)
  then show ?thesis using system_refines_spec [of demo_events True False "(800, 600)" 0 demo_page] by auto
qed

end
