(* ===== verification/ClassName.thy ===== *)
theory ClassName
  imports Utils
begin

text \<open>
  The fallback branch of \<open>removeCSSClass\<close> and \<open>addCSSClass\<close> (\<open>Utils.js\<close>
  lines 87 and 103), taken by a browser whose elements have no \<open>classList\<close>. The
  element's classes are then the string \<open>className\<close>, whose tokens are its
  space-separated words (\<open>class_tokens\<close>).
  \<^item> \<open>addCSSClass\<close> appends \<open>' ' + className\<close>.
  \<^item> \<open>removeCSSClass\<close> replaces every match of the regular expression
    \<open>(^|\b)c(\b|$)\<close>, flags \<open>gi\<close>, by a space. For a class name \<open>c\<close> without
    spaces or regular-expression metacharacters, as the program passes
    (\<open>'hidden'\<close>), the pattern \<open>className.split(' ').join('|')\<close> is \<open>c\<close> itself.
    \<open>scan\<close> is the global replacement, left to right. A match starts at a position
    where the string starts (\<open>^\<close>) or where a word boundary is (\<open>\b\<close>: one of the
    two neighbouring characters is a word character \<open>[A-Za-z0-9_]\<close> and the other is
    not). It reads \<open>c\<close> up to ASCII case (\<open>i\<close>) and ends where the string ends
    (\<open>$\<close>) or at a word boundary. After a match the scan resumes behind it; the
    character before the resumption point is the last character matched.
  The empty class name, which the program never passes, is outside the model
  (the expression would then match the empty string at every boundary).
\<close>

definition is_word_char :: "char \<Rightarrow> bool" where
  "is_word_char x =
     (let n = of_char x :: nat
      in (48 \<le> n \<and> n \<le> 57) \<or> (65 \<le> n \<and> n \<le> 90) \<or> (97 \<le> n \<and> n \<le> 122) \<or> n = 95)"

definition lower_char :: "char \<Rightarrow> char" where
  "lower_char x = (let n = of_char x :: nat in if 65 \<le> n \<and> n \<le> 90 then char_of (n + 32) else x)"

definition word_before :: "char option \<Rightarrow> bool" where
  "word_before p = (case p of None \<Rightarrow> False | Some x \<Rightarrow> is_word_char x)"

definition match_at :: "string \<Rightarrow> char option \<Rightarrow> string \<Rightarrow> bool" where
  "match_at c prev s =
     (c \<noteq> [] \<and> length c \<le> length s \<and>
      map lower_char (take (length c) s) = map lower_char c \<and>
      (prev = None \<or> word_before prev \<noteq> is_word_char (hd s)) \<and>
      (length s = length c \<or> is_word_char (s ! (length c - 1)) \<noteq> is_word_char (s ! length c)))"

function scan :: "string \<Rightarrow> char option \<Rightarrow> string \<Rightarrow> string" where
  "scan c prev [] = []"
| "scan c prev (x # xs) =
     (if match_at c prev (x # xs)
      then CHR '' '' # scan c (Some ((x # xs) ! (length c - 1))) (drop (length c) (x # xs))
      else x # scan c (Some x) xs)"
  by pat_completeness auto
termination
  by (relation "measure (\<lambda>(c, prev, s). length s)") (auto simp: match_at_def)

definition remove_css_class_fallback :: "string \<Rightarrow> string \<Rightarrow> string" where
  "remove_css_class_fallback c class_name = scan c None class_name"

definition add_css_class_fallback :: "string \<Rightarrow> string \<Rightarrow> string" where
  "add_css_class_fallback c class_name = class_name @ '' '' @ c"

definition class_tokens :: "string \<Rightarrow> string list" where
  "class_tokens s = filter (\<lambda>t. t \<noteq> []) (split_on CHR '' '' s)"

subsection \<open>Characters\<close>

lemma is_word_char_lower [simp]: "is_word_char (lower_char x) = is_word_char x"
  by (auto simp: is_word_char_def lower_char_def Let_def of_char_of)

lemma space_not_word [simp]: "\<not> is_word_char CHR '' ''"
  by (simp add: is_word_char_def)

lemma word_before_simps [simp]:
  "word_before None = False" "word_before (Some x) = is_word_char x"
  by (simp_all add: word_before_def)

subsection \<open>The scan over words and spaces\<close>

text \<open>No match starts at a space, since the class name starts with a word character.\<close>

lemma scan_space:
  assumes "c \<noteq> []" "\<forall>x \<in> set c. is_word_char x"
  shows "scan c prev (CHR '' '' # rest) = CHR '' '' # scan c (Some CHR '' '') rest"
proof -
  have "\<not> match_at c prev (CHR '' '' # rest)"
  proof
    assume "match_at c prev (CHR '' '' # rest)"
    then have "lower_char CHR '' '' = lower_char (hd c)"
      using assms(1) by (cases c) (auto simp: match_at_def)
    then have "is_word_char CHR '' '' = is_word_char (hd c)"
      by (metis is_word_char_lower)
    then show False using assms by simp
  qed
  then show ?thesis by simp
qed

lemma scan_nonword:
  assumes "c \<noteq> []" "\<forall>x \<in> set c. is_word_char x" "\<not> is_word_char x"
  shows "scan c prev (x # rest) = x # scan c (Some x) rest"
proof -
  have "\<not> match_at c prev (x # rest)"
  proof
    assume "match_at c prev (x # rest)"
    then have "lower_char x = lower_char (hd c)"
      using assms(1) by (cases c) (auto simp: match_at_def)
    then have "is_word_char x = is_word_char (hd c)"
      by (metis is_word_char_lower)
    then show False using assms by simp
  qed
  then show ?thesis by simp
qed

lemma class_tokens_append_word:
  assumes "c \<noteq> []" "CHR '' '' \<notin> set c"
  shows "class_tokens (cn @ CHR '' '' # c) = class_tokens cn @ [c]"
  using assms by (simp add: class_tokens_def split_on_append split_on_no_sep)

text \<open>Inside a word no match starts: there is no boundary between two word characters.\<close>

lemma scan_inside_word:
  assumes "is_word_char p" "\<forall>x \<in> set w. is_word_char x"
  shows "scan c (Some p) (w @ rest) = w @ scan c (Some (last (p # w))) rest"
  using assms
proof (induction w arbitrary: p)
  case Nil
  then show ?case by simp
next
  case (Cons x w)
  have "\<not> match_at c (Some p) (x # w @ rest)"
    using Cons.prems by (simp add: match_at_def)
  then show ?case using Cons by simp
qed

text \<open>At the start of a word, the expression matches exactly when the whole word is the
  class name up to case.\<close>

lemma match_at_word:
  assumes "\<not> word_before prev" "w \<noteq> []" "\<forall>x \<in> set w. is_word_char x"
    and "rest = [] \<or> \<not> is_word_char (hd rest)" "\<forall>x \<in> set c. is_word_char x"
  shows "match_at c prev (w @ rest) \<longleftrightarrow> map lower_char w = map lower_char c"
proof
  assume m: "match_at c prev (w @ rest)"
  then have len: "length c \<le> length w + length rest" and c: "c \<noteq> []"
    and eq: "map lower_char (take (length c) (w @ rest)) = map lower_char c"
    by (simp_all add: match_at_def)
  consider "length w < length c" | "length c < length w" | "length c = length w" by linarith
  then show "map lower_char w = map lower_char c"
  proof cases
    case 1
    then obtain r rs where r: "rest = r # rs" using len by (cases rest) auto
    then have sp: "\<not> is_word_char r" using assms(4) by simp
    have "map lower_char (take (length c) (w @ rest)) ! length w = lower_char r"
      using 1 r by (simp add: nth_append)
    then have "lower_char r = lower_char (c ! length w)" using eq 1 by (metis length_map nth_map)
    then have "is_word_char r = is_word_char (c ! length w)" by (metis is_word_char_lower)
    then show ?thesis using sp assms(5) 1 by simp
  next
    case 2
    then have "length c - 1 < length w" "is_word_char (w ! (length c - 1))" "is_word_char (w ! length c)"
      using assms(3) c by (simp_all add: less_imp_diff_less)
    then show ?thesis using m 2 by (auto simp: match_at_def nth_append)
  next
    case 3
    then show ?thesis using eq by simp
  qed
next
  assume eq: "map lower_char w = map lower_char c"
  then have len: "length c = length w" by (metis length_map)
  have "is_word_char (last w)" using assms(2,3) by simp
  moreover have "(w @ rest) ! (length w - 1) = last w" using assms(2) by (simp add: nth_append last_conv_nth)
  moreover have "rest \<noteq> [] \<Longrightarrow> \<not> is_word_char ((w @ rest) ! length w)"
    using assms(4) by (cases rest) simp_all
  moreover have "is_word_char (hd (w @ rest))" using assms(2,3) by (cases w) simp_all
  ultimately show "match_at c prev (w @ rest)"
    using eq len assms(1,2) by (auto simp: match_at_def)
qed

lemma scan_word:
  assumes "\<not> word_before prev" "w \<noteq> []" "\<forall>x \<in> set w. is_word_char x"
    and "rest = [] \<or> \<not> is_word_char (hd rest)" "\<forall>x \<in> set c. is_word_char x"
  shows "scan c prev (w @ rest) =
           (if map lower_char w = map lower_char c then '' '' else w) @ scan c (Some (last w)) rest"
proof -
  obtain x w' where w: "w = x # w'" using assms(2) by (cases w) auto
  show ?thesis
  proof (cases "map lower_char w = map lower_char c")
    case True
    then have len: "length c = length w" by (metis length_map)
    have "(w @ rest) ! (length c - 1) = last w"
      using len assms(2) by (simp add: nth_append last_conv_nth)
    moreover have "match_at c prev (w @ rest)" using True match_at_word [OF assms] by simp
    then have "scan c prev (w @ rest) =
        CHR '' '' # scan c (Some ((w @ rest) ! (length c - 1))) (drop (length c) (w @ rest))"
      unfolding w by simp
    ultimately show ?thesis using True len by simp
  next
    case False
    then have "\<not> match_at c prev (x # w' @ rest)" using match_at_word [OF assms] w by simp
    then show ?thesis
      using False scan_inside_word [of x w' c rest] assms(3) w by simp
  qed
qed

lemma scan_fields:
  assumes "\<forall>f \<in> set fs. \<forall>x \<in> set f. is_word_char x" "\<not> word_before prev"
    and "c \<noteq> []" "\<forall>x \<in> set c. is_word_char x"
  shows "scan c prev (join '' '' fs) =
           join '' '' (map (\<lambda>f. if map lower_char f = map lower_char c then '' '' else f) fs)"
  using assms(1,2)
proof (induction fs arbitrary: prev)
  case Nil
  then show ?case by simp
next
  case (Cons f fs)
  let ?g = "\<lambda>f. if map lower_char f = map lower_char c then '' '' else f"
  have ne: "map lower_char [] \<noteq> map lower_char c" using assms(3) by simp
  have tail: "scan c prev' (CHR '' '' # join '' '' fs) = CHR '' '' # join '' '' (map ?g fs)" for prev'
    using scan_space [OF assms(3,4)] Cons.IH [of "Some CHR '' ''"] Cons.prems(1) by simp
  show ?case
  proof (cases "f = []")
    case True
    then show ?thesis using ne tail by (simp add: join_Cons)
  next
    case False
    have "scan c prev (f @ rest) = ?g f @ scan c (Some (last f)) rest"
      if "rest = [] \<or> hd rest = CHR '' ''" for rest
    proof -
      have r: "rest = [] \<or> \<not> is_word_char (hd rest)" using that by auto
      show ?thesis using scan_word [OF Cons.prems(2) False _ r assms(4)] Cons.prems(1) by simp
    qed
    from this [of "[]"] this [of "CHR '' '' # join '' '' fs"] show ?thesis
      using tail by (simp add: join_Cons)
  qed
qed

lemma class_tokens_join: "fs \<noteq> [] \<Longrightarrow> class_tokens (join '' '' fs) = concat (map class_tokens fs)"
  by (simp add: class_tokens_def [abs_def] split_on_join_concat filter_concat comp_def)

lemma class_tokens_no_space: "CHR '' '' \<notin> set f \<Longrightarrow> class_tokens f = (if f = [] then [] else [f])"
  by (simp add: class_tokens_def split_on_no_sep)

lemma class_tokens_replaced:
  assumes "c \<noteq> []" "\<forall>f \<in> set fs. CHR '' '' \<notin> set f"
  shows "concat (map (\<lambda>f. class_tokens (if map lower_char f = map lower_char c then '' '' else f)) fs) =
         filter (\<lambda>t. map lower_char t \<noteq> map lower_char c) (filter (\<lambda>t. t \<noteq> []) fs)"
  using assms(2)
proof (induction fs)
  case Nil
  then show ?case by simp
next
  case (Cons f fs)
  have "class_tokens '' '' = []" by (simp add: class_tokens_def)
  then show ?case using Cons assms(1) class_tokens_no_space [of f] by auto
qed

lemma scan_rel_wf: "wfp scan_rel"
proof (rule wfp_subset)
  show "wfp (\<lambda>a b. (a, b) \<in> measure (\<lambda>(c, prev, s). length s))"
    unfolding wfp_def by (rule wf_subset [OF wf_measure [of "\<lambda>(c, prev, s). length s"]]) auto
  show "scan_rel \<le> (\<lambda>a b. (a, b) \<in> measure (\<lambda>(c, prev, s). length s))"
    by (auto elim: scan_rel.cases simp: match_at_def)
qed

lemma class_tokens_scan:
  assumes "\<forall>x \<in> set cn. is_word_char x \<or> x = CHR '' ''"
    and "c \<noteq> []" and "\<forall>x \<in> set c. is_word_char x"
  shows "class_tokens (scan c None cn) =
           filter (\<lambda>t. map lower_char t \<noteq> map lower_char c) (class_tokens cn)"
proof -
  let ?fs = "split_on CHR '' '' cn"
  let ?g = "\<lambda>f. if map lower_char f = map lower_char c then '' '' else f"
  have fields: "\<forall>f \<in> set ?fs. \<forall>x \<in> set f. is_word_char x" "\<forall>f \<in> set ?fs. CHR '' '' \<notin> set f"
    using set_split_on [of _ "CHR '' ''" cn] assms(1) by blast+
  have "scan c None cn = join '' '' (map ?g ?fs)"
    using scan_fields [OF fields(1) _ assms(2,3), of None] join_split_on [of "CHR '' ''" cn]
    by simp
  then have "class_tokens (scan c None cn) = concat (map (\<lambda>f. class_tokens (?g f)) ?fs)"
    by (simp add: class_tokens_join comp_def)
  also have "\<dots> = filter (\<lambda>t. map lower_char t \<noteq> map lower_char c) (class_tokens cn)"
    using class_tokens_replaced [OF assms(2) fields(2)] by (simp add: class_tokens_def)
  finally show ?thesis .
qed

subsection \<open>The fallback against classList\<close>

text \<open>C33: on a \<open>className\<close> made of words and spaces, the fallback of
  \<open>removeCSSClass\<close> removes exactly the classes equal to the class name up to ASCII
  case, and keeps every other class in order.\<close>

theorem remove_css_class_fallback_tokens:
  assumes "\<forall>x \<in> set cn. is_word_char x \<or> x = CHR '' ''"
    and "c \<noteq> []" and "\<forall>x \<in> set c. is_word_char x"
  shows "class_tokens (remove_css_class_fallback c cn) =
           filter (\<lambda>t. map lower_char t \<noteq> map lower_char c) (class_tokens cn)"
  using class_tokens_scan [OF assms] by (simp add: remove_css_class_fallback_def)

theorem remove_css_class_fallback_tokens_witness:
  "class_tokens (remove_css_class_fallback ''hidden'' ''box Hidden hidden x'') =
     filter (\<lambda>t. map lower_char t \<noteq> map lower_char ''hidden'') (class_tokens ''box Hidden hidden x'')"
  by (rule remove_css_class_fallback_tokens) (simp_all add: is_word_char_def)

text \<open>C34: where no class differs from the class name only by case, the fallback
  implements the \<open>classList\<close> model of \<open>Utils\<close>: \<open>removeCSSClass\<close> leaves the same
  classes as \<open>classList.remove\<close>, and \<open>addCSSClass\<close> of a class not yet present the same
  as \<open>classList.add\<close>.\<close>

theorem css_class_fallback_refines:
  assumes "\<forall>x \<in> set cn. is_word_char x \<or> x = CHR '' ''"
    and "c \<noteq> []" and "\<forall>x \<in> set c. is_word_char x"
    and "\<forall>t \<in> set (class_tokens cn). map lower_char t = map lower_char c \<longrightarrow> t = c"
    and "class_list d e = class_tokens cn"
  shows "class_list (remove_css_class e c d) e = class_tokens (remove_css_class_fallback c cn) \<and>
         (c \<notin> set (class_tokens cn) \<longrightarrow>
            class_list (add_css_class e c d) e = class_tokens (add_css_class_fallback c cn))"
proof -
  have "filter (\<lambda>t. map lower_char t \<noteq> map lower_char c) (class_tokens cn) =
        filter (\<lambda>x. x \<noteq> c) (class_tokens cn)"
    using assms(4) by (auto intro: filter_cong)
  moreover have "class_tokens (add_css_class_fallback c cn) = class_tokens cn @ [c]"
  proof -
    have "CHR '' '' \<notin> set c" using assms(3) by auto
    then show ?thesis
      using assms(2) by (simp add: add_css_class_fallback_def class_tokens_def split_on_append split_on_no_sep)
  qed
  ultimately show ?thesis
    using class_tokens_scan [OF assms(1-3)] assms(5) by (simp add: remove_css_class_fallback_def)
qed

theorem css_class_fallback_refines_witness:
  "class_list (remove_css_class TrackInfo ''hidden'' \<lparr>class_list = \<lambda>_. [''info''], text_content = \<lambda>_. [], attribute = \<lambda>_ _. None\<rparr>) TrackInfo =
     class_tokens (remove_css_class_fallback ''hidden'' ''info'') \<and>
   class_list (add_css_class TrackInfo ''hidden'' \<lparr>class_list = \<lambda>_. [''info''], text_content = \<lambda>_. [], attribute = \<lambda>_ _. None\<rparr>) TrackInfo =
     class_tokens (add_css_class_fallback ''hidden'' ''info'')"
proof -
  have "class_list (remove_css_class TrackInfo ''hidden'' \<lparr>class_list = \<lambda>_. [''info''], text_content = \<lambda>_. [], attribute = \<lambda>_ _. None\<rparr>) TrackInfo =
     class_tokens (remove_css_class_fallback ''hidden'' ''info'') \<and>
    (''hidden'' \<notin> set (class_tokens ''info'') \<longrightarrow> class_list (add_css_class TrackInfo ''hidden'' \<lparr>class_list = \<lambda>_. [''info''], text_content = \<lambda>_. [], attribute = \<lambda>_ _. None\<rparr>) TrackInfo =
     class_tokens (add_css_class_fallback ''hidden'' ''info''))"
    by (rule css_class_fallback_refines) (simp_all add: is_word_char_def lower_char_def class_tokens_def char_of_def)
  moreover have "''hidden'' \<notin> set (class_tokens ''info'')" by (simp add: class_tokens_def)
  ultimately show ?thesis by blast
qed

text \<open>C35: outside classes of word characters the fallback diverges from
  \<open>classList\<close>: a hyphen is not a word character, so a boundary precedes the class
  name inside a hyphenated class. Removing a class name \<open>c\<close> from the single class
  \<open>p-c\<close>, for every word \<open>p\<close> other than \<open>c\<close> (\<open>is-hidden\<close> for
  \<open>hidden\<close>), cuts it down to \<open>p-\<close>, where \<open>classList.remove\<close> keeps it;
  adding \<open>c\<close> twice leaves it twice, where \<open>classList.add\<close> adds it once.\<close>

theorem css_class_fallback_divergence:
  assumes "\<forall>x \<in> set p. is_word_char x" and "map lower_char p \<noteq> map lower_char c"
    and "c \<noteq> []" and "\<forall>x \<in> set c. is_word_char x" and "class_list d e = [p @ ''-'' @ c]"
  shows "class_tokens (remove_css_class_fallback c (p @ ''-'' @ c)) = [p @ ''-''] \<and>
         class_list (remove_css_class e c d) e = [p @ ''-'' @ c] \<and>
         class_tokens (add_css_class_fallback c (add_css_class_fallback c (p @ ''-'' @ c))) = [p @ ''-'' @ c, c, c] \<and>
         class_list (add_css_class e c (add_css_class e c d)) e = [p @ ''-'' @ c, c]"
proof -
  have dash: "\<not> is_word_char CHR ''-''" by (simp add: is_word_char_def)
  have tail: "scan c prev (CHR ''-'' # c) = CHR ''-'' # '' ''" for prev
  proof -
    have "scan c (Some CHR ''-'') (c @ []) = '' '' @ scan c (Some (last c)) []"
      using scan_word [of "Some CHR ''-''" c "[]" c] assms(3,4) dash by simp
    then show ?thesis using scan_nonword [OF assms(3,4) dash] by simp
  qed
  have "scan c None (p @ CHR ''-'' # c) = p @ CHR ''-'' # '' ''"
  proof (cases "p = []")
    case True
    then show ?thesis using tail by simp
  next
    case False
    then show ?thesis
      using scan_word [of None p "CHR ''-'' # c" c] assms(1,2,4) dash tail by simp
  qed
  moreover have "class_tokens (p @ CHR ''-'' # '' '') = [p @ ''-'']"
  proof -
    have "CHR '' '' \<notin> set (p @ ''-'')" using assms(1) by auto
    then show ?thesis by (simp add: class_tokens_def split_on_append_sep [of _ "p @ ''-''" "[]", simplified])
  qed
  moreover have "p @ ''-'' @ c \<noteq> c" by simp
  moreover have "class_tokens (add_css_class_fallback c (add_css_class_fallback c (p @ ''-'' @ c))) = [p @ ''-'' @ c, c, c]"
  proof -
    have sp: "CHR '' '' \<notin> set c" "CHR '' '' \<notin> set (p @ ''-'' @ c)" using assms(1,4) by auto
    then have "class_tokens (p @ ''-'' @ c) = [p @ ''-'' @ c]" by (simp add: class_tokens_no_space)
    moreover have "add_css_class_fallback c (add_css_class_fallback c (p @ ''-'' @ c)) =
        ((p @ ''-'' @ c) @ CHR '' '' # c) @ CHR '' '' # c"
      by (simp add: add_css_class_fallback_def)
    ultimately show ?thesis by (simp only: class_tokens_append_word [OF assms(3) sp(1)]) simp
  qed
  ultimately show ?thesis using assms(5)
    by (simp add: remove_css_class_fallback_def remove_css_class_def add_css_class_def)
qed

theorem css_class_fallback_divergence_witness:
  "class_tokens (remove_css_class_fallback ''hidden'' (''is'' @ ''-'' @ ''hidden'')) = [''is'' @ ''-''] \<and>
   class_list (remove_css_class Loader ''hidden''
     \<lparr>class_list = \<lambda>_. [''is-hidden''], text_content = \<lambda>_. [], attribute = \<lambda>_ _. None\<rparr>) Loader =
     [''is'' @ ''-'' @ ''hidden''] \<and>
   class_tokens (add_css_class_fallback ''hidden'' (add_css_class_fallback ''hidden'' (''is'' @ ''-'' @ ''hidden''))) =
     [''is'' @ ''-'' @ ''hidden'', ''hidden'', ''hidden''] \<and>
   class_list (add_css_class Loader ''hidden'' (add_css_class Loader ''hidden''
     \<lparr>class_list = \<lambda>_. [''is-hidden''], text_content = \<lambda>_. [], attribute = \<lambda>_ _. None\<rparr>)) Loader =
     [''is'' @ ''-'' @ ''hidden'', ''hidden'']"
proof -
  have h: "(\<forall>x \<in> set ''is''. is_word_char x) \<and> map lower_char ''is'' \<noteq> map lower_char ''hidden'' \<and>
      ''hidden'' \<noteq> [] \<and> (\<forall>x \<in> set ''hidden''. is_word_char x) \<and>
      class_list \<lparr>class_list = \<lambda>_. [''is-hidden''], text_content = \<lambda>_. [], attribute = \<lambda>_ _. None\<rparr> Loader =
        [''is'' @ ''-'' @ ''hidden'']"
    by (simp add: is_word_char_def lower_char_def)
  then show ?thesis
    using css_class_fallback_divergence [where p = "''is''" and c = "''hidden''" and e = Loader and
      d = "\<lparr>class_list = \<lambda>_. [''is-hidden''], text_content = \<lambda>_. [], attribute = \<lambda>_ _. None\<rparr>"]
    by simp
qed

lemma length_scan: "length (scan c prev s) \<le> length s"
proof (induction c prev s rule: scan.induct)
  case (1 c prev)
  then show ?case by simp
next
  case (2 c prev x xs)
  show ?case
  proof (cases "match_at c prev (x # xs)")
    case True
    let ?r = "scan c (Some ((x # xs) ! (length c - 1))) (drop (length c) (x # xs))"
    have eq: "scan c prev (x # xs) = CHR '' '' # ?r" using True by simp
    have "0 < length c" using True by (simp add: match_at_def)
    moreover have "length ?r \<le> length (x # xs) - length c" using "2.IH"(1) [OF True] by simp
    ultimately have "length (CHR '' '' # ?r) \<le> length (x # xs)" by (simp only: list.size)
    then show ?thesis unfolding eq .
  next
    case False
    then show ?thesis using "2.IH"(2) [OF False] by simp
  qed
qed

text \<open>The global replacement of the fallback terminates on every class name and
  every \<open>className\<close> (the recursion's domain is everything), and its result is
  never longer than the input.\<close>

theorem remove_css_class_fallback_terminates:
  "scan_dom (c, prev, s) \<and> length (remove_css_class_fallback c s) \<le> length s"
  using accp_wfpD [OF scan_rel_wf] length_scan by (simp add: remove_css_class_fallback_def)



end
