(* ===== verification/Texture.thy ===== *)
theory Texture
  imports Utils
begin

text \<open>
  The fur texture of \<open>LoadSceneState.js\<close> (\<open>_generateTexture\<close>, lines 359--384): a
  256 \<open>\<times>\<close> 256 canvas on which 20000 hair strands are drawn, each a 2 \<open>\<times>\<close> 2
  rectangle whose \<open>fillStyle\<close> is the string \<open>'rgba(' + [255, g, b, a].join(',') + ')'\<close>.
  The canvas is the list of the drawing calls made on its 2D context (the debug
  spectrum of \<open>Debug\<close> draws on one too). \<open>Math.random()\<close>
  is a stream \<open>rnd :: nat \<Rightarrow> real\<close>, the \<open>k\<close>-th call returning \<open>rnd k\<close>; strand
  \<open>i\<close> makes the calls \<open>5 i\<close> to \<open>5 i + 4\<close>, in the order of the source: the three
  \<open>getRandomArbitrary\<close> of the fill style, then the two coordinates.
  Integers print as JavaScript's \<open>Number.prototype.toString\<close> prints them (decimal
  digits, a leading \<open>-\<close>), and \<open>Array.prototype.join\<close> separates the fields with
  the separator. The reader \<open>parse_rgba\<close> is the reference against which the printer
  is checked: it recovers the four components from the string.
\<close>

datatype canvas_op =
    SetFillStyle string | FillRect real real real real
  | ClearRect real real real real | SetFillGradient "(real \<times> string) list"

record canvas =
  canvas_width :: real
  canvas_height :: real
  canvas_ops :: "canvas_op list"

subsection \<open>Printing numbers and joining fields\<close>

fun nat_string :: "nat \<Rightarrow> string" where
  "nat_string n =
     (if n < 10 then [char_of (48 + n)] else nat_string (n div 10) @ [char_of (48 + n mod 10)])"

declare nat_string.simps [simp del]

definition js_int_string :: "int \<Rightarrow> string" where
  "js_int_string i = (if i < 0 then ''-'' @ nat_string (nat (- i)) else nat_string (nat i))"

definition rgba_string :: "int list \<Rightarrow> string" where
  "rgba_string cs = ''rgba('' @ join '','' (map js_int_string cs) @ '')''"

subsection \<open>The strands\<close>

text \<open>Lines 371--376: red 255 (a hair), length and darkness in \<open>[0, 255)\<close>, alpha in
  \<open>[-12, 2)\<close>, each through \<open>Math.floor\<close>.\<close>

definition strand_fill :: "(nat \<Rightarrow> real) \<Rightarrow> nat \<Rightarrow> int list" where
  "strand_fill rnd i =
     [255,
      \<lfloor>get_random_arbitrary (rnd (5 * i)) 0 255\<rfloor>,
      \<lfloor>get_random_arbitrary (rnd (5 * i + 1)) 0 255\<rfloor>,
      \<lfloor>get_random_arbitrary (rnd (5 * i + 2)) (- 12.0) 2.0\<rfloor>]"

text \<open>Lines 378--380: set the fill style, then fill a 2 \<open>\<times>\<close> 2 rectangle at a random
  point of the canvas.\<close>

definition draw_strand :: "(nat \<Rightarrow> real) \<Rightarrow> nat \<Rightarrow> canvas \<Rightarrow> canvas" where
  "draw_strand rnd i c =
     c\<lparr>canvas_ops := canvas_ops c @
        [SetFillStyle (rgba_string (strand_fill rnd i)),
         FillRect (rnd (5 * i + 3) * canvas_width c) (rnd (5 * i + 4) * canvas_height c) 2 2]\<rparr>"

text \<open>The loop of line 367, for its first \<open>n\<close> iterations.\<close>

primrec texture_loop :: "(nat \<Rightarrow> real) \<Rightarrow> nat \<Rightarrow> canvas \<Rightarrow> canvas" where
  "texture_loop rnd 0 c = c"
| "texture_loop rnd (Suc n) c = draw_strand rnd n (texture_loop rnd n c)"

definition generate_texture :: "(nat \<Rightarrow> real) \<Rightarrow> canvas" where
  "generate_texture rnd =
     texture_loop rnd 20000 \<lparr>canvas_width = 256, canvas_height = 256, canvas_ops = []\<rparr>"

subsection \<open>Reading the fill style back\<close>

definition digit_value :: "char \<Rightarrow> nat option" where
  "digit_value c = (let n = of_char c in if 48 \<le> n \<and> n < 58 then Some (n - 48) else None)"

fun parse_digits :: "nat \<Rightarrow> string \<Rightarrow> nat option" where
  "parse_digits acc [] = Some acc"
| "parse_digits acc (c # cs) =
     (case digit_value c of None \<Rightarrow> None | Some d \<Rightarrow> parse_digits (10 * acc + d) cs)"

definition parse_nat :: "string \<Rightarrow> nat option" where
  "parse_nat s = (if s = [] then None else parse_digits 0 s)"

definition parse_int :: "string \<Rightarrow> int option" where
  "parse_int s =
     (if s \<noteq> [] \<and> hd s = CHR ''-'' then map_option (\<lambda>n. - int n) (parse_nat (tl s))
      else map_option int (parse_nat s))"

definition parse_rgba :: "string \<Rightarrow> int list option" where
  "parse_rgba s =
     (if take 5 s = ''rgba('' \<and> 6 \<le> length s \<and> last s = CHR '')''
      then those (map parse_int (split_on CHR '','' (drop 5 (butlast s))))
      else None)"

subsection \<open>Printing and reading\<close>

lemma of_char_digit [simp]: "(n :: nat) < 10 \<Longrightarrow> (of_char (char_of (48 + n) :: char) :: nat) = 48 + n"
  by (simp add: of_char_of)

lemma digit_value_digit [simp]: "(n :: nat) < 10 \<Longrightarrow> digit_value (char_of (48 + n)) = Some n"
  by (simp add: digit_value_def)

lemma parse_digits_append:
  "parse_digits acc (xs @ ys) = (case parse_digits acc xs of None \<Rightarrow> None | Some a \<Rightarrow> parse_digits a ys)"
  by (induction xs arbitrary: acc) (simp_all split: option.split)

lemma parse_digits_nat_string:
  "parse_digits acc (nat_string n) = Some (acc * 10 ^ length (nat_string n) + n)"
proof (induction n arbitrary: acc rule: nat_string.induct)
  case (1 n)
  show ?case
  proof (cases "n < 10")
    case True
    then show ?thesis by (simp add: nat_string.simps)
  next
    case False
    then have "parse_digits acc (nat_string n) =
        parse_digits acc (nat_string (n div 10) @ [char_of (48 + n mod 10)])"
      by (simp add: nat_string.simps [of n])
    also have "\<dots> = Some (10 * (acc * 10 ^ length (nat_string (n div 10)) + n div 10) + n mod 10)"
      using "1" False by (simp add: parse_digits_append)
    also have "\<dots> = Some (acc * 10 ^ length (nat_string n) + n)"
      using False by (simp add: nat_string.simps [of n] algebra_simps)
    finally show ?thesis .
  qed
qed

lemma nat_string_not_Nil [simp]: "nat_string n \<noteq> []"
  by (subst nat_string.simps) simp

lemma nat_string_digits: "c \<in> set (nat_string n) \<Longrightarrow> (48 :: nat) \<le> of_char c \<and> (of_char c :: nat) < 58"
proof (induction n rule: nat_string.induct)
  case (1 n)
  then show ?case by (cases "n < 10") (auto simp: nat_string.simps [of n])
qed

lemma parse_nat_nat_string [simp]: "parse_nat (nat_string n) = Some n"
  by (simp add: parse_nat_def parse_digits_nat_string)

lemma minus_not_in_nat_string: "CHR ''-'' \<notin> set (nat_string n)"
  using nat_string_digits [of "CHR ''-''" n] by auto

lemma comma_not_in_nat_string: "CHR '','' \<notin> set (nat_string n)"
  using nat_string_digits [of "CHR '',''" n] by auto

lemma parse_int_js_int_string [simp]: "parse_int (js_int_string i) = Some i"
proof (cases "i < 0")
  case True
  then show ?thesis by (simp add: js_int_string_def parse_int_def)
next
  case False
  have "hd (nat_string (nat i)) \<noteq> CHR ''-''"
    using minus_not_in_nat_string [of "nat i"] hd_in_set [OF nat_string_not_Nil] by metis
  then show ?thesis
    using False by (simp add: js_int_string_def parse_int_def)
qed

lemma comma_not_in_js_int_string: "CHR '','' \<notin> set (js_int_string i)"
  using comma_not_in_nat_string by (simp add: js_int_string_def)

lemma those_map_parse_int [simp]: "those (map (parse_int \<circ> js_int_string) cs) = Some cs"
  by (induction cs) simp_all

lemma js_ints_joined_not_Nil: "cs \<noteq> [] \<Longrightarrow> join '','' (map js_int_string cs) \<noteq> []"
  by (cases cs rule: remdups_adj.cases) (simp_all add: js_int_string_def)

subsection \<open>The loop\<close>

lemma texture_loop_size [simp]:
  "canvas_width (texture_loop rnd n c) = canvas_width c"
  "canvas_height (texture_loop rnd n c) = canvas_height c"
  by (induction n) (simp_all add: draw_strand_def)

lemma canvas_ops_texture_loop:
  "canvas_ops (texture_loop rnd n c) =
     canvas_ops c @ concat (map (\<lambda>i. [SetFillStyle (rgba_string (strand_fill rnd i)),
        FillRect (rnd (5 * i + 3) * canvas_width c) (rnd (5 * i + 4) * canvas_height c) 2 2]) [0..<n])"
  by (induction n) (simp_all add: draw_strand_def)

lemma strand_fill_ranges:
  assumes "\<forall>k. 0 \<le> rnd k \<and> rnd k < 1"
  shows "0 \<le> strand_fill rnd i ! 1 \<and> strand_fill rnd i ! 1 \<le> 254 \<and>
         0 \<le> strand_fill rnd i ! 2 \<and> strand_fill rnd i ! 2 \<le> 254 \<and>
         - 12 \<le> strand_fill rnd i ! 3 \<and> strand_fill rnd i ! 3 \<le> 1"
proof -
  have r: "0 \<le> rnd k" "rnd k < 1" for k using assms by simp_all
  note g = floor_random_arbitrary_range [OF r, of 0 255 "5 * i"]
  note b = floor_random_arbitrary_range [OF r, of 0 255 "5 * i + 1"]
  note a = floor_random_arbitrary_range [OF r, of "- 12" 2 "5 * i + 2"]
  show ?thesis using g b a by (simp add: strand_fill_def)
qed

text \<open>C30: every one of the 20000 strands of the fur texture is a fill style
  \<open>rgba(255, g, b, a)\<close> with \<open>g, b\<close> in \<open>[0, 254]\<close> and \<open>a\<close> in \<open>[-12, 1]\<close>,
  followed by a 2 \<open>\<times>\<close> 2 rectangle whose corner lies on the 256 \<open>\<times>\<close> 256 canvas.\<close>

theorem generate_texture_strands:
  assumes "\<forall>k. 0 \<le> rnd k \<and> rnd k < 1" and "i < 20000"
  shows "length (canvas_ops (generate_texture rnd)) = 40000 \<and>
    (\<exists>g b a x y.
       take 2 (drop (2 * i) (canvas_ops (generate_texture rnd))) =
         [SetFillStyle (rgba_string [255, g, b, a]), FillRect x y 2 2] \<and>
       0 \<le> g \<and> g \<le> 254 \<and> 0 \<le> b \<and> b \<le> 254 \<and> - 12 \<le> a \<and> a \<le> 1 \<and>
       0 \<le> x \<and> x < 256 \<and> 0 \<le> y \<and> y < 256)"
proof -
  let ?f = "\<lambda>i. [SetFillStyle (rgba_string (strand_fill rnd i)),
        FillRect (rnd (5 * i + 3) * 256) (rnd (5 * i + 4) * 256) 2 2]"
  have ops: "canvas_ops (generate_texture rnd) = concat (map ?f [0..<20000])"
    by (simp add: generate_texture_def canvas_ops_texture_loop)
  have len: "\<forall>j. length (?f j) = 2" by simp
  have "strand_fill rnd i = [255, strand_fill rnd i ! 1, strand_fill rnd i ! 2, strand_fill rnd i ! 3]"
    by (simp add: strand_fill_def)
  then have "take 2 (drop (2 * i) (canvas_ops (generate_texture rnd))) =
      [SetFillStyle (rgba_string [255, strand_fill rnd i ! 1, strand_fill rnd i ! 2, strand_fill rnd i ! 3]),
       FillRect (rnd (5 * i + 3) * 256) (rnd (5 * i + 4) * 256) 2 2]"
    using take_drop_concat_pairs [OF len assms(2)] unfolding ops by simp
  moreover have "length (canvas_ops (generate_texture rnd)) = 40000"
    using length_concat_pairs [OF len, of 20000] unfolding ops by simp
  moreover have "0 \<le> rnd k * 256 \<and> rnd k * 256 < 256" for k
    using assms(1) by simp
  ultimately show ?thesis
    using strand_fill_ranges [OF assms(1), of i] by blast
qed

theorem generate_texture_strands_witness:
  "length (canvas_ops (generate_texture (\<lambda>_. 1 / 2))) = 40000 \<and>
    (\<exists>g b a x y.
       take 2 (drop (2 * 7) (canvas_ops (generate_texture (\<lambda>_. 1 / 2)))) =
         [SetFillStyle (rgba_string [255, g, b, a]), FillRect x y 2 2] \<and>
       0 \<le> g \<and> g \<le> 254 \<and> 0 \<le> b \<and> b \<le> 254 \<and> - 12 \<le> a \<and> a \<le> 1 \<and>
       0 \<le> x \<and> x < 256 \<and> 0 \<le> y \<and> y < 256)"
  using generate_texture_strands [of "\<lambda>_. 1 / 2" 7] by simp

text \<open>C31: the fill style string determines the colour: reading
  \<open>'rgba(' + cs.join(',') + ')'\<close> back gives the components \<open>cs\<close>, for every
  non-empty list of integers.\<close>

theorem rgba_string_roundtrip:
  assumes "cs \<noteq> []"
  shows "parse_rgba (rgba_string cs) = Some cs"
proof -
  let ?j = "join '','' (map js_int_string cs)"
  have ne: "?j \<noteq> []" using js_ints_joined_not_Nil [OF assms] .
  have split: "split_on CHR '','' ?j = map js_int_string cs"
    using split_on_join [of "map js_int_string cs" "CHR '',''"] assms comma_not_in_js_int_string
    by simp
  have "butlast (rgba_string cs) = ''rgba('' @ ?j"
    by (simp add: rgba_string_def butlast_append)
  moreover have "6 \<le> length (rgba_string cs)" using ne by (simp add: rgba_string_def)
  ultimately show ?thesis
    using split by (simp add: parse_rgba_def rgba_string_def)
qed

theorem rgba_string_roundtrip_witness:
  "parse_rgba (rgba_string [255, 37, 200, - 7]) = Some [255, 37, 200, - 7]"
  using rgba_string_roundtrip [of "[255, 37, 200, - 7]"] by simp

text \<open>C32: a strand is opaque (alpha 1) exactly when its third random number is at
  least \<open>13/14\<close>; otherwise its alpha is at most 0, which the canvas clamps to a fully
  transparent colour.\<close>

theorem strand_alpha_opaque:
  assumes "0 \<le> rnd (5 * i + 2)" and "rnd (5 * i + 2) < 1"
  shows "(strand_fill rnd i ! 3 = 1 \<longleftrightarrow> 13 / 14 \<le> rnd (5 * i + 2)) \<and>
         (strand_fill rnd i ! 3 \<le> 0 \<longleftrightarrow> rnd (5 * i + 2) < 13 / 14)"
proof -
  let ?r = "rnd (5 * i + 2)"
  have a: "strand_fill rnd i ! 3 = \<lfloor>?r * 14 - 12\<rfloor>"
    by (simp add: strand_fill_def get_random_arbitrary_def)
  have "\<lfloor>?r * 14 - 12\<rfloor> < 2" using assms(2) by (simp add: floor_less_iff)
  moreover have "1 \<le> \<lfloor>?r * 14 - 12\<rfloor> \<longleftrightarrow> 13 / 14 \<le> ?r" by (simp add: le_floor_iff)
  ultimately show ?thesis unfolding a by linarith
qed

theorem strand_alpha_opaque_witness:
  "strand_fill (\<lambda>_. 0.95) 0 ! 3 = 1 \<and> strand_fill (\<lambda>_. 0.5) 0 ! 3 \<le> 0"
  using strand_alpha_opaque [of "\<lambda>_. 0.95" 0] strand_alpha_opaque [of "\<lambda>_. 0.5" 0] by simp

end
