(* ===== verification/Debug.thy ===== *)
theory Debug
  imports Texture Application
begin

text \<open>
  The debug mode of \<open>Application.js\<close>, on when the page's hash contains
  \<open>#debug\<close> (line 67). \<open>initialize\<close> then calls \<open>_initializeDebugMode\<close> (lines
  320--330), which loads two scripts with \<open>Utils.asyncLoadScript\<close> (\<open>Utils.js\<close>
  lines 49--73): the FPS panels of \<open>_drawStats\<close> (lines 378--404) and the controls of
  \<open>_initializeDebugControls\<close> (lines 338--365). The controls write the module-wide
  \<open>global.trimStart\<close> and \<open>global.trimEnd\<close> (lines 8--11), which the
  \<open>onaudioprocess\<close> handler reads to draw the spectrum on the \<open>FFTContainer\<close>
  canvas (lines 180--213) before it samples \<open>_FFT\<close>. The stats and GUI libraries
  themselves are external: a panel is its mode and style, a control its value.
\<close>

record debug_globals =
  trim_start :: real
  trim_end :: real

definition global_init :: debug_globals where
  "global_init = \<lparr>trim_start = 0, trim_end = 0\<rparr>"

definition is_debug_mode :: "string \<Rightarrow> bool" where
  "is_debug_mode hash =
     list_ex (\<lambda>i. take 6 (drop i hash) = ''#debug'') [0..<Suc (length hash)]"

subsection \<open>Loading a script\<close>

text \<open>
  \<open>asyncLoadScript(url, callback)\<close>: a script element with \<open>src = url\<close>. Where the
  element has \<open>readyState\<close> (old Internet Explorer) the callback runs on the first
  \<open>readystatechange\<close> to \<open>loaded\<close> or \<open>complete\<close>, and the handler is removed
  then; elsewhere it runs on \<open>load\<close>. \<open>callback_runs\<close> counts the calls of the
  callback.
\<close>

record script_element =
  ready_state_api :: bool
  on_ready_state_change :: bool
  on_load :: bool
  script_src :: string
  callback_runs :: nat

definition async_load_script :: "bool \<Rightarrow> string \<Rightarrow> script_element" where
  "async_load_script has_ready_state url =
     \<lparr>ready_state_api = has_ready_state, on_ready_state_change = has_ready_state,
      on_load = (\<not> has_ready_state), script_src = url, callback_runs = 0\<rparr>"

datatype script_event = ReadyStateChange string | ScriptLoad

fun script_step :: "script_event \<Rightarrow> script_element \<Rightarrow> script_element" where
  "script_step (ReadyStateChange rs) s =
     (if on_ready_state_change s \<and> (rs = ''loaded'' \<or> rs = ''complete'')
      then s\<lparr>on_ready_state_change := False, callback_runs := Suc (callback_runs s)\<rparr>
      else s)"
| "script_step ScriptLoad s = (if on_load s then s\<lparr>callback_runs := Suc (callback_runs s)\<rparr> else s)"

definition stats_url :: string where
  "stats_url = ''https://rawgit.com/mrdoob/stats.js/master/build/stats.min.js''"

definition gui_url :: string where
  "gui_url = ''https://cdnjs.cloudflare.com/ajax/libs/dat-gui/0.5/dat.gui.min.js''"

definition initialize_debug_mode :: "bool \<Rightarrow> script_element \<times> script_element" where
  "initialize_debug_mode has_ready_state =
     (async_load_script has_ready_state stats_url, async_load_script has_ready_state gui_url)"

subsection \<open>The panels and the controls\<close>

text \<open>\<open>_drawStats\<close>: three panels (FPS, ms, MB) appended to the page, each updated on
  every animation frame of a loop of its own.\<close>

record stats =
  panels :: "(nat \<times> string) list"
  panel_updates :: nat
  stats_frame_callbacks :: nat

definition draw_stats :: stats where
  "draw_stats =
     \<lparr>panels = [(0, ''position:fixed; left:5px; top:5px; z-index:10000;''),
               (1, ''position:fixed; left:85px; top:5px; z-index:10000;''),
               (2, ''position:fixed; left:170px; top:5px; z-index:10000;'')],
      panel_updates = 0, stats_frame_callbacks = 1\<rparr>"

definition stats_frame :: "stats \<Rightarrow> stats" where
  "stats_frame st = st\<lparr>panel_updates := panel_updates st + length (panels st)\<rparr>"

text \<open>\<open>_initializeDebugControls\<close>: the view model shown by the GUI, and the three
  handlers: the button plays the audio, the sliders write the globals.\<close>

record debug_controls =
  ctrl_trim_start :: real
  ctrl_trim_end :: real

definition initialize_debug_controls :: debug_controls where
  "initialize_debug_controls = \<lparr>ctrl_trim_start = 0, ctrl_trim_end = 350\<rparr>"

definition on_trim_start_change :: "real \<Rightarrow> debug_globals \<Rightarrow> debug_globals" where
  "on_trim_start_change v g = g\<lparr>trim_start := v\<rparr>"

definition on_trim_end_change :: "real \<Rightarrow> debug_globals \<Rightarrow> debug_globals" where
  "on_trim_end_change v g = g\<lparr>trim_end := v\<rparr>"

definition play_sound :: "application \<Rightarrow> dom \<Rightarrow> application \<times> dom" where
  "play_sound a d = play_audio a d"

subsection \<open>The spectrum\<close>

text \<open>\<open>Math.round\<close>, and the gradient of lines 186--190.\<close>

definition js_round :: "real \<Rightarrow> int" where
  "js_round x = \<lfloor>x + 1 / 2\<rfloor>"

definition spectrum_gradient :: "(real \<times> string) list" where
  "spectrum_gradient = [(1.00, ''#000000''), (0.75, ''#ff0000''), (0.25, ''#ffff00''), (0.00, ''#ffffff'')]"

text \<open>Lines 199--212: clear, set the gradient, one bar per bucket inside the trim range,
  as wide as the canvas divided by the number of buckets, rounded, and as high as the
  bucket's value.\<close>

definition spectrum_bar :: "real \<Rightarrow> real \<Rightarrow> debug_globals \<Rightarrow> byte list \<Rightarrow> nat \<Rightarrow> canvas_op list" where
  "spectrum_bar w h g arr i =
     (let bar_width = real_of_int (js_round (w / real (length arr)))
      in if trim_start g \<le> real i \<and> real i \<le> trim_end g
         then [FillRect (real i * bar_width) (h - real (unat (arr ! i))) bar_width h] else [])"

definition draw_spectrum :: "real \<Rightarrow> real \<Rightarrow> debug_globals \<Rightarrow> byte list \<Rightarrow> canvas_op list" where
  "draw_spectrum w h g arr =
     ClearRect 0 0 w h # SetFillGradient spectrum_gradient #
     concat (map (spectrum_bar w h g arr) [0..<length arr])"

text \<open>The whole \<open>onaudioprocess\<close> handler of lines 193--225, with the drawing of the
  debug mode on a canvas of the given size.\<close>

definition debug_on_audio_process ::
  "bool \<Rightarrow> real \<Rightarrow> real \<Rightarrow> debug_globals \<Rightarrow> byte list \<Rightarrow> application \<Rightarrow> application \<times> canvas_op list" where
  "debug_on_audio_process debug w h g bins a =
     (case analyser a of
        None \<Rightarrow> (a, [])
      | Some an \<Rightarrow>
          (let arr = byte_frequency_data (frequency_bin_count an) bins;
               ops = (if debug then draw_spectrum w h g arr else [])
           in (a\<lparr>fft := (arr ! 4, arr ! 194, arr ! 202)\<rparr>, ops)))"

subsection \<open>Properties of the debug mode\<close>

lemma debug_on_audio_process_fft:
  "fst (debug_on_audio_process debug w h g bins a) = on_audio_process bins a"
  by (simp add: debug_on_audio_process_def on_audio_process_def Let_def split: option.split)

lemma length_byte_frequency_data [simp]: "length (byte_frequency_data n bins) = n"
  by (simp add: byte_frequency_data_def)

text \<open>Where the element has \<open>readyState\<close>, the callback of \<open>asyncLoadScript\<close> runs at
  most once whatever the state changes, because the handler removes itself; with
  \<open>onload\<close> it runs once per \<open>load\<close> event.\<close>

lemma async_load_script_ready_state_once:
  "callback_runs (fold script_step evs (async_load_script True url)) \<le> 1"
proof -
  have inv: "\<not> on_load (fold script_step evs s) \<and>
      callback_runs (fold script_step evs s) + (if on_ready_state_change (fold script_step evs s) then 1 else 0) =
      callback_runs s + (if on_ready_state_change s then 1 else 0)"
    if "\<not> on_load s" for s
    using that
  proof (induction evs arbitrary: s)
    case Nil
    then show ?case by simp
  next
    case (Cons ev evs)
    then show ?case by (cases ev) auto
  qed
  show ?thesis using inv [of "async_load_script True url"] by (simp add: async_load_script_def)
qed

lemma async_load_script_onload_runs:
  "callback_runs (fold script_step evs (async_load_script False url)) = count_list evs ScriptLoad"
proof -
  have "callback_runs (fold script_step evs s) = callback_runs s + count_list evs ScriptLoad"
    if "on_load s" "\<not> on_ready_state_change s" for s
    using that
  proof (induction evs arbitrary: s)
    case Nil
    then show ?case by simp
  next
    case (Cons ev evs)
    then show ?case by (cases ev) auto
  qed
  then show ?thesis by (simp add: async_load_script_def)
qed

text \<open>The Play Sound button calls \<open>playAudio\<close> again: once the scene has started the
  audio, a click is a second \<open>start()\<close> on the same buffer source node, which the Web
  Audio API refuses with an \<open>InvalidStateError\<close>.\<close>

lemma play_sound_second_start:
  assumes "source a = Some n" "start_calls n = 1"
  shows "\<exists>n'. source (fst (play_sound a d)) = Some n' \<and> start_calls n' = 2"
  using assms by (simp add: play_sound_def play_audio_def)

lemma spectrum_bars:
  "filter (\<lambda>op. case op of FillRect _ _ _ _ \<Rightarrow> True | _ \<Rightarrow> False) (draw_spectrum w h g arr) =
     map (\<lambda>i. FillRect (real i * real_of_int (js_round (w / real (length arr)))) (h - real (unat (arr ! i)))
                (real_of_int (js_round (w / real (length arr)))) h)
       (filter (\<lambda>i. trim_start g \<le> real i \<and> real i \<le> trim_end g) [0..<length arr])"
proof -
  have "filter (\<lambda>op. case op of FillRect _ _ _ _ \<Rightarrow> True | _ \<Rightarrow> False) (concat (map (spectrum_bar w h g arr) is)) =
     map (\<lambda>i. FillRect (real i * real_of_int (js_round (w / real (length arr)))) (h - real (unat (arr ! i)))
                (real_of_int (js_round (w / real (length arr)))) h)
       (filter (\<lambda>i. trim_start g \<le> real i \<and> real i \<le> trim_end g) is)" for "is"
    by (induction "is") (simp_all add: spectrum_bar_def Let_def)
  then show ?thesis by (simp add: draw_spectrum_def)
qed

text \<open>In debug mode the spectrum drawing leaves the sample \<open>_FFT\<close> as it is
  without it; and as the page loads, \<open>global.trimEnd\<close> is 0 while the trim-end slider
  shows 350, so every tick draws the bar of bucket 0 alone until the slider is moved.\<close>

theorem debug_spectrum_initial_trim:
  assumes "analyser a = Some an" and "0 < frequency_bin_count an"
  shows "fst (debug_on_audio_process True w h global_init bins a) = on_audio_process bins a \<and>
    filter (\<lambda>op. case op of FillRect _ _ _ _ \<Rightarrow> True | _ \<Rightarrow> False)
        (snd (debug_on_audio_process True w h global_init bins a)) =
      [FillRect 0 (h - real (unat (hd (byte_frequency_data (frequency_bin_count an) bins))))
         (real_of_int (js_round (w / real (frequency_bin_count an)))) h] \<and>
    ctrl_trim_end initialize_debug_controls = 350"
proof -
  let ?arr = "byte_frequency_data (frequency_bin_count an) bins"
  have ops: "snd (debug_on_audio_process True w h global_init bins a) = draw_spectrum w h global_init ?arr"
    using assms(1) by (simp add: debug_on_audio_process_def Let_def)
  have "filter (\<lambda>i. trim_start global_init \<le> real i \<and> real i \<le> trim_end global_init)
          [0..<frequency_bin_count an] = [0]"
    using assms(2) by (simp add: global_init_def upt_conv_Cons filter_empty_conv del: upt_Suc)
  moreover have "?arr ! 0 = hd ?arr"
    using assms(2) by (metis length_byte_frequency_data length_greater_0_conv hd_conv_nth)
  ultimately show ?thesis
    using debug_on_audio_process_fft spectrum_bars [of w h global_init ?arr] ops
    by (simp add: initialize_debug_controls_def)
qed

theorem debug_spectrum_initial_trim_witness:
  "fst (debug_on_audio_process True 512 256 global_init (replicate 512 7) (initialize_audio_context application_init)) =
     on_audio_process (replicate 512 7) (initialize_audio_context application_init) \<and>
   filter (\<lambda>op. case op of FillRect _ _ _ _ \<Rightarrow> True | _ \<Rightarrow> False)
       (snd (debug_on_audio_process True 512 256 global_init (replicate 512 7) (initialize_audio_context application_init))) =
     [FillRect 0 (256 - real (unat (hd (byte_frequency_data (frequency_bin_count \<lparr>smoothing_time_constant = 0.8, fft_size = 1024\<rparr>) (replicate 512 7)))))
        (real_of_int (js_round (512 / real (frequency_bin_count \<lparr>smoothing_time_constant = 0.8, fft_size = 1024\<rparr>)))) 256] \<and>
   ctrl_trim_end initialize_debug_controls = 350"
  by (rule debug_spectrum_initial_trim)
    (simp_all add: initialize_audio_context_def application_init_def frequency_bin_count_def)

end
