(* ===== verification/DebugSystem.thy ===== *)
theory DebugSystem
  imports SystemInvariants Debug
begin

text \<open>
  The program with its debug mode, in the browser that loads it. \<open>main.js\<close> calls
  \<open>Application.initialize\<close> (\<open>Application.js\<close> lines 116--145), which first starts
  the debug mode when the page's hash holds \<open>#debug\<close> (\<open>Debug\<close>), then builds the
  audio context through the vendor polyfill of line 155: \<open>window.AudioContext\<close> is
  the first of the four vendor names the browser defines, and \<open>new AudioContext()\<close>
  throws a \<open>TypeError\<close> when it defines none, which ends \<open>initialize\<close> before any
  state is entered. A state of the page, \<open>dsystem\<close>, is the program of \<open>System\<close>
  with the debug mode's own state: the globals the controls write, the two script
  elements, the stats panels, the controls once loaded and the calls made on the
  spectrum canvas. Its events are those of \<open>System\<close> (the audio-process tick also
  draws the spectrum in debug mode) and the callbacks of the debug mode.

  Non-interference is stated up to the console: a transformer is \<open>console_blind\<close>
  when its result, console aside, does not depend on the console it was given, and
  \<open>with_console\<close> replaces the console of a program state.
\<close>

subsection \<open>The browser and the initialisation\<close>

record browser =
  location_hash :: string
  audio_context_apis :: "string list"
  script_ready_state :: bool
  browser_webgl :: bool
  browser_touch :: bool
  browser_window :: vec2
  browser_clock :: timestamp
  fft_container :: vec2
  loaded_page :: dom

text \<open>Line 155: the first vendor name the browser defines.\<close>

definition audio_context_vendors :: "string list" where
  "audio_context_vendors = [''AudioContext'', ''webkitAudioContext'', ''mozAudioContext'', ''msAudioContext'']"

definition audio_context_ctor :: "string list \<Rightarrow> string option" where
  "audio_context_ctor apis = find (\<lambda>n. n \<in> set apis) audio_context_vendors"

record dsystem =
  dsys :: system
  debug_on :: bool
  fft_canvas :: vec2
  globals :: debug_globals
  stats_script :: "script_element option"
  gui_script :: "script_element option"
  stats_panels :: "stats list"
  controls :: "debug_controls option"
  spectrum :: "canvas_op list"

text \<open>\<open>main.js\<close> and \<open>Application.initialize\<close>: the debug mode's two script loads
  (line 128), then the rest of \<open>initialize\<close> unless the audio context cannot be built,
  in which case the page stays as loaded and no state is entered.\<close>

definition application_initialize :: "browser \<Rightarrow> dsystem" where
  "application_initialize b =
     (let dbg = is_debug_mode (location_hash b);
          scripts = (if dbg then Some (initialize_debug_mode (script_ready_state b)) else None);
          m = (case audio_context_ctor (audio_context_apis b) of
                 None \<Rightarrow> \<lparr>current = None, world = initial_world (browser_webgl b) (browser_touch b)
                           (browser_window b) (browser_clock b) (loaded_page b)\<rparr>
               | Some _ \<Rightarrow> initialize (browser_webgl b) (browser_touch b) (browser_window b)
                           (browser_clock b) (loaded_page b))
      in \<lparr>dsys = m, debug_on = dbg, fft_canvas = fft_container b, globals = global_init,
          stats_script = map_option fst scripts, gui_script = map_option snd scripts,
          stats_panels = [], controls = None, spectrum = []\<rparr>)"

subsection \<open>Events of the page\<close>

text \<open>
  The events of \<open>System\<close>, the events of the two script elements (their callbacks
  run \<open>_drawStats\<close> and \<open>_initializeDebugControls\<close>), an animation frame of the
  stats loops, and the three controls of the GUI.
\<close>

datatype devent =
    Base event
  | StatsScript script_event
  | GuiScript script_event
  | StatsFrame
  | TrimStart real
  | TrimEnd real
  | PlaySoundClick

fun denabled :: "devent \<Rightarrow> dsystem \<Rightarrow> bool" where
  "denabled (Base e) d = enabled e (dsys d)"
| "denabled (StatsScript _) d = (stats_script d \<noteq> None)"
| "denabled (GuiScript _) d = (gui_script d \<noteq> None)"
| "denabled StatsFrame d = (stats_panels d \<noteq> [])"
| "denabled (TrimStart _) d = (controls d \<noteq> None)"
| "denabled (TrimEnd _) d = (controls d \<noteq> None)"
| "denabled PlaySoundClick d = (controls d \<noteq> None)"

text \<open>An event of a script element: the element's handlers, and how many times the
  callback ran (0 or 1).\<close>

definition script_callback :: "script_event \<Rightarrow> script_element option \<Rightarrow> script_element option \<times> nat" where
  "script_callback ev s =
     (case s of
        None \<Rightarrow> (None, 0)
      | Some el \<Rightarrow> (let el' = script_step ev el in (Some el', callback_runs el' - callback_runs el)))"

text \<open>
  One event. The audio-process tick is the one handler of lines 193--225: the sample
  of \<open>System\<close> and, in debug mode, the drawing on the spectrum canvas. Each run of
  the stats callback adds three panels and a loop; each run of the GUI callback builds
  the controls anew. The sliders log their value (the console line keeps the label),
  write the global and show the value; the Play Sound button calls \<open>playAudio\<close>.
\<close>

fun dstep :: "devent \<Rightarrow> dsystem \<Rightarrow> dsystem" where
  "dstep (Base (AudioProcess bins)) d =
     d\<lparr>dsys := step (AudioProcess bins) (dsys d),
       spectrum := spectrum d @ snd (debug_on_audio_process (debug_on d) (fst (fft_canvas d))
                                      (snd (fft_canvas d)) (globals d) bins (app (world (dsys d))))\<rparr>"
| "dstep (Base e) d = d\<lparr>dsys := step e (dsys d)\<rparr>"
| "dstep (StatsScript ev) d =
     (let (s, n) = script_callback ev (stats_script d)
      in d\<lparr>stats_script := s, stats_panels := stats_panels d @ replicate n draw_stats\<rparr>)"
| "dstep (GuiScript ev) d =
     (let (s, n) = script_callback ev (gui_script d)
      in d\<lparr>gui_script := s, controls := (if n = 0 then controls d else Some initialize_debug_controls)\<rparr>)"
| "dstep StatsFrame d = d\<lparr>stats_panels := map stats_frame (stats_panels d)\<rparr>"
| "dstep (TrimStart v) d =
     d\<lparr>dsys := on_world (console_log ''Trim Start'') (dsys d),
       controls := map_option (\<lambda>c. c\<lparr>ctrl_trim_start := v\<rparr>) (controls d),
       globals := on_trim_start_change v (globals d)\<rparr>"
| "dstep (TrimEnd v) d =
     d\<lparr>dsys := on_world (console_log ''Trim End'') (dsys d),
       controls := map_option (\<lambda>c. c\<lparr>ctrl_trim_end := v\<rparr>) (controls d),
       globals := on_trim_end_change v (globals d)\<rparr>"
| "dstep PlaySoundClick d =
     d\<lparr>dsys := on_world (\<lambda>w. let (a, p) = play_sound (app w) (page w) in w\<lparr>app := a, page := p\<rparr>) (dsys d)\<rparr>"

fun drun :: "devent list \<Rightarrow> dsystem \<Rightarrow> dsystem option" where
  "drun [] d = Some d"
| "drun (e # es) d = (if denabled e d then drun es (dstep e d) else None)"

text \<open>The events of \<open>System\<close> in a sequence of events of the page.\<close>

fun base_events :: "devent list \<Rightarrow> event list" where
  "base_events [] = []"
| "base_events (Base e # es) = e # base_events es"
| "base_events (_ # es) = base_events es"

subsection \<open>Transformers that do not read the console\<close>

definition console_blind :: "(world \<Rightarrow> world) \<Rightarrow> bool" where
  "console_blind f \<longleftrightarrow> (\<forall>w c. (f (w\<lparr>console := c\<rparr>))\<lparr>console := []\<rparr> = (f w)\<lparr>console := []\<rparr>)"

definition with_console :: "string list \<Rightarrow> system \<Rightarrow> system" where
  "with_console c m = m\<lparr>world := (world m)\<lparr>console := c\<rparr>\<rparr>"

definition sys_blind :: "(system \<Rightarrow> system) \<Rightarrow> bool" where
  "sys_blind F \<longleftrightarrow> (\<forall>m c. \<exists>c'. F (with_console c m) = with_console c' (F m))"


lemma console_blindD:
  assumes "console_blind f"
  shows "f (w\<lparr>console := c\<rparr>) = (f w)\<lparr>console := console (f (w\<lparr>console := c\<rparr>))\<rparr>"
proof -
  let ?x = "f (w\<lparr>console := c\<rparr>)"
  have "?x\<lparr>console := []\<rparr> = (f w)\<lparr>console := []\<rparr>" using assms by (simp add: console_blind_def)
  then have "(?x\<lparr>console := []\<rparr>)\<lparr>console := console ?x\<rparr> = ((f w)\<lparr>console := []\<rparr>)\<lparr>console := console ?x\<rparr>"
    by simp
  then show ?thesis by simp
qed

lemma console_blindI:
  "(\<And>w c. (f (w\<lparr>console := c\<rparr>))\<lparr>console := []\<rparr> = (f w)\<lparr>console := []\<rparr>) \<Longrightarrow> console_blind f"
  by (simp add: console_blind_def)

lemma console_blind_comp [intro]:
  assumes "console_blind f" "console_blind g"
  shows "console_blind (f \<circ> g)"
proof (rule console_blindI)
  fix w c
  obtain c' where g: "g (w\<lparr>console := c\<rparr>) = (g w)\<lparr>console := c'\<rparr>"
    using console_blindD [OF assms(2)] by blast
  have "(f ((g w)\<lparr>console := c'\<rparr>))\<lparr>console := []\<rparr> = (f (g w))\<lparr>console := []\<rparr>"
    using assms(1) unfolding console_blind_def by blast
  then show "((f \<circ> g) (w\<lparr>console := c\<rparr>))\<lparr>console := []\<rparr> = ((f \<circ> g) w)\<lparr>console := []\<rparr>"
    by (simp only: comp_apply g)
qed

lemma console_blind_id [intro]: "console_blind id"
  by (simp add: console_blind_def)

lemma console_blind_funpow [intro]: "console_blind f \<Longrightarrow> console_blind (f ^^ n)"
proof (induction n)
  case 0
  show ?case unfolding funpow.simps(1) by (rule console_blind_id)
next
  case (Suc n)
  have "console_blind (f \<circ> f ^^ n)" using Suc.prems Suc.IH [OF Suc.prems] by (rule console_blind_comp)
  then show ?case by (simp only: funpow.simps(2))
qed

lemma console_blind_fold [intro]: "(\<And>x. console_blind (h x)) \<Longrightarrow> console_blind (fold h xs)"
proof (induction xs)
  case Nil
  then show ?case by (simp add: console_blind_def)
next
  case (Cons x xs)
  have "console_blind (fold h xs \<circ> h x)" using Cons.IH [OF Cons.prems] Cons.prems by (rule console_blind_comp)
  then show ?case by (simp only: fold_Cons)
qed

lemma console_blind_console_log [intro]: "console_blind (console_log msg)"
  by (simp add: console_blind_def console_log_def)

lemma console_blind_perform_effect [intro]: "console_blind (perform_effect e)"
  by (cases e) (simp_all add: console_blind_def console_log_def split_beta)

lemma console_blind_perform_effects [intro]: "console_blind (perform_effects es)"
  unfolding perform_effects_def [abs_def] by (intro console_blind_fold console_blind_perform_effect)

lemma console_blind_run_scene_dep:
  assumes "\<And>w c. F (w\<lparr>console := c\<rparr>) = F w"
  shows "console_blind (\<lambda>w. run_scene (F w) w)"
proof (rule console_blindI)
  fix w :: world and c
  obtain sc es where f: "F w (scene w) = (sc, es)" by (cases "F w (scene w)")
  obtain c' where p: "perform_effects es ((w\<lparr>scene := sc\<rparr>)\<lparr>console := c\<rparr>) =
        (perform_effects es (w\<lparr>scene := sc\<rparr>))\<lparr>console := c'\<rparr>"
    using console_blindD [OF console_blind_perform_effects] by blast
  have eq: "(w\<lparr>console := c\<rparr>)\<lparr>scene := sc\<rparr> = (w\<lparr>scene := sc\<rparr>)\<lparr>console := c\<rparr>" by (cases w) simp
  have "run_scene (F (w\<lparr>console := c\<rparr>)) (w\<lparr>console := c\<rparr>) = perform_effects es ((w\<lparr>console := c\<rparr>)\<lparr>scene := sc\<rparr>)"
    by (simp add: run_scene_def assms f)
  also have "\<dots> = perform_effects es ((w\<lparr>scene := sc\<rparr>)\<lparr>console := c\<rparr>)" by (simp only: eq)
  finally have "run_scene (F (w\<lparr>console := c\<rparr>)) (w\<lparr>console := c\<rparr>) = perform_effects es ((w\<lparr>scene := sc\<rparr>)\<lparr>console := c\<rparr>)" .
  then show "(run_scene (F (w\<lparr>console := c\<rparr>)) (w\<lparr>console := c\<rparr>))\<lparr>console := []\<rparr> = (run_scene (F w) w)\<lparr>console := []\<rparr>"
    by (simp add: p run_scene_def f)
qed

lemma console_blind_scene_objects [intro]:
  "console_blind scene_state_initialize" "console_blind scene_state_enter"
  "console_blind scene_state_execute" "console_blind scene_state_exit"
  using console_blind_run_scene_dep [of "\<lambda>w. \<lambda>_. scene_initialize (touch_device w)"]
    console_blind_run_scene_dep [of "\<lambda>_. scene_enter"]
    console_blind_run_scene_dep [of "\<lambda>w. scene_execute (webgl_available w) (fst (window_size w))
       (snd (window_size w)) (clock w) (get_fft (app w))"]
    console_blind_run_scene_dep [of "\<lambda>_. scene_exit"]
  by (simp_all add: scene_state_initialize_def [abs_def] scene_state_enter_def [abs_def]
      scene_state_execute_def [abs_def] scene_state_exit_def [abs_def])

lemma console_blind_loading_play [intro]:
  "console_blind loading_initialize" "console_blind loading_enter" "console_blind loading_execute"
  "console_blind loading_exit" "console_blind play_initialize" "console_blind play_enter"
  "console_blind play_execute" "console_blind play_exit"
  by (simp_all add: console_blind_def loading_initialize_def loading_enter_def loading_execute_def
      loading_exit_def play_initialize_def play_enter_def play_execute_def play_exit_def
      launch_experience_def console_log_def Let_def)

lemma console_blind_state_objects [intro]:
  "console_blind (obj_enter (states s))" "console_blind (obj_execute (states s))"
  "console_blind (obj_exit (states s))"
  by (cases s; simp add: loading_state_object_def play_state_object_def scene_state_object_def
      console_blind_loading_play console_blind_scene_objects)+


lemma console_blind_set_pending [intro]: "console_blind (set_pending f)"
  by (simp add: console_blind_def set_pending_def)

lemma console_blind_event_handlers [intro]:
  "console_blind (metadata_ready_state ready status parsed)" "console_blind audio_onload"
  "console_blind (sound_load_error err)" "console_blind launch_click_page"
  "console_blind (link_click_world l)"
  by (simp_all add: console_blind_def metadata_ready_state_def metadata_loaded_def load_audio_def
      console_log_def audio_onload_def sound_load_error_def launch_click_page_def
      link_click_world_def with_tracking_def tracking_of_def Let_def split: option.split)

lemma console_blind_animation_frame [intro]: "console_blind animation_frame"
proof -
  have eq: "animate_callback = (\<lambda>w. run_scene (animate (clock w) (get_fft (app w))) w) \<circ>
          set_pending (\<lambda>p. p\<lparr>frame_callbacks := frame_callbacks p - 1\<rparr>)"
    by (simp add: fun_eq_iff animate_callback_def set_pending_def)
  have rs: "console_blind (\<lambda>w. run_scene (animate (clock w) (get_fft (app w))) w)"
    by (rule console_blind_run_scene_dep) simp
  have cb: "console_blind animate_callback"
    unfolding eq by (rule console_blind_comp [OF rs console_blind_set_pending])
  show ?thesis
  proof (rule console_blindI)
    fix w :: world and c
    have "animation_frame (w\<lparr>console := c\<rparr>) = (animate_callback ^^ frame_callbacks (pending w)) (w\<lparr>console := c\<rparr>)"
      by (simp add: animation_frame_def)
    then show "(animation_frame (w\<lparr>console := c\<rparr>))\<lparr>console := []\<rparr> = (animation_frame w)\<lparr>console := []\<rparr>"
      using console_blind_funpow [OF cb, of "frame_callbacks (pending w)"]
      by (simp add: animation_frame_def console_blind_def)
  qed
qed

subsection \<open>Systems that differ only in their console\<close>

lemma sys_blind_comp:
  assumes "sys_blind F" "sys_blind G"
  shows "sys_blind (F \<circ> G)"
  unfolding sys_blind_def
proof (intro allI)
  fix m :: system and c
  obtain c1 where "G (with_console c m) = with_console c1 (G m)" using assms(2) sys_blind_def by blast
  moreover obtain c2 where "F (with_console c1 (G m)) = with_console c2 (F (G m))"
    using assms(1) sys_blind_def by blast
  ultimately show "\<exists>c'. (F \<circ> G) (with_console c m) = with_console c' ((F \<circ> G) m)" by auto
qed

lemma sys_blind_funpow: "sys_blind F \<Longrightarrow> sys_blind (F ^^ n)"
proof (induction n)
  case 0
  show ?case unfolding funpow.simps(1) sys_blind_def by auto
next
  case (Suc n)
  have "sys_blind (F \<circ> F ^^ n)" using Suc.prems Suc.IH [OF Suc.prems] by (rule sys_blind_comp)
  then show ?case by (simp only: funpow.simps(2))
qed

lemma sys_blind_on_world: "console_blind f \<Longrightarrow> sys_blind (on_world f)"
  unfolding sys_blind_def
proof (intro allI)
  fix m :: system and c
  assume "console_blind f"
  then obtain c' where "f ((world m)\<lparr>console := c\<rparr>) = (f (world m))\<lparr>console := c'\<rparr>"
    using console_blindD by blast
  then show "\<exists>c'. on_world f (with_console c m) = with_console c' (on_world f m)"
    by (auto simp: on_world_def with_console_def)
qed

lemma sys_blind_change_app_state: "sys_blind (change_app_state s)"
  unfolding sys_blind_def
proof (intro allI)
  fix m :: system and c
  let ?pre = "case current m of None \<Rightarrow> id | Some old \<Rightarrow> obj_exit (states old)"
  let ?g = "obj_execute (states s) \<circ> obj_enter (states s) \<circ> ?pre"
  have "console_blind ?pre" by (cases "current m") auto
  then have "console_blind ?g" by blast
  then obtain c' where g: "?g ((world m)\<lparr>console := c\<rparr>) = (?g (world m))\<lparr>console := c'\<rparr>"
    using console_blindD by blast
  show "\<exists>c'. change_app_state s (with_console c m) = with_console c' (change_app_state s m)"
  proof (cases "current m = Some s")
    case True
    then show ?thesis by (auto simp: change_app_state_def change_state_def with_console_def)
  next
    case False
    then show ?thesis using g
      by (cases "current m") (auto simp: change_app_state_def change_state_def with_console_def app_ops_def)
  qed
qed

lemma enabled_with_console [simp]: "enabled e (with_console c m) = enabled e m"
  by (cases e) (simp_all add: with_console_def)


lemma sys_blind_launch_click: "sys_blind launch_click"
  unfolding sys_blind_def
proof (intro allI)
  fix m :: system and c
  have "launch_listener = change_app_state LoadScene \<circ> on_world launch_click_page"
    by (simp add: fun_eq_iff launch_listener_def)
  moreover have "sys_blind (change_app_state LoadScene \<circ> on_world launch_click_page)"
    by (rule sys_blind_comp [OF sys_blind_change_app_state sys_blind_on_world]) (rule console_blind_event_handlers)
  ultimately have "sys_blind launch_listener" by simp
  then have "sys_blind (launch_listener ^^ launch_listeners (pending (world m)))" by (rule sys_blind_funpow)
  moreover have "launch_click (with_console c m) =
      (launch_listener ^^ launch_listeners (pending (world m))) (with_console c m)"
    by (simp add: launch_click_def with_console_def)
  ultimately show "\<exists>c'. launch_click (with_console c m) = with_console c' (launch_click m)"
    by (simp add: sys_blind_def launch_click_def)
qed

lemma sys_blind_sound_loaded: "sys_blind (sound_loaded b)"
proof -
  have "sound_loaded b = change_app_state Play \<circ>
      on_world (console_log ''Application, States, PlayState'' \<circ>
                (\<lambda>w. w\<lparr>app := set_source_node_buffer b (app w)\<rparr>) \<circ> console_log ''LoadingState::_playSound'')"
    by (simp add: fun_eq_iff sound_loaded_def on_world_def Let_def)
  moreover have "console_blind (\<lambda>w. w\<lparr>app := set_source_node_buffer b (app w)\<rparr>)"
    by (simp add: console_blind_def)
  then have "console_blind (console_log ''Application, States, PlayState'' \<circ>
      (\<lambda>w. w\<lparr>app := set_source_node_buffer b (app w)\<rparr>) \<circ> console_log ''LoadingState::_playSound'')"
    by (intro console_blind_comp console_blind_console_log)
  ultimately show ?thesis
    using sys_blind_comp [OF sys_blind_change_app_state sys_blind_on_world] by simp
qed

lemma sys_blind_on_worldI:
  assumes "\<And>m. G m = on_world f m" "console_blind f"
  shows "sys_blind G"
proof -
  have "G = on_world f" using assms(1) by (simp add: fun_eq_iff)
  then show ?thesis using sys_blind_on_world [OF assms(2)] by simp
qed

lemma console_blind_listeners [intro]:
  "console_blind (\<lambda>w. w\<lparr>app := on_audio_process bins (app w)\<rparr>)"
  "console_blind (\<lambda>w. if pointer_listeners (pending w)
      then w\<lparr>scene := on_mouse_move cx cy (fst (window_size w)) (snd (window_size w)) (scene w)\<rparr> else w)"
  "console_blind (\<lambda>w. if pointer_listeners (pending w)
      then (case on_touch_move ts (fst (window_size w)) (snd (window_size w)) (scene w) of
              None \<Rightarrow> w | Some sc \<Rightarrow> w\<lparr>scene := sc\<rparr>) else w)"
  "console_blind (\<lambda>w. let w1 = w\<lparr>window_size := (ww, wh)\<rparr>
      in if resize_listener (pending w1) then w1\<lparr>scene := on_window_resize ww wh (scene w1)\<rparr> else w1)"
  "console_blind (\<lambda>w. w\<lparr>clock := t\<rparr>)"
  by (simp_all add: console_blind_def Let_def split: option.split)

lemma sys_blind_step: "sys_blind (step e)"
proof (cases e)
  case (MetadataReadyState r st p)
  show ?thesis
    by (rule sys_blind_on_worldI [where f = "metadata_ready_state r st p \<circ>
        (if r = 4 then set_pending (\<lambda>p. p\<lparr>metadata_request := None\<rparr>) else id)"])
       (simp_all add: MetadataReadyState console_blind_comp console_blind_event_handlers console_blind_set_pending)
next
  case AudioLoad
  show ?thesis
    by (rule sys_blind_on_worldI [where f = "audio_onload \<circ> set_pending (\<lambda>p. p\<lparr>audio_request := None\<rparr>)"])
       (auto simp: AudioLoad)
next
  case (DecodeSuccess b)
  have "step e = sound_loaded b \<circ> on_world (set_pending (\<lambda>p. p\<lparr>decoding := False\<rparr>))"
    using DecodeSuccess by (simp add: fun_eq_iff)
  then show ?thesis using sys_blind_comp [OF sys_blind_sound_loaded sys_blind_on_world] by auto
next
  case (DecodeError err)
  show ?thesis
    by (rule sys_blind_on_worldI [where f = "sound_load_error err \<circ> set_pending (\<lambda>p. p\<lparr>decoding := False\<rparr>)"])
       (auto simp: DecodeError)
next
  case LaunchClick
  have "step e = launch_click" using LaunchClick by (simp add: fun_eq_iff)
  then show ?thesis using sys_blind_launch_click by simp
next
  case TextureLoad
  have "console_blind (\<lambda>w. run_scene (resource_loaded_callback (clock w) (get_fft (app w))) w)"
    by (rule console_blind_run_scene_dep) simp
  then show ?thesis
    by (intro sys_blind_on_worldI [where f = "(\<lambda>w. run_scene (resource_loaded_callback (clock w) (get_fft (app w))) w) \<circ>
        set_pending (\<lambda>p. p\<lparr>texture_loading := False\<rparr>)"])
       (auto simp: TextureLoad)
next
  case (AudioProcess bins)
  then show ?thesis by (intro sys_blind_on_worldI) (auto simp del: step.simps simp: step.simps(7))
qed (auto intro!: sys_blind_on_worldI simp: console_blind_def Let_def split: option.split)


subsection \<open>The debug mode does not change the program\<close>

lemma dsys_dstep_base [simp]: "dsys (dstep (Base e) d) = step e (dsys d)"
  by (cases e) simp_all

lemma with_console_twice [simp]: "with_console c (with_console c' m) = with_console c m"
  by (simp add: with_console_def)

lemma with_console_self [simp]: "with_console (console (world m)) m = m"
  by (simp add: with_console_def)

lemma step_with_console: "\<exists>c'. step e (with_console c m) = with_console c' (step e m)"
  using sys_blind_step [of e] by (simp add: sys_blind_def)

lemma dsys_dstep_debug:
  assumes "\<And>b. e \<noteq> Base b" "e \<noteq> PlaySoundClick" "dsys d = with_console c m"
  shows "\<exists>c'. dsys (dstep e d) = with_console c' m"
  using assms
  by (cases e) (auto simp: split_beta Let_def on_world_def console_log_def with_console_def)

lemma drun_base_events:
  "drun es d = Some d' \<Longrightarrow> PlaySoundClick \<notin> set es \<Longrightarrow> dsys d = with_console c m \<Longrightarrow>
   \<exists>c'. run (base_events es) m = Some (with_console c' (dsys d'))"
proof (induction es arbitrary: d c m)
  case Nil
  then have "m = with_console (console (world m)) (dsys d')" by simp
  then show ?case by auto
next
  case (Cons e es)
  then have en: "denabled e d" and r: "drun es (dstep e d) = Some d'" by (simp_all split: if_splits)
  show ?case
  proof (cases "\<exists>b. e = Base b")
    case True
    then obtain b where b: "e = Base b" by blast
    obtain c1 where s: "step b (with_console c m) = with_console c1 (step b m)"
      using step_with_console by blast
    have "enabled b m" using en Cons.prems(3) b by simp
    moreover have "dsys (dstep e d) = with_console c1 (step b m)" using b Cons.prems(3) s by simp
    ultimately show ?thesis using Cons.IH [OF r _ _] Cons.prems(2) b by simp
  next
    case False
    then obtain c1 where "dsys (dstep e d) = with_console c1 m"
      using dsys_dstep_debug [of e d c m] Cons.prems(2,3) by auto
    moreover have "base_events (e # es) = base_events es" using False by (cases e) auto
    ultimately show ?thesis using Cons.IH [OF r] Cons.prems(2) by auto
  qed
qed

subsection \<open>Without Web Audio the program never starts\<close>

lemma dead_page_step:
  assumes "current (dsys d) = None" "pending (world (dsys d)) = no_pending"
    "app (world (dsys d)) = application_init" "denabled e d"
  shows "current (dsys (dstep e d)) = None \<and> pending (world (dsys (dstep e d))) = no_pending \<and>
    app (world (dsys (dstep e d))) = application_init \<and>
    page (world (dsys (dstep e d))) = page (world (dsys d)) \<and>
    scene (world (dsys (dstep e d))) = scene (world (dsys d)) \<and>
    draw_calls (world (dsys (dstep e d))) = draw_calls (world (dsys d)) \<and>
    analytics (world (dsys (dstep e d))) = analytics (world (dsys d)) \<and>
    (stats_script (dstep e d) \<noteq> None) = (stats_script d \<noteq> None) \<and>
    (gui_script (dstep e d) \<noteq> None) = (gui_script d \<noteq> None)"
proof (cases e)
  case (Base b)
  then show ?thesis using assms
    by (cases b) (auto simp: no_pending_def on_world_def launch_click_def on_audio_process_def
        application_init_def Let_def console_log_def)
qed (use assms in \<open>auto simp: split_beta Let_def on_world_def console_log_def script_callback_def
       play_sound_def play_audio_def application_init_def split: option.split\<close>)

lemma dead_page_run:
  assumes "drun es d = Some d'" "current (dsys d) = None" "pending (world (dsys d)) = no_pending"
    "app (world (dsys d)) = application_init"
  shows "current (dsys d') = None \<and> pending (world (dsys d')) = no_pending \<and>
    app (world (dsys d')) = application_init \<and> page (world (dsys d')) = page (world (dsys d)) \<and>
    scene (world (dsys d')) = scene (world (dsys d)) \<and>
    draw_calls (world (dsys d')) = draw_calls (world (dsys d)) \<and>
    analytics (world (dsys d')) = analytics (world (dsys d)) \<and>
    (stats_script d' \<noteq> None) = (stats_script d \<noteq> None) \<and> (gui_script d' \<noteq> None) = (gui_script d \<noteq> None)"
  using assms
proof (induction es arbitrary: d)
  case Nil
  then show ?case by simp
next
  case (Cons e es)
  then have en: "denabled e d" and r: "drun es (dstep e d) = Some d'" by (simp_all split: if_splits)
  show ?case using dead_page_step [OF Cons.prems(2-4) en] Cons.IH [OF r] by simp
qed

text \<open>The Play Sound control once the scene has started the audio: a second
  \<open>start()\<close> on the same buffer source node, which the Web Audio API refuses.\<close>

lemma debug_play_sound_second_start:
  assumes "reachable (dsys d)" "nb_loaded_resources (scene (world (dsys d))) = 2"
  shows "\<exists>n. source (app (world (dsys (dstep PlaySoundClick d)))) = Some n \<and> start_calls n = 2"
proof -
  obtain n where "source (app (world (dsys d))) = Some n" "start_calls n = 1"
    using reachable_phase_inv [OF assms(1)] assms(2) by (auto simp: phase_inv_def Let_def)
  then show ?thesis by (simp add: on_world_def split_beta play_sound_def play_audio_def)
qed

subsection \<open>Properties of the page\<close>

text \<open>C11: the debug mode does not change what the program does: for every sequence of
  events of the page without a click on the Play Sound control, the events of
  \<open>System\<close> among them, run alone from the same state, run to the same program
  state, up to the lines of the console (the sliders log their values).\<close>

theorem debug_mode_transparent:
  assumes "drun es d = Some d'" and "PlaySoundClick \<notin> set es"
  shows "\<exists>c. run (base_events es) (dsys d) = Some (with_console c (dsys d'))"
  using drun_base_events [OF assms, of "console (world (dsys d))" "dsys d"] by simp

theorem debug_mode_transparent_witness:
  "drun [GuiScript ScriptLoad, TrimEnd 100, Base (ClockTick 5), StatsScript ScriptLoad, StatsFrame]
      (application_initialize \<lparr>location_hash = ''#debug'', audio_context_apis = [''webkitAudioContext''], script_ready_state = False, browser_webgl = True, browser_touch = False, browser_window = (800, 600), browser_clock = 0, fft_container = (512, 256), loaded_page = demo_page\<rparr>) \<noteq> None \<and>
   PlaySoundClick \<notin> set [GuiScript ScriptLoad, TrimEnd 100, Base (ClockTick 5), StatsScript ScriptLoad, StatsFrame] \<and>
   (\<exists>c. run (base_events [GuiScript ScriptLoad, TrimEnd 100, Base (ClockTick 5), StatsScript ScriptLoad, StatsFrame])
          (dsys (application_initialize \<lparr>location_hash = ''#debug'', audio_context_apis = [''webkitAudioContext''], script_ready_state = False, browser_webgl = True, browser_touch = False, browser_window = (800, 600), browser_clock = 0, fft_container = (512, 256), loaded_page = demo_page\<rparr>)) =
        Some (with_console c (dsys (the (drun [GuiScript ScriptLoad, TrimEnd 100, Base (ClockTick 5),
          StatsScript ScriptLoad, StatsFrame] (application_initialize \<lparr>location_hash = ''#debug'', audio_context_apis = [''webkitAudioContext''], script_ready_state = False, browser_webgl = True, browser_touch = False, browser_window = (800, 600), browser_clock = 0, fft_container = (512, 256), loaded_page = demo_page\<rparr>))))))"
proof -
  let ?es = "[GuiScript ScriptLoad, TrimEnd 100, Base (ClockTick 5), StatsScript ScriptLoad, StatsFrame]"
  have r: "drun ?es (application_initialize \<lparr>location_hash = ''#debug'', audio_context_apis = [''webkitAudioContext''], script_ready_state = False, browser_webgl = True, browser_touch = False, browser_window = (800, 600), browser_clock = 0, fft_container = (512, 256), loaded_page = demo_page\<rparr>) \<noteq> None"
    by (simp add: application_initialize_def is_debug_mode_def audio_context_ctor_def audio_context_vendors_def
        initialize_debug_mode_def async_load_script_def script_callback_def Let_def)
  then obtain d' where d': "drun ?es (application_initialize \<lparr>location_hash = ''#debug'', audio_context_apis = [''webkitAudioContext''], script_ready_state = False, browser_webgl = True, browser_touch = False, browser_window = (800, 600), browser_clock = 0, fft_container = (512, 256), loaded_page = demo_page\<rparr>) = Some d'" by blast
  have t: "\<exists>c. run (base_events ?es) (dsys (application_initialize \<lparr>location_hash = ''#debug'', audio_context_apis = [''webkitAudioContext''], script_ready_state = False, browser_webgl = True, browser_touch = False, browser_window = (800, 600), browser_clock = 0, fft_container = (512, 256), loaded_page = demo_page\<rparr>)) = Some (with_console c (dsys d'))"
    by (rule debug_mode_transparent [OF d']) simp
  show ?thesis
  proof (intro conjI)
    show "drun ?es (application_initialize \<lparr>location_hash = ''#debug'', audio_context_apis = [''webkitAudioContext''], script_ready_state = False, browser_webgl = True, browser_touch = False, browser_window = (800, 600), browser_clock = 0, fft_container = (512, 256), loaded_page = demo_page\<rparr>) \<noteq> None" by (rule r)
    show "PlaySoundClick \<notin> set ?es" by simp
    show "\<exists>c. run (base_events ?es) (dsys (application_initialize \<lparr>location_hash = ''#debug'', audio_context_apis = [''webkitAudioContext''], script_ready_state = False, browser_webgl = True, browser_touch = False, browser_window = (800, 600), browser_clock = 0, fft_container = (512, 256), loaded_page = demo_page\<rparr>)) =
        Some (with_console c (dsys (the (drun ?es (application_initialize \<lparr>location_hash = ''#debug'', audio_context_apis = [''webkitAudioContext''], script_ready_state = False, browser_webgl = True, browser_touch = False, browser_window = (800, 600), browser_clock = 0, fft_container = (512, 256), loaded_page = demo_page\<rparr>)))))"
      using t by (simp only: d' option.sel)
  qed
qed

text \<open>C40: in a browser that defines none of the four \<open>AudioContext\<close> names,
  \<open>Application.initialize\<close> throws before any state is entered, and whatever happens
  next the program never starts: no state, no request or callback held, no audio
  graph, the page as loaded and the scene module's variables as declared (its
  \<open>initialize\<close> never runs), nothing drawn, no analytics event. The
  debug mode, started before the audio context, still loads its scripts.\<close>

theorem no_audio_context_dead_page:
  assumes "audio_context_ctor (audio_context_apis b) = None"
    and "drun es (application_initialize b) = Some d"
  shows "current (dsys d) = None \<and> pending (world (dsys d)) = no_pending \<and>
    app (world (dsys d)) = application_init \<and> page (world (dsys d)) = loaded_page b \<and>
    scene (world (dsys d)) = scene_declared \<and>
    draw_calls (world (dsys d)) = 0 \<and> analytics (world (dsys d)) = [] \<and>
    (stats_script d \<noteq> None \<and> gui_script d \<noteq> None \<longleftrightarrow> is_debug_mode (location_hash b))"
  using dead_page_run [OF assms(2)] assms(1)
  by (simp add: application_initialize_def initial_world_def Let_def)

theorem no_audio_context_dead_page_witness:
  "audio_context_ctor (audio_context_apis \<lparr>location_hash = ''#debug'', audio_context_apis = [], script_ready_state = False, browser_webgl = True, browser_touch = False, browser_window = (800, 600), browser_clock = 0, fft_container = (512, 256), loaded_page = demo_page\<rparr>) = None \<and>
   drun [Base LaunchClick, Base (MouseMove 1 1), GuiScript ScriptLoad, PlaySoundClick]
     (application_initialize \<lparr>location_hash = ''#debug'', audio_context_apis = [], script_ready_state = False, browser_webgl = True, browser_touch = False, browser_window = (800, 600), browser_clock = 0, fft_container = (512, 256), loaded_page = demo_page\<rparr>) \<noteq> None \<and>
   current (dsys (the (drun [Base LaunchClick, Base (MouseMove 1 1), GuiScript ScriptLoad, PlaySoundClick]
     (application_initialize \<lparr>location_hash = ''#debug'', audio_context_apis = [], script_ready_state = False, browser_webgl = True, browser_touch = False, browser_window = (800, 600), browser_clock = 0, fft_container = (512, 256), loaded_page = demo_page\<rparr>)))) = None"
proof -
  let ?es = "[Base LaunchClick, Base (MouseMove 1 1), GuiScript ScriptLoad, PlaySoundClick]"
  have a: "audio_context_ctor (audio_context_apis \<lparr>location_hash = ''#debug'', audio_context_apis = [], script_ready_state = False, browser_webgl = True, browser_touch = False, browser_window = (800, 600), browser_clock = 0, fft_container = (512, 256), loaded_page = demo_page\<rparr>) = None"
    by (simp add: audio_context_ctor_def audio_context_vendors_def)
  have r: "drun ?es (application_initialize \<lparr>location_hash = ''#debug'', audio_context_apis = [], script_ready_state = False, browser_webgl = True, browser_touch = False, browser_window = (800, 600), browser_clock = 0, fft_container = (512, 256), loaded_page = demo_page\<rparr>) \<noteq> None"
    by (simp add: application_initialize_def is_debug_mode_def audio_context_ctor_def audio_context_vendors_def
        initialize_debug_mode_def async_load_script_def script_callback_def Let_def initial_world_def
        no_pending_def launch_click_def on_world_def)
  then have "drun ?es (application_initialize \<lparr>location_hash = ''#debug'', audio_context_apis = [], script_ready_state = False, browser_webgl = True, browser_touch = False, browser_window = (800, 600), browser_clock = 0, fft_container = (512, 256), loaded_page = demo_page\<rparr>) = Some (the (drun ?es (application_initialize \<lparr>location_hash = ''#debug'', audio_context_apis = [], script_ready_state = False, browser_webgl = True, browser_touch = False, browser_window = (800, 600), browser_clock = 0, fft_container = (512, 256), loaded_page = demo_page\<rparr>)))"
    by simp
  then show ?thesis using a r no_audio_context_dead_page by blast
qed

end
