(* ===== verification/GraphicContext.thy ===== *)
theory GraphicContext
  imports DebugSystem
begin

text \<open>
  The graphic context of \<open>Application.initialize\<close>: \<open>_initializeGraphicContext\<close>
  (\<open>Application.js\<close> lines 234--238) sets \<open>window.requestAnimationFrame\<close> to the
  first of four vendor names the browser defines, and to \<open>undefined\<close> when it defines
  none. \<open>_animate\<close> (\<open>LoadSceneState.js\<close> lines 392--397) calls
  \<open>requestAnimationFrame(_animate)\<close> before \<open>_render()\<close>, so without it the first
  call throws a \<open>TypeError\<close> before anything is drawn; the only first call is the
  one of the resource barrier (lines 231--239), after \<open>playAudio()\<close>. The page
  here is the program of \<open>System\<close> whose texture callback runs this barrier;
  \<open>System\<close> is the page of a browser that has \<open>requestAnimationFrame\<close>.
\<close>

subsection \<open>The polyfill\<close>

definition animation_frame_vendors :: "string list" where
  "animation_frame_vendors =
     [''requestAnimationFrame'', ''webkitRequestAnimationFrame'', ''mozRequestAnimationFrame'',
      ''msRequestAnimationFrame'']"

definition cancel_animation_frame_vendors :: "string list" where
  "cancel_animation_frame_vendors =
     [''cancelAnimationFrame'', ''webkitCancelAnimationFrame'', ''mozCancelAnimationFrame'',
      ''msCancelAnimationFrame'']"

text \<open>The two window globals after the polyfill, \<open>None\<close> for \<open>undefined\<close>.\<close>

definition initialize_graphic_context :: "string list \<Rightarrow> string option \<times> string option" where
  "initialize_graphic_context apis =
     (find (\<lambda>n. n \<in> set apis) animation_frame_vendors,
      find (\<lambda>n. n \<in> set apis) cancel_animation_frame_vendors)"

record gbrowser = browser +
  animation_frame_apis :: "string list"

definition raf_available :: "gbrowser \<Rightarrow> bool" where
  "raf_available b \<longleftrightarrow> fst (initialize_graphic_context (animation_frame_apis b)) \<noteq> None"

subsection \<open>The animation step and the resource barrier\<close>

text \<open>The uncaught exception of line 393, as the browser reports it on the console.\<close>

definition raf_type_error :: string where
  "raf_type_error = ''TypeError: requestAnimationFrame is not a function''"

definition animate_raf :: "bool \<Rightarrow> timestamp \<Rightarrow> fft_sample \<Rightarrow> scene \<Rightarrow> scene \<times> scene_effect list" where
  "animate_raf raf now ff sc = (if raf then animate now ff sc else (sc, [SceneLog raf_type_error]))"

definition resource_loaded_callback_raf ::
  "bool \<Rightarrow> timestamp \<Rightarrow> fft_sample \<Rightarrow> scene \<Rightarrow> scene \<times> scene_effect list" where
  "resource_loaded_callback_raf raf now ff sc =
     (let n = Suc (nb_loaded_resources sc); sc' = sc\<lparr>nb_loaded_resources := n\<rparr>
      in if n = 2 then (let (sc'', es) = animate_raf raf now ff sc' in (sc'', PlayAudio # es))
         else (sc', []))"

text \<open>
  An event of the page. The texture's load callback (\<open>LoadSceneState.js\<close> line 149)
  runs the barrier; every other event is the one of \<open>System\<close>. The mesh's call of
  the barrier, inside the launch click, is its first completion
  (\<open>mesh_callback_first\<close>), which does not reach \<open>_animate\<close>.
\<close>

fun gstep :: "bool \<Rightarrow> event \<Rightarrow> system \<Rightarrow> system" where
  "gstep raf TextureLoad m =
     on_world ((\<lambda>w. run_scene (resource_loaded_callback_raf raf (clock w) (get_fft (app w))) w) \<circ>
               set_pending (\<lambda>p. p\<lparr>texture_loading := False\<rparr>)) m"
| "gstep raf e m = step e m"

fun grun :: "bool \<Rightarrow> event list \<Rightarrow> system \<Rightarrow> system option" where
  "grun raf [] m = Some m"
| "grun raf (e # es) m = (if enabled e m then grun raf es (gstep raf e m) else None)"

definition graphic_page_init :: "gbrowser \<Rightarrow> system" where
  "graphic_page_init b = dsys (application_initialize (browser.truncate b))"

subsection \<open>Without \<open>requestAnimationFrame\<close>\<close>

text \<open>A page state without the animation loop, read as the state of \<open>System\<close> with
  the frame callback the barrier would have registered.\<close>

definition with_frames :: "system \<Rightarrow> system" where
  "with_frames m =
     on_world (set_pending (\<lambda>p. p\<lparr>frame_callbacks :=
       (if nb_loaded_resources (scene (world m)) = 2 then 1 else 0)\<rparr>)) m"

definition noraf_inv :: "system \<Rightarrow> bool" where
  "noraf_inv m \<longleftrightarrow> phase_inv (with_frames m) \<and> frame_callbacks (pending (world m)) = 0 \<and>
     draw_calls (world m) = 0"

text \<open>Fixtures: a browser with an \<open>AudioContext\<close> and no \<open>requestAnimationFrame\<close>,
  and the events of \<open>demo_events\<close> up to the texture load.\<close>

definition noraf_browser :: gbrowser where
  "noraf_browser =
     \<lparr>location_hash = [], audio_context_apis = [''AudioContext''], script_ready_state = False,
      browser_webgl = True, browser_touch = False, browser_window = (800, 600), browser_clock = 0,
      fft_container = (512, 256), loaded_page = demo_page, animation_frame_apis = []\<rparr>"

definition noraf_events :: "event list" where
  "noraf_events = [MetadataReadyState 4 200 (Some demo_track), AudioLoad, DecodeSuccess (AudioBuffer 1),
                   LaunchClick, TextureLoad, ClockTick 16]"

lemma animate_raf_True [simp]: "animate_raf True now ff sc = animate now ff sc"
  by (simp add: animate_raf_def)

lemma resource_loaded_callback_raf_True [simp]:
  "resource_loaded_callback_raf True = resource_loaded_callback"
  by (simp add: resource_loaded_callback_raf_def resource_loaded_callback_def fun_eq_iff Let_def)

lemma gstep_True: "gstep True e = step e"
  by (cases e) (simp_all add: fun_eq_iff)

lemma grun_True: "grun True es m = run es m"
  by (induction es arbitrary: m) (simp_all add: gstep_True)

lemma mesh_callback_first:
  "nb_loaded_resources sc \<noteq> 1 \<Longrightarrow> resource_loaded_callback_raf raf now ff sc = resource_loaded_callback now ff sc"
  by (simp add: resource_loaded_callback_raf_def resource_loaded_callback_def)

lemmas noraf_simps = noraf_inv_def with_frames_def inv_simps

lemma noraf_audio_process: "noraf_inv m \<Longrightarrow> noraf_inv (step (AudioProcess bins) m)"
  by (auto simp: noraf_simps on_audio_process_def split: option.splits app_state.splits)

lemma noraf_clock: "noraf_inv m \<Longrightarrow> noraf_inv (step (ClockTick t) m)"
  by (auto simp: noraf_simps split: option.splits app_state.splits)

lemma noraf_audio_load: "noraf_inv m \<Longrightarrow> enabled AudioLoad m \<Longrightarrow> noraf_inv (step AudioLoad m)"
  by (auto simp: noraf_simps audio_onload_def split: option.splits app_state.splits)

lemma noraf_decode_error: "noraf_inv m \<Longrightarrow> enabled (DecodeError e) m \<Longrightarrow> noraf_inv (step (DecodeError e) m)"
  by (auto simp: noraf_simps sound_load_error_def console_log_def split: option.splits app_state.splits)

lemma noraf_mouse: "noraf_inv m \<Longrightarrow> noraf_inv (step (MouseMove cx cy) m)"
  by (auto simp: noraf_simps on_mouse_move_def split: option.splits app_state.splits)

lemma noraf_touch: "noraf_inv m \<Longrightarrow> noraf_inv (step (TouchMove ts) m)"
  by (auto simp: noraf_simps on_touch_move_def split: option.splits app_state.splits list.splits)

lemma noraf_resize: "noraf_inv m \<Longrightarrow> noraf_inv (step (WindowResize ww wh) m)"
  by (auto simp: noraf_simps on_window_resize_def split: option.splits app_state.splits)

lemma noraf_link_click: "noraf_inv m \<Longrightarrow> noraf_inv (step (LinkClick l) m)"
  by (auto simp: noraf_simps split: option.splits app_state.splits)

lemma with_frames_keeps [simp]:
  "current (with_frames m) = current m" "world (with_frames m) = (world m)\<lparr>pending :=
     (pending (world m))\<lparr>frame_callbacks := (if nb_loaded_resources (scene (world m)) = 2 then 1 else 0)\<rparr>\<rparr>"
  by (simp_all add: with_frames_def on_world_def set_pending_def)

lemma noraf_current_loading:
  "noraf_inv m \<Longrightarrow> \<not> no_loading_requests (pending (world m)) \<Longrightarrow> current m = Some Loading"
  using requests_current_loading [of "with_frames m"] by (simp add: noraf_inv_def no_loading_requests_def)

lemma noraf_metadata:
  assumes inv: "noraf_inv m" and en: "enabled (MetadataReadyState r st parsed) m"
  shows "noraf_inv (step (MetadataReadyState r st parsed) m)"
proof -
  have "current m = Some Loading"
    using en by (intro noraf_current_loading [OF inv]) (simp add: no_loading_requests_def)
  then show ?thesis
    using inv en metadata_ready_state_frame
    by (auto simp: noraf_simps ajax_callback_fires_def split: if_splits)
qed

lemma noraf_decode_success:
  assumes inv: "noraf_inv m" and en: "enabled (DecodeSuccess b) m"
  shows "noraf_inv (step (DecodeSuccess b) m)"
proof -
  have "current m = Some Loading"
    using en by (intro noraf_current_loading [OF inv]) (simp add: no_loading_requests_def)
  then show ?thesis
    using inv en
    by (auto simp: noraf_simps sound_loaded_world console_log_def set_source_node_buffer_def
        play_execute_def play_enter_def loading_exit_def launch_experience_def)
qed

lemma resource_loaded_callback_noraf:
  "resource_loaded_callback_raf False t f sc =
     (if nb_loaded_resources sc = 1
      then (sc\<lparr>nb_loaded_resources := 2\<rparr>, [PlayAudio, SceneLog raf_type_error])
      else (sc\<lparr>nb_loaded_resources := Suc (nb_loaded_resources sc)\<rparr>, []))"
  by (simp add: resource_loaded_callback_raf_def animate_raf_def Let_def numeral_2_eq_2)

lemma with_frames_phase_inv: "phase_inv m \<Longrightarrow> with_frames m = m"
  by (simp add: with_frames_def phase_inv_def on_world_def set_pending_def Let_def)

lemma noraf_inv_init:
  assumes "audio_context_ctor (audio_context_apis b) \<noteq> None"
  shows "noraf_inv (graphic_page_init b)"
proof -
  have i: "graphic_page_init b = initialize (browser_webgl b) (browser_touch b) (browser_window b)
      (browser_clock b) (loaded_page b)"
    using assms by (auto simp: graphic_page_init_def application_initialize_def Let_def browser.defs)
  have p: "phase_inv (initialize (browser_webgl b) (browser_touch b) (browser_window b)
      (browser_clock b) (loaded_page b))" by (rule inv_init)
  have "frame_callbacks (pending (world (initialize (browser_webgl b) (browser_touch b) (browser_window b)
      (browser_clock b) (loaded_page b)))) = 0 \<and> draw_calls (world (initialize (browser_webgl b)
      (browser_touch b) (browser_window b) (browser_clock b) (loaded_page b))) = 0"
    by (simp add: model_defs Let_def split_beta)
  then show ?thesis unfolding i noraf_inv_def with_frames_phase_inv [OF p] using p by blast
qed

lemma noraf_texture:
  "noraf_inv m \<Longrightarrow> enabled TextureLoad m \<Longrightarrow> noraf_inv (gstep False TextureLoad m)"
  by (auto simp: noraf_simps run_scene_def resource_loaded_callback_noraf play_audio_def console_log_def
      split: option.splits app_state.splits if_splits)

lemma noraf_launch_click:
  assumes inv: "noraf_inv m"
  shows "noraf_inv (step LaunchClick m)"
proof -
  have pi: "phase_inv (with_frames m)" using inv by (simp add: noraf_inv_def)
  obtain s where cur: "current m = Some s" using phase_inv_current [OF pi] by auto
  show ?thesis
  proof (cases s)
    case Loading
    then have "launch_listeners (pending (world m)) = 0" using pi cur by (simp add: phase_inv_def Let_def)
    then show ?thesis using inv by (simp add: launch_click_def)
  next
    case Play
    then have l: "launch_listeners (pending (world m)) = 1" and nb: "nb_loaded_resources (scene (world m)) = 0"
      using pi cur by (simp_all add: phase_inv_def Let_def)
    have "step LaunchClick m = change_app_state LoadScene (on_world launch_click_page m)"
      using l by (simp add: launch_click_def launch_listener_def)
    also have "\<dots> = \<lparr>current = Some LoadScene,
        world = scene_state_execute (scene_state_enter (play_exit (launch_click_page (world m))))\<rparr>"
      using cur Play by (simp add: change_app_state_to_scene on_world_def)
    finally show ?thesis
      using inv cur Play nb
      by (auto simp: noraf_simps scene_state_execute_def scene_state_enter_def play_exit_def
          launch_click_page_def run_scene_def scene_execute_def scene_enter_def init_scene_first
          console_log_def split_beta)
  next
    case LoadScene
    then have l: "launch_listeners (pending (world m)) = 1" using pi cur by (simp add: phase_inv_def Let_def)
    have "step LaunchClick m = on_world launch_click_page m"
      using l cur LoadScene by (simp add: launch_click_def launch_listener_def change_app_state_same on_world_def)
    then show ?thesis using inv cur LoadScene by (auto simp: noraf_simps launch_click_page_def)
  qed
qed

lemma gstep_other: "e \<noteq> TextureLoad \<Longrightarrow> gstep raf e m = step e m"
  by (cases e) simp_all

lemma noraf_step:
  assumes "noraf_inv m" "enabled e m"
  shows "noraf_inv (gstep False e m)"
proof (cases "e = TextureLoad")
  case True
  then show ?thesis using noraf_texture assms by blast
next
  case False
  have "noraf_inv (step e m)"
    using assms False
    by (cases e) (blast intro: noraf_launch_click noraf_metadata noraf_audio_load noraf_decode_success
        noraf_decode_error noraf_audio_process noraf_mouse noraf_touch noraf_resize noraf_clock
        noraf_link_click | simp add: noraf_inv_def)+
  then show ?thesis using gstep_other [OF False] by simp
qed

lemma noraf_run: "grun False es m = Some m' \<Longrightarrow> noraf_inv m \<Longrightarrow> noraf_inv m'"
  by (induction es arbitrary: m) (auto simp: noraf_step split: if_splits)

subsection \<open>Properties of the page\<close>

text \<open>C28: in a browser that has an \<open>AudioContext\<close> but none of the four
  \<open>requestAnimationFrame\<close> names, whatever the events, nothing is ever drawn and no
  frame callback is ever held, while the source node is started, never stopped, once
  exactly when both resources have loaded: the track plays over a still page.\<close>

theorem no_raf_audio_without_animation:
  assumes "audio_context_ctor (audio_context_apis b) \<noteq> None" and "\<not> raf_available b"
    and "grun (raf_available b) es (graphic_page_init b) = Some m"
  shows "draw_calls (world m) = 0 \<and> frame_callbacks (pending (world m)) = 0 \<and>
    (\<exists>n. source (app (world m)) = Some n \<and> stop_calls n = 0 \<and>
         start_calls n = (if nb_loaded_resources (scene (world m)) = 2 then 1 else 0))"
proof -
  have "noraf_inv m" using noraf_run [OF _ noraf_inv_init [OF assms(1)]] assms(2,3) by simp
  then show ?thesis by (auto simp: noraf_inv_def phase_inv_def Let_def)
qed

theorem no_raf_audio_without_animation_witness:
  "audio_context_ctor (audio_context_apis noraf_browser) \<noteq> None \<and> \<not> raf_available noraf_browser \<and>
   grun (raf_available noraf_browser) noraf_events (graphic_page_init noraf_browser) \<noteq> None \<and>
   nb_loaded_resources (scene (world (the (grun (raf_available noraf_browser) noraf_events
     (graphic_page_init noraf_browser))))) = 2 \<and>
   draw_calls (world (the (grun (raf_available noraf_browser) noraf_events (graphic_page_init noraf_browser)))) = 0 \<and>
   (\<exists>n. source (app (world (the (grun (raf_available noraf_browser) noraf_events
     (graphic_page_init noraf_browser))))) = Some n \<and> start_calls n = 1)"
proof -
  have a: "audio_context_ctor (audio_context_apis noraf_browser) \<noteq> None"
    by (simp add: noraf_browser_def audio_context_ctor_def audio_context_vendors_def)
  have r: "\<not> raf_available noraf_browser"
    by (simp add: noraf_browser_def raf_available_def initialize_graphic_context_def animation_frame_vendors_def)
  have g: "grun (raf_available noraf_browser) noraf_events (graphic_page_init noraf_browser) =
      grun False noraf_events (initialize True False (800, 600) 0 demo_page)"
    using r by (simp add: graphic_page_init_def application_initialize_def noraf_browser_def Let_def
        browser.defs audio_context_ctor_def audio_context_vendors_def)
  have nb: "grun False noraf_events (initialize True False (800, 600) 0 demo_page) \<noteq> None \<and>
      nb_loaded_resources (scene (world (the (grun False noraf_events (initialize True False (800, 600) 0 demo_page))))) = 2"
    by (simp add: noraf_events_def demo_simps resource_loaded_callback_noraf)
  then obtain m where m: "grun (raf_available noraf_browser) noraf_events (graphic_page_init noraf_browser) = Some m"
    using g by auto
  have "draw_calls (world m) = 0 \<and> frame_callbacks (pending (world m)) = 0 \<and>
    (\<exists>n. source (app (world m)) = Some n \<and> stop_calls n = 0 \<and>
         start_calls n = (if nb_loaded_resources (scene (world m)) = 2 then 1 else 0))"
    by (rule no_raf_audio_without_animation [OF a r m])
  then show ?thesis using a r m nb g by auto
qed

end
