(* ===== verification/Gulpfile.thy ===== *)
theory Gulpfile
  imports Texture "HOL-Library.Sublist"
begin

text \<open>
  The build script \<open>src/gulpfile.js\<close>. Its helpers are modelled as functions:
  \<open>getTimestamp\<close> (lines 76--89) on the fields of the \<open>Date\<close> it reads, and
  \<open>errorHandler\<close> (lines 97--101). Each task (lines 113--259) is modelled by what it
  declares: its dependencies, its stream pipeline, the files it reads and writes. Some
  of its semantics come from the gulp libraries it calls. Gulp runs a task after its
  dependencies, each at most once per run. \<open>gulp.watch\<close> starts the tasks of every
  watcher whose glob matches a changed file. \<open>gulp-replace\<close> is the JavaScript
  global replace of a regular expression. \<open>gulp-plumber\<close> gives every stream piped
  after it the error handler, which logs the error and ends the stream; an error of a
  stream before it has no handler and stops the process. The plugins that transform
  contents (concatenation, minifiers, autoprefixer, image optimisation, source maps)
  are external; a stage of a pipeline is its name and whether it fails.
\<close>

subsection \<open>The timestamp for cache busting\<close>

text \<open>The fields of the \<open>Date\<close> that \<open>getTimestamp\<close> reads; \<open>getMonth()\<close> counts
  from 0.\<close>

record js_date =
  full_year :: nat
  month0 :: nat
  date_day :: nat
  date_hours :: nat
  date_minutes :: nat
  date_seconds :: nat

text \<open>\<open>('0' + n).slice(-2)\<close>: the last two characters of the number with a zero in
  front.\<close>

definition slice_last2 :: "string \<Rightarrow> string" where
  "slice_last2 s = drop (length s - 2) s"

definition pad2 :: "nat \<Rightarrow> string" where
  "pad2 n = slice_last2 (''0'' @ nat_string n)"

definition get_timestamp :: "js_date \<Rightarrow> string" where
  "get_timestamp d =
     join ''-'' [nat_string (full_year d), pad2 (month0 d + 1), pad2 (date_day d),
                pad2 (date_hours d), pad2 (date_minutes d), pad2 (date_seconds d)]"

text \<open>A date as \<open>Date\<close> produces it: months 0--11, days 1--31, hours 0--23,
  minutes and seconds 0--59.\<close>

definition valid_date :: "js_date \<Rightarrow> bool" where
  "valid_date d \<longleftrightarrow> month0 d < 12 \<and> 1 \<le> date_day d \<and> date_day d \<le> 31 \<and>
     date_hours d < 24 \<and> date_minutes d < 60 \<and> date_seconds d < 60"

subsection \<open>Tasks and their dependencies\<close>

datatype gulp_task =
    JavascriptLibraries | JavascriptApp | MinifyHtml | MinifyCss | CopyImages
  | WatchTask | BuildTask | DefaultTask

fun task_name :: "gulp_task \<Rightarrow> string" where
  "task_name JavascriptLibraries = ''javascript:libraries''"
| "task_name JavascriptApp = ''javascript:app''"
| "task_name MinifyHtml = ''minify:html''"
| "task_name MinifyCss = ''minify:css''"
| "task_name CopyImages = ''copy:images''"
| "task_name WatchTask = ''watch''"
| "task_name BuildTask = ''build''"
| "task_name DefaultTask = ''default''"

text \<open>Lines 254 and 259: \<open>build\<close> depends on the five asset tasks, \<open>default\<close> on
  \<open>watch\<close>; the other tasks have none.\<close>

fun task_deps :: "gulp_task \<Rightarrow> gulp_task list" where
  "task_deps BuildTask = [JavascriptLibraries, JavascriptApp, MinifyHtml, MinifyCss, CopyImages]"
| "task_deps DefaultTask = [WatchTask]"
| "task_deps _ = []"

fun task_rank :: "gulp_task \<Rightarrow> nat" where
  "task_rank BuildTask = 1"
| "task_rank DefaultTask = 1"
| "task_rank _ = 0"

text \<open>Running a task: its dependencies first, each task at most once, then the task's
  own function. The result is the list of the tasks whose function has run, in order.\<close>

function run_task :: "gulp_task list \<Rightarrow> gulp_task \<Rightarrow> gulp_task list" where
  "run_task started t =
     (if t \<in> set started then started else fold (\<lambda>d acc. run_task acc d) (task_deps t) started @ [t])"
  by pat_completeness auto
termination
  apply (relation "measure (\<lambda>(started, t). task_rank t)")
   apply simp
  subgoal premises p for started t x
    using p(2) by (cases t) auto
  done

declare run_task.simps [simp del]

subsection \<open>Globs and watchers\<close>

text \<open>
  A glob of \<open>PATHS.src\<close> (lines 52--55) as \<open>gulp.watch\<close> reads it: \<open>**/\<close> matches
  any number of directories, \<open>*\<close> any characters but \<open>/\<close>, \<open>{a,b}\<close> one of the
  alternatives, every other character itself. The special treatment of names starting
  with a dot is not modelled (the sources have none).
\<close>

datatype glob_tok = GLit char | GStar | GGlobstar | GAlt "string list"

function parse_glob :: "string \<Rightarrow> glob_tok list" where
  "parse_glob [] = []"
| "parse_glob (c # r) =
     (if c = CHR ''*'' \<and> take 2 r = ''*/'' then GGlobstar # parse_glob (drop 2 r)
      else if c = CHR ''*'' then GStar # parse_glob r
      else if c = CHR ''{''
      then GAlt (split_on CHR '','' (takeWhile (\<lambda>x. x \<noteq> CHR ''}'') r)) #
           parse_glob (drop 1 (dropWhile (\<lambda>x. x \<noteq> CHR ''}'') r))
      else GLit c # parse_glob r)"
  by pat_completeness auto
termination
  by (relation "measure length")
    (auto, metis diff_le_self le_imp_less_Suc length_dropWhile_le order.trans)

function glob_match :: "glob_tok list \<Rightarrow> string \<Rightarrow> bool" where
  "glob_match [] s = (s = [])"
| "glob_match (GLit c # ts) s = (case s of [] \<Rightarrow> False | x # xs \<Rightarrow> x = c \<and> glob_match ts xs)"
| "glob_match (GStar # ts) s =
     (glob_match ts s \<or> (case s of [] \<Rightarrow> False | x # xs \<Rightarrow> x \<noteq> CHR ''/'' \<and> glob_match (GStar # ts) xs))"
| "glob_match (GGlobstar # ts) s =
     (glob_match ts s \<or>
      (case dropWhile (\<lambda>x. x \<noteq> CHR ''/'') s of [] \<Rightarrow> False | _ # rest \<Rightarrow> glob_match (GGlobstar # ts) rest))"
| "glob_match (GAlt alts # ts) s =
     list_ex (\<lambda>a. take (length a) s = a \<and> glob_match ts (drop (length a) s)) alts"
  by pat_completeness auto
termination
proof (relation "measures [\<lambda>(ts, s). length s, \<lambda>(ts, s). length ts]")
  fix ts s r x
  assume "dropWhile (\<lambda>x. x \<noteq> CHR ''/'') s = x # r"
  moreover have "length (dropWhile (\<lambda>x. x \<noteq> CHR ''/'') s) \<le> length s" by (rule length_dropWhile_le)
  ultimately show "((GGlobstar # ts, r), GGlobstar # ts, s) \<in> measures [\<lambda>(ts, s). length s, \<lambda>(ts, s). length ts]"
    by simp
qed auto

datatype source_kind = Scripts | Styles | Markup | Images

fun src_glob :: "source_kind \<Rightarrow> string" where
  "src_glob Scripts = ''./src/js/**/*.js''"
| "src_glob Styles = ''./src/css/**/*.css''"
| "src_glob Markup = ''./src/**/*.html''"
| "src_glob Images = ''./src/img/**/*.{png,gif,jpg,jpeg}''"

fun dest_dir :: "source_kind \<Rightarrow> string" where
  "dest_dir Scripts = ''./dist/js''"
| "dest_dir Styles = ''./dist/css''"
| "dest_dir Markup = ''./dist''"
| "dest_dir Images = ''./dist/img''"

text \<open>The \<open>watch\<close> task (lines 244--249): one watcher per kind of source.\<close>

definition watchers :: "(source_kind \<times> gulp_task list) list" where
  "watchers =
     [(Scripts, [JavascriptLibraries, JavascriptApp, MinifyHtml]), (Styles, [MinifyCss]),
      (Markup, [MinifyHtml]), (Images, [CopyImages])]"

definition on_file_change :: "string \<Rightarrow> gulp_task list" where
  "on_file_change path =
     concat (map snd (filter (\<lambda>(k, ts). glob_match (parse_glob (src_glob k)) path) watchers))"

subsection \<open>Cache busting\<close>

text \<open>
  Lines 172--174: \<open>replace(/name\?v=([0-9]*)/g, 'name?v=' + timestamp)\<close> for the three
  bundles. In the expression the dots of the name are not escaped and match any
  character but a line terminator; \<open>[0-9]*\<close> takes the digits that follow.
\<close>

definition is_ascii_digit :: "char \<Rightarrow> bool" where
  "is_ascii_digit c \<longleftrightarrow> (48 :: nat) \<le> of_char c \<and> (of_char c :: nat) < 58"

definition regex_char_match :: "char \<Rightarrow> char \<Rightarrow> bool" where
  "regex_char_match p c = (if p = CHR ''.'' then c \<noteq> CHR 0x0A \<and> c \<noteq> CHR 0x0D else c = p)"

function cache_bust :: "string \<Rightarrow> string \<Rightarrow> string \<Rightarrow> string" where
  "cache_bust name ts [] = []"
| "cache_bust name ts (x # xs) =
     (let pat = name @ ''?v=''
      in if length pat \<le> length (x # xs) \<and> list_all2 regex_char_match pat (take (length pat) (x # xs))
         then name @ ''?v='' @ ts @ cache_bust name ts (dropWhile is_ascii_digit (drop (length pat) (x # xs)))
         else x # cache_bust name ts xs)"
  by pat_completeness auto
termination
  by (relation "measure (\<lambda>(name, ts, s). length s)")
    (auto simp: le_imp_less_Suc length_dropWhile_le intro: le_less_trans [OF length_dropWhile_le])

declare cache_bust.simps(2) [simp del]

definition minify_html_replaces :: "string \<Rightarrow> string \<Rightarrow> string" where
  "minify_html_replaces ts html =
     cache_bust ''main.min.js'' ts (cache_bust ''libraries.min.js'' ts (cache_bust ''style.min.css'' ts html))"

subsection \<open>Pipelines and errors\<close>

text \<open>
  The stages of each task's stream, in the order of the \<open>pipe\<close> calls. A pipeline
  fails at its first failing stage. \<open>errorHandler\<close> (lines 97--101) logs the error
  and emits \<open>end\<close>, so the task ends and the watch goes on. It is bound to every
  stage after \<open>plumber\<close>; an error of the stream plumber is piped from, the task's
  source, has no handler and stops the process.
\<close>

datatype stage = Source string | Plumber | Plugin string | Dest string

fun task_pipeline :: "gulp_task \<Rightarrow> stage list" where
  "task_pipeline JavascriptLibraries =
     [Source ''gulp.src'', Plumber, Plugin ''concat'', Plugin ''uglify'', Dest ''./dist/js'']"
| "task_pipeline JavascriptApp =
     [Source ''browserify.bundle'', Plumber, Plugin ''vinyl-source-stream'', Plugin ''vinyl-buffer'',
      Plugin ''sourcemaps.init'', Plugin ''uglify'', Plugin ''sourcemaps.write'', Dest ''./dist/js'']"
| "task_pipeline MinifyHtml =
     [Source ''gulp.src'', Plumber, Plugin ''replace'', Plugin ''replace'', Plugin ''replace'',
      Plugin ''htmlmin'', Dest ''./dist'']"
| "task_pipeline MinifyCss =
     [Source ''gulp.src'', Plumber, Plugin ''concat'', Plugin ''autoprefixer'', Plugin ''minify-css'',
      Dest ''./dist/css'']"
| "task_pipeline CopyImages = [Source ''gulp.src'', Plumber, Plugin ''imagemin'', Dest ''./dist/img'']"
| "task_pipeline _ = []"

datatype outcome = Completed | EndedAfterError string | Crashed string

definition error_handler :: "string \<Rightarrow> string list \<Rightarrow> string list \<times> bool" where
  "error_handler e console_lines = (console_lines @ [e], True)"

text \<open>\<open>plumber\<close> itself passes the stream through; from it on the stages are
  plumbed.\<close>

fun run_pipeline :: "(stage \<Rightarrow> string option) \<Rightarrow> bool \<Rightarrow> stage list \<Rightarrow> outcome" where
  "run_pipeline fails plumbed [] = Completed"
| "run_pipeline fails plumbed (Plumber # sts) = run_pipeline fails True sts"
| "run_pipeline fails plumbed (st # sts) =
     (case fails st of
        Some e \<Rightarrow> if plumbed then EndedAfterError e else Crashed e
      | None \<Rightarrow> run_pipeline fails plumbed sts)"

text \<open>The file extensions the globs of \<open>PATHS.src\<close> end in.\<close>

fun src_exts :: "source_kind \<Rightarrow> string list" where
  "src_exts Scripts = [''.js'']"
| "src_exts Styles = [''.css'']"
| "src_exts Markup = [''.html'']"
| "src_exts Images = [''.png'', ''.gif'', ''.jpg'', ''.jpeg'']"

subsection \<open>The timestamp\<close>

lemma nat_string_small: "n < 10 \<Longrightarrow> nat_string n = [char_of (48 + n)]"
  by (simp add: nat_string.simps)

lemma digit_value_zero [simp]: "digit_value CHR ''0'' = Some 0"
  by (simp add: digit_value_def)

lemma pad2_props:
  assumes "n < 100"
  shows "parse_nat (pad2 n) = Some n \<and> CHR ''-'' \<notin> set (pad2 n) \<and> length (pad2 n) = 2"
proof (cases "n < 10")
  case True
  then have p: "pad2 n = CHR ''0'' # nat_string n" by (simp add: pad2_def slice_last2_def nat_string_small)
  have "parse_digits 0 (nat_string n) = Some n" using parse_digits_nat_string [of 0 n] by simp
  then show ?thesis using True minus_not_in_nat_string [of n] by (simp add: p parse_nat_def nat_string_small)
next
  case False
  then have "length (nat_string n) = 2"
    using assms by (simp add: nat_string.simps [of n] nat_string_small)
  then have "pad2 n = nat_string n" by (simp add: pad2_def slice_last2_def)
  then show ?thesis using \<open>length (nat_string n) = 2\<close> minus_not_in_nat_string [of n] by simp
qed

subsection \<open>Globs\<close>

lemmas glob_match_star = glob_match.simps(3)
lemmas glob_match_globstar = glob_match.simps(4)

declare glob_match_star [simp del] glob_match_globstar [simp del]

lemma glob_match_star_split:
  assumes ih: "\<And>s. glob_match ts s \<Longrightarrow> \<exists>p q. s = p @ q \<and> glob_match us q"
  shows "glob_match (GStar # ts) s \<Longrightarrow> \<exists>p q. s = p @ q \<and> glob_match us q"
proof (induction s)
  case Nil
  then have "glob_match ts []" by (simp add: glob_match_star)
  then show ?case using ih by blast
next
  case (Cons x xs)
  then consider "glob_match ts (x # xs)" | "glob_match (GStar # ts) xs"
    by (auto simp: glob_match_star [of ts "x # xs"])
  then show ?case using Cons.IH ih by cases (blast, metis append_Cons)
qed

lemma glob_match_globstar_split:
  assumes ih: "\<And>s. glob_match ts s \<Longrightarrow> \<exists>p q. s = p @ q \<and> glob_match us q"
  shows "glob_match (GGlobstar # ts) s \<Longrightarrow> \<exists>p q. s = p @ q \<and> glob_match us q"
proof (induction s rule: length_induct)
  case (1 s)
  show ?case
  proof (cases "glob_match ts s")
    case True
    then show ?thesis using ih by blast
  next
    case False
    then obtain y rest where d: "dropWhile (\<lambda>x. x \<noteq> CHR ''/'') s = y # rest"
      and m: "glob_match (GGlobstar # ts) rest"
      using "1.prems" by (auto simp: glob_match_globstar [of ts s] split: list.splits)
    have "length rest < length s"
      using d length_dropWhile_le [of "\<lambda>x. x \<noteq> CHR ''/''" s] by simp
    then obtain p q where "rest = p @ q" "glob_match us q" using "1.IH" m by blast
    moreover have "s = (takeWhile (\<lambda>x. x \<noteq> CHR ''/'') s @ [y]) @ rest"
      using d takeWhile_dropWhile_id [of "\<lambda>x. x \<noteq> CHR ''/''" s] by simp
    ultimately show ?thesis by (metis append.assoc)
  qed
qed

lemma glob_match_append:
  "glob_match (ts @ us) s \<Longrightarrow> \<exists>p q. s = p @ q \<and> glob_match us q"
proof (induction ts arbitrary: s)
  case Nil
  then show ?case by auto
next
  case (Cons t ts)
  show ?case
  proof (cases t)
    case (GLit c)
    then obtain x xs where "s = x # xs" "glob_match (ts @ us) xs"
      using Cons.prems by (auto split: list.splits)
    then show ?thesis using Cons.IH by (metis append_Cons)
  next
    case (GAlt alts)
    then obtain a where "s = a @ drop (length a) s" "glob_match (ts @ us) (drop (length a) s)"
      using Cons.prems by (auto simp: list_ex_iff) (metis append_take_drop_id)
    then show ?thesis using Cons.IH by (metis append.assoc)
  next
    case GStar
    then show ?thesis using glob_match_star_split [OF Cons.IH] Cons.prems by simp
  next
    case GGlobstar
    then show ?thesis using glob_match_globstar_split [OF Cons.IH] Cons.prems by simp
  qed
qed

lemma glob_match_lits: "glob_match (map GLit xs) q \<Longrightarrow> q = xs"
  by (induction xs arbitrary: q) (auto split: list.splits)

lemma glob_match_ext_alt:
  "glob_match [GLit c, GAlt alts] q \<Longrightarrow> \<exists>a \<in> set alts. q = c # a"
  by (auto split: list.splits simp: list_ex_iff)


lemma glob_suffix_lits:
  "parse_glob g = ts @ map GLit e \<Longrightarrow> glob_match (parse_glob g) p \<Longrightarrow> suffix e p"
  using glob_match_append [of ts "map GLit e" p] glob_match_lits by (auto simp: suffix_def)

lemma glob_suffix_alt:
  "parse_glob g = ts @ [GLit c, GAlt alts] \<Longrightarrow> glob_match (parse_glob g) p \<Longrightarrow>
   \<exists>a \<in> set alts. suffix (c # a) p"
  using glob_match_append [of ts "[GLit c, GAlt alts]" p] glob_match_ext_alt by (fastforce simp: suffix_def)

lemma src_glob_suffix:
  assumes "glob_match (parse_glob (src_glob k)) p"
  shows "\<exists>e \<in> set (src_exts k). suffix e p"
proof (cases k)
  case Scripts
  have "parse_glob (src_glob Scripts) = take 11 (parse_glob (src_glob Scripts)) @ map GLit ''.js''" by simp
  from glob_suffix_lits [OF this assms [unfolded Scripts]] show ?thesis using Scripts by simp
next
  case Styles
  have "parse_glob (src_glob Styles) = take 12 (parse_glob (src_glob Styles)) @ map GLit ''.css''" by simp
  from glob_suffix_lits [OF this assms [unfolded Styles]] show ?thesis using Styles by simp
next
  case Markup
  have "parse_glob (src_glob Markup) = take 8 (parse_glob (src_glob Markup)) @ map GLit ''.html''" by simp
  from glob_suffix_lits [OF this assms [unfolded Markup]] show ?thesis using Markup by simp
next
  case Images
  have "parse_glob (src_glob Images) =
        take 12 (parse_glob (src_glob Images)) @ [GLit CHR ''.'', GAlt [''png'', ''gif'', ''jpg'', ''jpeg'']]"
    by simp
  from glob_suffix_alt [OF this assms [unfolded Images]] show ?thesis using Images by simp
qed

lemma src_globs_disjoint:
  assumes "glob_match (parse_glob (src_glob k1)) p" "glob_match (parse_glob (src_glob k2)) p"
  shows "k1 = k2"
proof -
  obtain e1 e2 where e: "e1 \<in> set (src_exts k1)" "e2 \<in> set (src_exts k2)" "suffix e1 p" "suffix e2 p"
    using src_glob_suffix [OF assms(1)] src_glob_suffix [OF assms(2)] by blast
  then have "suffix e1 e2 \<or> suffix e2 e1" using suffix_same_cases by blast
  with e(1,2) show ?thesis by (cases k1; cases k2) (auto simp: suffix_to_prefix)
qed


subsection \<open>Cache busting, tasks, pipelines\<close>

lemma get_timestamp_fields:
  "get_timestamp d = join ''-'' (nat_string (full_year d) #
     map pad2 [month0 d + 1, date_day d, date_hours d, date_minutes d, date_seconds d])"
  by (simp add: get_timestamp_def)

lemma valid_date_pads:
  "valid_date d \<Longrightarrow> \<forall>n \<in> set [month0 d + 1, date_day d, date_hours d, date_minutes d, date_seconds d].
     parse_nat (pad2 n) = Some n \<and> CHR ''-'' \<notin> set (pad2 n) \<and> length (pad2 n) = 2"
  using pad2_props by (auto simp: valid_date_def)

lemma regex_char_match_self [simp]: "regex_char_match c c"
  by (simp add: regex_char_match_def)

lemma regex_pattern_self: "list_all2 regex_char_match s s"
  by (induction s) simp_all

lemma regex_pattern_query:
  assumes "list_all2 regex_char_match (name @ ''?v='') t"
  shows "CHR ''?'' \<in> set t"
proof -
  have "length name < length t" using list_all2_lengthD [OF assms] by simp
  moreover have "regex_char_match CHR ''?'' (t ! length name)"
    using list_all2_nthD [OF assms, of "length name"] by simp
  then have "t ! length name = CHR ''?''" by (simp add: regex_char_match_def)
  ultimately show ?thesis by (metis nth_mem)
qed

lemma cache_bust_no_query: "CHR ''?'' \<notin> set s \<Longrightarrow> cache_bust name ts s = s"
proof (induction s)
  case Nil
  then show ?case by simp
next
  case (Cons x xs)
  have c: "\<not> (length (name @ ''?v='') \<le> length (x # xs) \<and>
      list_all2 regex_char_match (name @ ''?v='') (take (length (name @ ''?v='')) (x # xs)))"
  proof
    assume "length (name @ ''?v='') \<le> length (x # xs) \<and>
      list_all2 regex_char_match (name @ ''?v='') (take (length (name @ ''?v='')) (x # xs))"
    then have "CHR ''?'' \<in> set (take (length (name @ ''?v='')) (x # xs))"
      using regex_pattern_query by blast
    then show False using Cons.prems by (metis in_set_takeD)
  qed
  have "cache_bust name ts (x # xs) = x # cache_bust name ts xs"
    unfolding cache_bust.simps(2) Let_def using c by (rule if_not_P)
  then show ?case using Cons by simp
qed

lemma pad2_chars: "set (pad2 n) \<subseteq> set (''0'' @ nat_string n)"
  unfolding pad2_def slice_last2_def by (rule set_drop_subset)

lemma query_not_in_nat_string: "CHR ''?'' \<notin> set (nat_string n)"
  using nat_string_digits [of "CHR ''?''" n] by auto

lemma digits_nat_string: "\<forall>c \<in> set (nat_string n). is_ascii_digit c"
  using nat_string_digits by (auto simp: is_ascii_digit_def)

lemma run_task_leaf: "task_deps t = [] \<Longrightarrow> run_task started t = (if t \<in> set started then started else started @ [t])"
  by (subst run_task.simps) simp

lemma run_leaf_tasks:
  "\<forall>d \<in> set ds. task_deps d = [] \<Longrightarrow> distinct ds \<Longrightarrow>
   fold (\<lambda>d acc. run_task acc d) ds started = started @ filter (\<lambda>a. a \<notin> set started) ds"
proof (induction ds arbitrary: started)
  case Nil
  then show ?case by simp
next
  case (Cons d ds)
  have "filter (\<lambda>a. a \<notin> set (started @ [d])) ds = filter (\<lambda>a. a \<notin> set started) ds"
    using Cons.prems(2) by (auto intro: filter_cong)
  then show ?case using Cons by (simp add: run_task_leaf)
qed

lemma run_pipeline_plumbed: "run_pipeline fails True sts \<noteq> Crashed e"
proof (induction sts)
  case (Cons st sts)
  then show ?case by (cases st) (auto split: option.split)
qed simp


lemma query_not_in_pad2: "CHR ''?'' \<notin> set (pad2 n)"
  using pad2_chars [of n] query_not_in_nat_string [of n] by auto

lemma cache_bust_match:
  "cache_bust name ts (name @ ''?v='' @ rest) =
     name @ ''?v='' @ ts @ cache_bust name ts (dropWhile is_ascii_digit rest)"
proof -
  obtain x xs where s: "name @ ''?v='' @ rest = x # xs" by (cases name) auto
  have c: "length (name @ ''?v='') \<le> length (x # xs) \<and>
      list_all2 regex_char_match (name @ ''?v='') (take (length (name @ ''?v='')) (x # xs))"
    unfolding s [symmetric] using regex_pattern_self [of "name @ ''?v=''"] by simp
  have "cache_bust name ts (x # xs) =
        name @ ''?v='' @ ts @ cache_bust name ts (dropWhile is_ascii_digit (drop (length (name @ ''?v='')) (x # xs)))"
    unfolding cache_bust.simps(2) Let_def using c by (rule if_P)
  then show ?thesis unfolding s [symmetric] by simp
qed

lemma get_timestamp_year_split:
  "get_timestamp d = nat_string (full_year d) @ CHR ''-'' #
     join ''-'' (map pad2 [month0 d + 1, date_day d, date_hours d, date_minutes d, date_seconds d])"
  by (simp add: get_timestamp_def)


subsection \<open>Properties of the build\<close>

text \<open>C13: for every date as \<open>Date\<close> produces it, the timestamp of \<open>getTimestamp\<close>
  splits at its dashes into the year, month (counted from 1), day, hours, minutes and
  seconds, each read back as the number it was made from, and is the year followed by
  five fields of exactly two digits, each after a dash.\<close>

theorem get_timestamp_roundtrip:
  assumes "valid_date d"
  shows "map parse_nat (split_on CHR ''-'' (get_timestamp d)) =
           map Some [full_year d, month0 d + 1, date_day d, date_hours d, date_minutes d, date_seconds d] \<and>
         length (get_timestamp d) = length (nat_string (full_year d)) + 15"
proof -
  have p: "\<forall>n \<in> set [month0 d + 1, date_day d, date_hours d, date_minutes d, date_seconds d].
     parse_nat (pad2 n) = Some n \<and> CHR ''-'' \<notin> set (pad2 n) \<and> length (pad2 n) = 2"
    using valid_date_pads [OF assms] .
  have "split_on CHR ''-'' (get_timestamp d) =
        nat_string (full_year d) # map pad2 [month0 d + 1, date_day d, date_hours d, date_minutes d, date_seconds d]"
    unfolding get_timestamp_fields using p minus_not_in_nat_string
    by (intro split_on_join) auto
  then show ?thesis using p by (simp add: get_timestamp_def)
qed

lemma get_timestamp_roundtrip_witness:
  "valid_date \<lparr>full_year = 2015, month0 = 5, date_day = 7, date_hours = 9, date_minutes = 30, date_seconds = 5\<rparr> \<and>
   map parse_nat (split_on CHR ''-'' (get_timestamp \<lparr>full_year = 2015, month0 = 5, date_day = 7, date_hours = 9, date_minutes = 30, date_seconds = 5\<rparr>)) = map Some [2015, 6, 7, 9, 30, 5] \<and>
   length (get_timestamp \<lparr>full_year = 2015, month0 = 5, date_day = 7, date_hours = 9, date_minutes = 30, date_seconds = 5\<rparr>) = length (nat_string 2015) + 15"
  using get_timestamp_roundtrip [of "\<lparr>full_year = 2015, month0 = 5, date_day = 7, date_hours = 9, date_minutes = 30, date_seconds = 5\<rparr>"] by (simp add: valid_date_def)


text \<open>C14: \<open>gulp build\<close>, started after any tasks that already ran, runs each of
  the five asset tasks that has not run yet exactly once, in the order its dependency
  list gives, and then its own (empty) function; no task runs twice, and the tasks it
  runs besides itself are exactly the tasks the watchers of \<open>gulp watch\<close> rerun on a
  change: a build brings every output a watcher maintains up to date, and nothing else.\<close>

theorem build_runs_assets_once:
  assumes "distinct started" "BuildTask \<notin> set started"
  shows "run_task started BuildTask =
           started @ filter (\<lambda>a. a \<notin> set started) (task_deps BuildTask) @ [BuildTask] \<and>
         distinct (run_task started BuildTask) \<and>
         set (run_task started BuildTask) = set started \<union> set (concat (map snd watchers)) \<union> {BuildTask}"
proof -
  have eq: "run_task started BuildTask = started @ filter (\<lambda>a. a \<notin> set started) (task_deps BuildTask) @ [BuildTask]"
  proof -
    have f: "fold (\<lambda>d acc. run_task acc d) (task_deps BuildTask) started =
             started @ filter (\<lambda>a. a \<notin> set started) (task_deps BuildTask)"
      by (rule run_leaf_tasks) simp_all
    show ?thesis by (subst run_task.simps) (simp only: f if_not_P [OF assms(2)] append_assoc)
  qed
  have w: "set (concat (map snd watchers)) = set (task_deps BuildTask)"
    by (auto simp: watchers_def)
  show ?thesis using assms eq unfolding w by auto
qed

lemma build_runs_assets_once_witness:
  "distinct [MinifyCss] \<and> BuildTask \<notin> set [MinifyCss] \<and>
   run_task [MinifyCss] BuildTask = [MinifyCss, JavascriptLibraries, JavascriptApp, MinifyHtml, CopyImages, BuildTask] \<and>
   distinct (run_task [MinifyCss] BuildTask) \<and>
   set (run_task [MinifyCss] BuildTask) = set [MinifyCss] \<union> set (concat (map snd watchers)) \<union> {BuildTask}"
  using build_runs_assets_once [of "[MinifyCss]"] by (simp add: watchers_def insert_commute)

text \<open>C10: while \<open>gulp watch\<close> runs, a change to a file matched by the glob of
  one kind of source starts exactly the tasks of that kind's watcher: the globs of
  \<open>PATHS.src\<close> match disjoint sets of files, so no other watcher fires.\<close>

theorem watch_triggers_kind_tasks:
  assumes "glob_match (parse_glob (src_glob k)) p"
  shows "on_file_change p = the (map_of watchers k)"
proof -
  have only: "glob_match (parse_glob (src_glob k')) p \<longleftrightarrow> k' = k" for k'
    using assms src_globs_disjoint by blast
  have "on_file_change p = concat (map snd (filter (\<lambda>(k', ts). k' = k) watchers))"
    unfolding on_file_change_def by (rule arg_cong [where f = "\<lambda>xs. concat (map snd xs)"], rule filter_cong)
      (auto simp: only split: prod.splits)
  then show ?thesis by (cases k) (simp_all add: watchers_def)
qed

lemma watch_triggers_kind_tasks_witness:
  "glob_match (parse_glob (src_glob Scripts)) ''./src/js/main.js'' \<and>
   on_file_change ''./src/js/main.js'' = [JavascriptLibraries, JavascriptApp, MinifyHtml]"
  using watch_triggers_kind_tasks [of Scripts "''./src/js/main.js''"]
  by (simp add: watchers_def glob_match_star glob_match_globstar)

text \<open>C38: the cache-busting replacement of \<open>minify:html\<close> is not idempotent on
  its own output: on a reference that already carries a timestamp of
  \<open>getTimestamp\<close>, \<open>[0-9]*\<close> takes only the year, so the new timestamp is put in
  front of the old one's month, day and time, which stay behind it.\<close>

theorem cache_bust_own_timestamp:
  assumes "name \<in> {''style.min.css'', ''libraries.min.js'', ''main.min.js''}"
  shows "cache_bust name ts (name @ ''?v='' @ get_timestamp d) =
           name @ ''?v='' @ ts @ drop (length (nat_string (full_year d))) (get_timestamp d) \<and>
         take 1 (drop (length (nat_string (full_year d))) (get_timestamp d)) = ''-''"
proof -
  let ?r = "join ''-'' (map pad2 [month0 d + 1, date_day d, date_hours d, date_minutes d, date_seconds d])"
  have noq: "CHR ''?'' \<notin> set (CHR ''-'' # ?r)"
    using query_not_in_pad2 by simp
  have "dropWhile is_ascii_digit (nat_string (full_year d) @ CHR ''-'' # ?r) = CHR ''-'' # ?r"
    using digits_nat_string [of "full_year d"] by (simp add: dropWhile_append2 is_ascii_digit_def)
  then show ?thesis
    unfolding get_timestamp_year_split cache_bust_match using cache_bust_no_query [OF noq] by simp
qed

lemma cache_bust_own_timestamp_witness:
  "''main.min.js'' \<in> {''style.min.css'', ''libraries.min.js'', ''main.min.js''} \<and>
   cache_bust ''main.min.js'' ''T'' (''main.min.js'' @ ''?v='' @ get_timestamp \<lparr>full_year = 2015, month0 = 5,
     date_day = 7, date_hours = 9, date_minutes = 30, date_seconds = 5\<rparr>) =
   ''main.min.js'' @ ''?v='' @ ''T'' @ drop (length (nat_string 2015)) (get_timestamp \<lparr>full_year = 2015, month0 = 5,
     date_day = 7, date_hours = 9, date_minutes = 30, date_seconds = 5\<rparr>) \<and>
   take 1 (drop (length (nat_string 2015)) (get_timestamp \<lparr>full_year = 2015, month0 = 5,
     date_day = 7, date_hours = 9, date_minutes = 30, date_seconds = 5\<rparr>)) = ''-''"
  using cache_bust_own_timestamp [of "''main.min.js''" "''T''" "\<lparr>full_year = 2015, month0 = 5,
     date_day = 7, date_hours = 9, date_minutes = 30, date_seconds = 5\<rparr>"] by simp

text \<open>C15: the error of a task's stream stops the gulp process exactly when the
  stream's source fails: every task pipes its source into \<open>plumber\<close> first, so
  the errors of all later stages end the task through \<open>errorHandler\<close>, while an error
  of the source itself (for \<open>javascript:app\<close> the \<open>browserify\<close> bundle, that is a
  syntax error in \<open>src/js\<close>) has no handler.\<close>

theorem task_pipeline_crash:
  "(\<exists>e. run_pipeline fails False (task_pipeline t) = Crashed e) \<longleftrightarrow>
     task_pipeline t \<noteq> [] \<and> fails (hd (task_pipeline t)) \<noteq> None"
  by (cases t) (auto split: option.split simp: run_pipeline_plumbed)

end
