(* ===== verification/SceneInvariant.thy ===== *)
theory SceneInvariant
  imports Scene
begin

text \<open>
  The well-formedness of the state of \<open>LoadSceneState.js\<close>: the invariant every
  operation of the scene keeps, from \<open>initialize\<close> on. The pixel ratio matches the
  kind of device it was chosen for (line 81), every shell's offset lies in \<open>[0, 1)\<close>
  and its \<open>globalTime\<close> uniform equals the shader time (lines 318 and 460), and a
  scene that draws has a sized renderer (lines 197--203).
\<close>

definition wf_scene :: "scene \<Rightarrow> bool" where
  "wf_scene sc \<longleftrightarrow>
     scale_ratio sc = (if is_touch_device sc then 2 else 1) \<and>
     list_all (\<lambda>m. 0 \<le> offset m \<and> offset m < 1 \<and> global_time m = shader_time sc) (meshes sc) \<and>
     (renderer_size sc \<noteq> None \<or> \<not> has_gl sc)"

lemma wf_scene_render: "wf_scene sc \<Longrightarrow> wf_scene (fst (render now fft sc))"
  by (simp add: wf_scene_def render_scene list_all_iff)

lemma wf_scene_nb_loaded [simp]:
  "wf_scene (sc\<lparr>nb_loaded_resources := n\<rparr>) \<longleftrightarrow> wf_scene sc"
  by (simp add: wf_scene_def)

lemma wf_scene_resource_loaded:
  "wf_scene sc \<Longrightarrow> wf_scene (fst (resource_loaded_callback now fft sc))"
  by (simp add: resource_loaded_callback_cases wf_scene_render)

lemma wf_scene_new_shells:
  assumes "wf_scene sc"
  shows "wf_scene (sc\<lparr>meshes := meshes sc @
           map (\<lambda>i. \<lparr>offset = real i / real (nb_shells sc), global_time = shader_time sc\<rparr>) [0..<nb_shells sc]\<rparr>)"
proof -
  have "real i / real (nb_shells sc) < 1" if "i < nb_shells sc" for i
    using that by (simp add: nb_shells_def)
  then show ?thesis using assms by (auto simp: wf_scene_def list_all_iff)
qed

lemma wf_scene_mesh_loaded: "wf_scene sc \<Longrightarrow> wf_scene (fst (mesh_loaded now fft sc))"
  unfolding mesh_loaded_def Let_def by (rule wf_scene_resource_loaded, rule wf_scene_new_shells)

lemma wf_scene_camera [simp]:
  "wf_scene (sc\<lparr>camera := c, camera_aspect := a\<rparr>) \<longleftrightarrow> wf_scene sc"
  by (simp add: wf_scene_def)

lemma wf_scene_gl [simp]:
  "wf_scene sc \<Longrightarrow> wf_scene (sc\<lparr>renderer_size := Some r, has_gl := True\<rparr>)"
  by (simp add: wf_scene_def)

lemma wf_scene_init_scene: "wf_scene sc \<Longrightarrow> wf_scene (fst (init_scene webgl w h now fft sc))"
  using wf_scene_mesh_loaded [of "sc\<lparr>camera := (0, 0, 150), camera_aspect := w / h\<rparr>" now fft]
  by (simp add: init_scene_def Let_def split_beta)

subsection \<open>The invariant\<close>

text \<open>C9: the scene is well formed after \<open>initialize\<close>, and every operation of the
  scene keeps it: the frame step and \<open>_animate\<close>, the resource callback, the mesh
  build, \<open>_initScene\<close> and \<open>execute\<close> with or without WebGL, the resize, mouse and touch
  listeners (the last also when it throws on an empty touch list).\<close>

theorem scene_wf_invariant:
  assumes "wf_scene sc"
  shows "wf_scene (fst (scene_initialize touch)) \<and>
         wf_scene (fst (render now fft sc)) \<and> wf_scene (fst (animate now fft sc)) \<and>
         wf_scene (fst (resource_loaded_callback now fft sc)) \<and> wf_scene (fst (mesh_loaded now fft sc)) \<and>
         wf_scene (fst (init_scene webgl w h now fft sc)) \<and>
         wf_scene (fst (scene_execute webgl w h now fft sc)) \<and>
         wf_scene (on_window_resize w h sc) \<and> wf_scene (on_mouse_move cx cy w h sc) \<and>
         (case on_touch_move tps w h sc of None \<Rightarrow> True | Some sc' \<Rightarrow> wf_scene sc')"
proof (intro conjI)
  show "wf_scene (fst (animate now fft sc))" "wf_scene (fst (render now fft sc))"
    using wf_scene_render [OF assms] by (simp_all add: animate_def split_beta)
  show "wf_scene (fst (init_scene webgl w h now fft sc))" "wf_scene (fst (scene_execute webgl w h now fft sc))"
    using wf_scene_init_scene [OF assms] by (simp_all add: scene_execute_def split_beta)
  show "case on_touch_move tps w h sc of None \<Rightarrow> True | Some sc' \<Rightarrow> wf_scene sc'"
    using assms by (simp add: on_touch_move_def wf_scene_def split: list.split)
qed (use assms wf_scene_resource_loaded wf_scene_mesh_loaded in
       \<open>simp_all add: scene_initialize_def wf_scene_def on_window_resize_def on_mouse_move_def\<close>)

lemma scene_wf_invariant_witness:
  "wf_scene (fst (scene_initialize False)) \<and>
   wf_scene (fst (scene_execute True 800 600 0 (0, 0, 0) (fst (scene_initialize False))))"
  using scene_wf_invariant [of "fst (scene_initialize False)"] by (simp add: scene_initialize_def wf_scene_def)

end
