(* ===== verification/Spec2Isabelle.thy ===== *)
theory Spec2Isabelle
  imports Refinement ClassName Analytics GraphicContext Gulpfile SceneInvariant
begin

text \<open>
  \<^bold>\<open>A verification development of WebGL-FFT.\<close>

  The program (\<open>src/src/js\<close>) is a browser page: it resolves a SoundCloud track,
  downloads and decodes its audio, waits for a click, then builds a fur-shell scene
  and animates it from three bins of the audio spectrum and from the pointer. Its
  parts and how they meet:
  \<^item> \<open>Application.js\<close> holds the current state (\<open>changeState\<close>), the Web Audio
    graph (buffer source, analyser, script processor), the spectrum sample \<open>_FFT\<close>
    that the script processor's \<open>onaudioprocess\<close> refreshes, and the operations the
    states call (\<open>setSourceNodeBuffer\<close>, \<open>playAudio\<close>, \<open>getFFT\<close>,
    \<open>setTrackInfo\<close>);
  \<^item> \<open>LoadingState.js\<close>, \<open>PlayState.js\<close>, \<open>LoadSceneState.js\<close> are the three
    state objects (\<open>enter\<close>/\<open>execute\<close>/\<open>exit\<close>); they move the application on
    from asynchronous callbacks: decode done \<open>\<rightarrow>\<close> Play, click \<open>\<rightarrow>\<close> LoadScene;
  \<^item> \<open>LoadSceneState.js\<close> keeps the scene's module state, joins the two resource
    loads in a barrier that starts the audio and the animation loop, and runs the
    per-frame step \<open>_render\<close>;
  \<^item> \<open>Utils.js\<close> holds the request, CSS-class and random helpers.
  \<^item> \<open>src/gulpfile.js\<close> builds \<open>dist/\<close> from the sources: five asset tasks,
    \<open>build\<close> and \<open>default\<close> over them, and \<open>watch\<close>, which reruns tasks when a
    source file changes; \<open>minify:html\<close> stamps the bundle references of the page
    with \<open>getTimestamp\<close>.

  \<^bold>\<open>Theories.\<close>
  \<^item> \<open>Prelude\<close>: the model's number types (\<open>real\<close> for JavaScript numbers,
    \<open>8 word\<close> for \<open>Uint8Array\<close> bytes, \<open>int\<close> for \<open>Date.now()\<close>), the
    collections \<open>model_defs\<close> and \<open>approach_simps\<close>, and the shared facts on the
    exponential approach and on the sines the gravity mapping reaches.
  \<^item> \<open>StateMachine\<close>: \<open>changeState\<close> over any state objects (a record of three
    functions); C1--C2.
  \<^item> \<open>Scene\<close>: \<open>LoadSceneState.js\<close>, its module variables as the record
    \<open>scene\<close> and each function returning the new record and its requests to the
    rest of the program (\<open>scene_effect\<close>): \<open>scene_initialize\<close>, \<open>init_scene\<close>,
    \<open>mesh_loaded\<close>, \<open>resource_loaded_callback\<close>, \<open>animate\<close>, \<open>render\<close> (with
    its parts \<open>frame_delta\<close>, \<open>frame_smoothing\<close>, \<open>spring_step\<close>,
    \<open>fft_gravity\<close>, \<open>camera_step\<close>) and the listeners; C3--C8, C12.
  \<^item> \<open>SceneInvariant\<close>: the well-formedness \<open>wf_scene\<close> of the scene state and
    its preservation by every operation of \<open>Scene\<close>; C9.
  \<^item> \<open>Utils\<close>: the page (class lists, texts, attributes of the elements the code
    looks up) and \<open>Utils.js\<close>.
  \<^item> \<open>Application\<close>: the audio graph, the spectrum sample, the source node and the
    track display of \<open>Application.js\<close>; C16, C18.
  \<^item> \<open>World\<close>: the state the whole program runs on (module states, page, the
    callbacks the browser holds, clock, console, Google Analytics events) and the interpreter of the scene's
    effects.
  \<^item> \<open>LoadingState\<close>, \<open>PlayState\<close>: the two states' operations on the world.
  \<^item> \<open>System\<close>: the application states, ordered as the program goes through
    them (an instance of \<open>linorder\<close>), the object each state module returns
    (\<open>state_object\<close>), the registry \<open>States\<close> (\<open>states\<close>) and the three objects
    as one \<open>state_ops\<close>,
    \<open>initialize\<close>, the
    callbacks that change the state (\<open>sound_loaded\<close>, \<open>launch_click\<close>), the
    analytics listeners on the world (\<open>setup_tracking\<close>, \<open>link_click_world\<close>,
    through the view \<open>tracking_of\<close> of the world as the state of \<open>Analytics\<close>), the
    events the browser delivers, \<open>enabled\<close>, \<open>step\<close>, the reachable states and
    \<open>run\<close>.
  \<^item> \<open>SystemInvariants\<close>: the invariant \<open>phase_inv\<close> of the reachable states,
    kept by every event, and the properties of the whole program; C17, C19--C27.
  \<^item> \<open>Refinement\<close>: the specification's state machine (\<open>spec_trans\<close>) and the
    abstraction \<open>abs_system\<close> of a program state; every run of the program is a
    behaviour of it; C39.
  \<^item> \<open>Texture\<close>: the fur texture of \<open>_generateTexture\<close> as the list of 2D-context
    calls from a stream of \<open>Math.random()\<close> values, the \<open>rgba(...)\<close> string as
    JavaScript prints it and a reader for it; C30--C32.
  \<^item> \<open>ClassName\<close>: the \<open>className\<close> fallback of \<open>removeCSSClass\<close> (the global
    replacement of \<open>(^|\b)c(\b|$)\<close>, flags \<open>gi\<close>) and of \<open>addCSSClass\<close>,
    against the \<open>classList\<close> model of \<open>Utils\<close>; C33--C36.
  \<^item> \<open>Analytics\<close>: the click listeners of \<open>_setupGoogleAnalyticsTracking\<close> (the
    About dialog and the \<open>ga\<close> calls) and \<open>preventDefaultEvent\<close>; C37.
  \<^item> \<open>Debug\<close>: the debug mode: \<open>asyncLoadScript\<close>, the stats panels, the controls,
    and the spectrum drawing of \<open>onaudioprocess\<close>.
  \<^item> \<open>DebugSystem\<close>: the whole of \<open>initialize\<close> from a browser (\<open>browser\<close>:
    the URL hash, the \<open>AudioContext\<close> names the window defines, the device):
    \<open>application_initialize\<close> starts the debug mode first, then the
    \<open>AudioContext\<close> polyfill (\<open>audio_context_ctor\<close>) and, when it finds no
    constructor, stops on the \<open>TypeError\<close> with no current state. The debug
    mode's callbacks (script loads, stats frames, the GUI controls) are events
    \<open>devent\<close> of the composed machine \<open>dsystem\<close> beside the events of
    \<open>System\<close>, with \<open>denabled\<close>, \<open>dstep\<close> and \<open>drun\<close>; the lemmas
    \<open>console_blind\<close>/\<open>sys_blind\<close> show every operation ignores the console;
    C11, C40.
  \<^item> \<open>GraphicContext\<close>: the \<open>requestAnimationFrame\<close> polyfill of
    \<open>_initializeGraphicContext\<close> (\<open>initialize_graphic_context\<close>, a browser
    \<open>gbrowser\<close> extending \<open>browser\<close> with its animation-frame names), and
    \<open>_animate\<close> and the resource barrier with or without it
    (\<open>animate_raf\<close>, \<open>resource_loaded_callback_raf\<close>). The page
    (\<open>gstep\<close>, \<open>grun\<close>) is \<open>System\<close> whose texture callback runs this barrier;
    with \<open>requestAnimationFrame\<close> it is \<open>System\<close> (\<open>grun_True\<close>). Without it
    the invariant \<open>noraf_inv\<close> (\<open>phase_inv\<close> with the frame callback the barrier
    would have held) is kept by every event; C28.
  \<^item> \<open>Gulpfile\<close>: \<open>src/gulpfile.js\<close>: \<open>getTimestamp\<close> on the fields of a
    \<open>Date\<close> (\<open>js_date\<close>), the tasks (\<open>gulp_task\<close>) with their dependencies and
    \<open>run_task\<close> (gulp's order: dependencies first, each task once), the globs of
    \<open>PATHS.src\<close> (\<open>parse_glob\<close>, \<open>glob_match\<close>) and the watchers
    (\<open>on_file_change\<close>), the cache-busting replaces (\<open>cache_bust\<close>) and each
    task's stream (\<open>task_pipeline\<close>) with plumber's error handling
    (\<open>run_pipeline\<close>); C10, C13--C15, C38.
  \<^item> this theory: the page reaches its animated scene from every page load, for any
    track and buffer (\<open>run_reaches_scene\<close>, through \<open>launch_click_from_play\<close> and
    \<open>texture_completes_barrier\<close>); C29.

  \<^bold>\<open>What the lemmas show.\<close> The state protocol is idempotent and orders
  exit, enter, execute (C1, C2); a decode installs the buffer, then runs Loading's
  exit and Play's enter and execute (C27); the application only moves forward through its
  three states, one step at a time, over every run (C19), leaves Loading only with a decoded buffer (C20), and stays in
  Loading for ever after a failed request or decode (C24); from every page load
  and for any track, the schedule from the metadata to the texture load reaches the
  animated scene (C29). The resource barrier starts
  playback and the animation loop exactly once (C3), playback is never started twice
  nor stopped (C21), and there is exactly one animation loop, started with the audio
  (C22); a repeated launch click changes no state but sends a second launch event to Google Analytics (C23). The requests are strictly
  sequential (C26). The frame step's delta guard (C4, C5, C12), gravity bounds (C6) and
  camera approach (C8) are characterised, and the gravity follows bin 194 on x and
  bin 4 on y, monotonically, whatever else the frame reads (C7); the scene state stays well formed
  (pixel ratio, shell offsets and uniforms, renderer) under every operation (C9); the
  spectrum sample is bins 4, 194, 202 of the latest tick (C16); the track display throws on a track without user or permalink (C18).
  Without WebGL nothing is drawn and the pointer is never read (C25). Read through
  \<open>abs_system\<close>, the program refines the specification's state machine (C39). The fur
  texture's strands stay on the canvas with bounded colours (C30), its fill style reads
  back as its components (C31), and only the strands whose alpha draw is at least
  \<open>13/14\<close> are opaque (C32). The \<open>className\<close> fallback agrees with \<open>classList\<close> on
  classes made of word characters (C33, C34), diverges on hyphenated classes and
  on repeated additions (C35), and adding then removing a class gives back the
  original classes (C36). Each About click
  leaves one more listener on the close button, and the About modal is hidden exactly
  when the last About-or-close click was a close click (C37). In the whole program
  the tracked links can be clicked in every reachable state, without touching the
  application state, the scene or the audio, and each click on a tracked link adds
  its event to the analytics log (C17). The debug mode is transparent: with its
  callbacks interleaved with the page's events in any order, and Play Sound excepted,
  the program reaches the state it reaches without them, up to the console that the
  Trim handlers write (C11); the Play Sound control starts the source node a second
  time. Without any \<open>AudioContext\<close> name in the window, \<open>initialize\<close> throws
  after requesting the debug scripts, and no event ever starts the program: the
  page stays on its loader with nothing shown (C40). Without \<open>requestAnimationFrame\<close>
  the barrier starts the track and \<open>_animate\<close> throws before drawing: the audio
  plays once and nothing is ever drawn (C28).
  For the build: the timestamp reads back as the date it was made from (C13),
  \<open>build\<close> runs each asset task once before itself, and these are exactly the
  tasks the watchers rerun (C14), a changed source file
  starts exactly its own watcher's tasks since the globs are disjoint (C10), a task's
  error stops the process exactly when the stream's source fails, before plumber
  (C15), and the cache-busting replace is not idempotent on its own timestamps (C38).

  \<^bold>\<open>Modelling choices.\<close> \<open>Math.random()\<close> is a stream of reals in
  \<open>[0, 1)\<close>, one per call in the order of the source. JavaScript numbers are exact reals: IEEE rounding, NaN
  and infinities are not modelled, except the one NaN the code tests (the first
  frame's delta, \<open>None\<close>). \<open>Date.now()\<close> is an integer clock that an event may set
  to any value, so that a clock going back is a behaviour of the model. A module's
  \<open>undefined\<close> variable is an \<open>option\<close> where the code tests it, an exception an
  \<open>option\<close> result (\<open>setTrackInfo\<close>, \<open>_onTouchMove\<close>). The browser is the set
  of callbacks it holds; an event is enabled only when its callback is held, and
  runs to completion (one thread). No fuel is needed. Every function of the program
  is non-recursive or structural, except the global regular-expression replacement
  (\<open>ClassName.scan\<close>), whose termination is a measure on the remaining input,
  and in \<open>Gulpfile\<close> the glob parser and matcher and the cache-busting replace
  (measures on the remaining text and glob) and \<open>run_task\<close> (the depth of a task
  in the dependency graph, at most 1). The
  unbounded loops are events: the animation loop of the scene repeats
  \<open>AnimationFrame\<close>, and the stats loop of the debug mode repeats \<open>stats_frame\<close>.

  \<^bold>\<open>Not modelled.\<close> Three.js itself (scene graph, shaders, matrices, the
  texture and sprite objects; the model keeps the uniforms, camera position and draw
  calls the code produces), the Stats and dat.GUI libraries (a panel is its mode and
  style, a control its value), \<open>JSON.parse\<close> (the parsed track is the event's
  payload), and the content transforms of the gulp plugins
  (concatenation, minifiers, autoprefixer, image optimisation, source maps, the
  \<open>browserify\<close> bundle): a stage of a task's stream is its name and whether it
  fails. Gulp's concurrency between tasks is not modelled: \<open>run_task\<close> gives the
  order of a sequential run. The
  claims on \<open>System\<close> (C17, C19--C27, C29, C39) describe its events in a browser
  with \<open>requestAnimationFrame\<close> (C28 is the page without it); C11 carries them
  to the page under \<open>#debug\<close>, except after a Play Sound click, which adds the
  second \<open>start()\<close> that C21 excludes.
  The page markup is not in the repository: the model assumes the elements the code
  looks up exist, in particular the \<open>FFTContainer\<close> canvas that the debug mode reads
  without a check. A launch click stays enabled after the play button's container is
  hidden (a hidden element receives no clicks in a browser): an over-approximation,
  sound for the safety claims, under which C23 shows the extra click changes nothing
  but the analytics log. A track's user is its permalink, so a user object without
  \<open>permalink_url\<close> (which would not throw at line 508) is not represented.
  The className fallback is modelled for a class name without spaces or regular-expression
  metacharacters (the program passes \<open>'hidden'\<close>); JavaScript numbers are exact
  reals, so the spring's convergence under repeated frames is not claimed.
\<close>

lemma run_append:
  "run (es @ es') m = (case run es m of None \<Rightarrow> None | Some m' \<Rightarrow> run es' m')"
  by (induction es arbitrary: m) auto

lemma launch_click_from_play:
  assumes inv: "phase_inv m" and cur: "current m = Some Play"
  shows "current (step LaunchClick m) = Some LoadScene \<and> app (world (step LaunchClick m)) = app (world m) \<and>
    draw_calls (world (step LaunchClick m)) = draw_calls (world m) \<and>
    webgl_available (world (step LaunchClick m)) = webgl_available (world m) \<and>
    nb_loaded_resources (scene (world (step LaunchClick m))) = 1"
proof -
  have l: "launch_listeners (pending (world m)) = 1" and nb: "nb_loaded_resources (scene (world m)) = 0"
    using inv cur by (simp_all add: phase_inv_def Let_def)
  have "step LaunchClick m = change_app_state LoadScene (on_world launch_click_page m)"
    using l by (simp add: launch_click_def launch_listener_def)
  also have "\<dots> = \<lparr>current = Some LoadScene,
      world = scene_state_execute (scene_state_enter (play_exit (launch_click_page (world m))))\<rparr>"
    using cur by (simp add: change_app_state_to_scene on_world_def)
  finally show ?thesis
    using nb
    by (simp add: scene_state_execute_def scene_state_enter_def play_exit_def launch_click_page_def
        run_scene_def scene_execute_def scene_enter_def init_scene_first console_log_def split_beta Let_def)
qed

lemma texture_completes_barrier:
  assumes "nb_loaded_resources (scene (world m)) = 1"
  shows "current (step TextureLoad m) = current m \<and>
    source (app (world (step TextureLoad m))) =
      map_option (\<lambda>n. n\<lparr>start_calls := Suc (start_calls n)\<rparr>) (source (app (world m))) \<and>
    frame_callbacks (pending (world (step TextureLoad m))) = Suc (frame_callbacks (pending (world m))) \<and>
    draw_calls (world (step TextureLoad m)) = draw_calls (world m) + (if has_gl (scene (world m)) then 1 else 0)"
  using assms
  by (simp add: on_world_def set_pending_def run_scene_def resource_loaded_callback_cases play_audio_def
      split: option.split)

text \<open>C29: from every page load (with or without WebGL, on any device, window, clock
  and page) and for any track the metadata request returns, whether or not
  \<open>setTrackInfo\<close> throws on it, and any decoded buffer, the schedule metadata, audio
  load, decode, launch click, texture load is enabled at each step and reaches the
  animated scene: LoadScene, the decoded buffer started once and never stopped, one
  frame callback held, and one frame drawn exactly when WebGL is available.\<close>

theorem run_reaches_scene:
  "\<exists>m. run [MetadataReadyState 4 200 (Some info), AudioLoad, DecodeSuccess b, LaunchClick, TextureLoad]
         (initialize webgl touch win t0 page0) = Some m \<and>
       current m = Some LoadScene \<and>
       source (app (world m)) = Some \<lparr>buffer = Some b, start_calls = 1, stop_calls = 0\<rparr> \<and>
       frame_callbacks (pending (world m)) = 1 \<and> draw_calls (world m) = (if webgl then 1 else 0)"
proof -
  let ?m0 = "initialize webgl touch win t0 page0"
  have "\<exists>m3. run [MetadataReadyState 4 200 (Some info), AudioLoad, DecodeSuccess b] ?m0 = Some m3 \<and>
      current m3 = Some Play \<and> source (app (world m3)) = Some \<lparr>buffer = Some b, start_calls = 0, stop_calls = 0\<rparr> \<and>
      draw_calls (world m3) = 0 \<and> webgl_available (world m3) = webgl"
    by (cases "set_track_info info page0")
      (simp_all add: model_defs Let_def split_beta ajax_callback_fires_def del: set_track_info_def)
  then obtain m3 where r3: "run [MetadataReadyState 4 200 (Some info), AudioLoad, DecodeSuccess b] ?m0 = Some m3"
    and c3: "current m3 = Some Play"
    and s3: "source (app (world m3)) = Some \<lparr>buffer = Some b, start_calls = 0, stop_calls = 0\<rparr>"
    and d3: "draw_calls (world m3) = 0" and w3: "webgl_available (world m3) = webgl"
    by blast
  have inv3: "phase_inv m3" using run_reachable [OF r3 reachable.init] by (rule reachable_phase_inv)
  let ?m4 = "step LaunchClick m3"
  have l4: "current ?m4 = Some LoadScene \<and> app (world ?m4) = app (world m3) \<and>
      draw_calls (world ?m4) = draw_calls (world m3) \<and> webgl_available (world ?m4) = webgl_available (world m3) \<and>
      nb_loaded_resources (scene (world ?m4)) = 1"
    by (rule launch_click_from_play [OF inv3 c3])
  have inv4: "phase_inv ?m4" using inv3 by (rule inv_step) simp
  then have e4: "enabled TextureLoad ?m4" and g4: "has_gl (scene (world ?m4)) = webgl"
    and f4: "frame_callbacks (pending (world ?m4)) = 0"
    using l4 w3 by (simp_all add: phase_inv_def Let_def)
  let ?m5 = "step TextureLoad ?m4"
  have t5: "current ?m5 = current ?m4 \<and>
      source (app (world ?m5)) = map_option (\<lambda>n. n\<lparr>start_calls := Suc (start_calls n)\<rparr>) (source (app (world ?m4))) \<and>
      frame_callbacks (pending (world ?m5)) = Suc (frame_callbacks (pending (world ?m4))) \<and>
      draw_calls (world ?m5) = draw_calls (world ?m4) + (if has_gl (scene (world ?m4)) then 1 else 0)"
    using l4 by (intro texture_completes_barrier) simp
  have "run [MetadataReadyState 4 200 (Some info), AudioLoad, DecodeSuccess b, LaunchClick, TextureLoad] ?m0 = Some ?m5"
    using run_append [of "[MetadataReadyState 4 200 (Some info), AudioLoad, DecodeSuccess b]" "[LaunchClick, TextureLoad]" ?m0]
      r3 e4 by simp
  then show ?thesis using t5 l4 s3 d3 g4 f4 by auto
qed

text \<open>An example schedule from page load: after the metadata arrives, the
  audio loads and decodes, the user clicks and the texture loads, the scene is
  animating with the audio started once, one frame callback held, two frames drawn,
  the page shows the track as Abidjan, and one launch was sent to Google Analytics.\<close>

theorem demo_run_example:
  "\<exists>m. run demo_events demo_init = Some m \<and> current m = Some LoadScene \<and>
       source (app (world m)) = Some \<lparr>buffer = Some (AudioBuffer 1), start_calls = 1, stop_calls = 0\<rparr> \<and>
       frame_callbacks (pending (world m)) = 1 \<and> draw_calls (world m) = 2 \<and>
       shader_time (scene (world m)) = 1 / 12 + 2 / 25 \<and>
       text_content (page (world m)) TrackTitle = ''Abidjan'' \<and>
       ''hidden'' \<notin> set (class_list (page (world m)) TrackInfo) \<and>
       analytics (world m) = [(''Button'', ''Click'', ''Launch Experience'')]"
  by (simp add: demo_simps)

end
